theory Spec2Isabelle
  imports Main "HOL-Library.Sublist" "HOL-Library.AList"
begin

section \<open>Universal\_proxy: a logging interception layer\<close>

text \<open>
  The class \<^verbatim>\<open>Universal_proxy\<close> of \<^verbatim>\<open>src/proxy/universal_proxy.js\<close> wraps a
  target value in an ECMAScript \<^verbatim>\<open>Proxy\<close> whose trap handlers call the matching
  \<^verbatim>\<open>Reflect\<close> primitive, call the configured hooks and write one line per
  operation to a log sink. This theory embeds the handlers, \<^verbatim>\<open>safeStringify\<close>,
  \<^verbatim>\<open>log\<close> and the constructor as HOL functions and settles the claims of the
  specification against them.

  What the class does not define (the \<^verbatim>\<open>Reflect\<close> primitives, \<^verbatim>\<open>JSON.stringify\<close>,
  the string coercion of objects, the console) is the platform: a record of
  functions over an engine state \<open>'s\<close> that the handlers are parametrised with.
\<close>

subsection \<open>Values\<close>

text \<open>
  A property key is a string or a symbol; a symbol has an identity and an optional
  description (\<^verbatim>\<open>prop.description\<close> is \<^verbatim>\<open>undefined\<close> when it has none).
\<close>

datatype key = KStr string | KSym nat "string option"

text \<open>
  Values. \<open>Obj\<close> and \<open>Fun\<close> are references to an ordinary object and to a function of
  the environment, \<open>Arr\<close> is an array given by its elements (the argument list of a
  call), \<open>Number\<close> is an integer-valued number. \<open>ObjProxy t p\<close> is the value of
  \<^verbatim>\<open>createProxy(t, p)\<close> and \<open>FunProxy t p\<close> the value of
  \<^verbatim>\<open>createFunctionProxy(t, p)\<close>: the proxy's target and the path its handlers
  close over.
\<close>

datatype jsval =
    Undefined
  | Null
  | Boolean bool
  | Number int
  | Str string
  | BigInt int
  | Symbol nat "string option"
  | Obj nat
  | Fun nat
  | Arr "jsval list"
  | ObjProxy jsval string
  | FunProxy jsval string

datatype jserr = TypeError | Thrown jsval

text \<open>\<^verbatim>\<open>typeof\<close>: a proxy is callable exactly when its target is.\<close>

fun js_typeof :: "jsval \<Rightarrow> string" where
  "js_typeof Undefined = ''undefined''"
| "js_typeof Null = ''object''"
| "js_typeof (Boolean b) = ''boolean''"
| "js_typeof (Number n) = ''number''"
| "js_typeof (Str s) = ''string''"
| "js_typeof (BigInt n) = ''bigint''"
| "js_typeof (Symbol i d) = ''symbol''"
| "js_typeof (Obj a) = ''object''"
| "js_typeof (Fun a) = ''function''"
| "js_typeof (Arr xs) = ''object''"
| "js_typeof (ObjProxy t p) = js_typeof t"
| "js_typeof (FunProxy t p) = js_typeof t"

text \<open>\<^verbatim>\<open>value == null\<close>\<close>

definition nullish :: "jsval \<Rightarrow> bool" where
  "nullish v = (v = Null \<or> v = Undefined)"

text \<open>
  Truthiness, as the guard \<^verbatim>\<open>value && ...\<close> reads it. Every object is truthy;
  on the numbers of the model only zero is falsy.
\<close>

fun truthy :: "jsval \<Rightarrow> bool" where
  "truthy Undefined = False"
| "truthy Null = False"
| "truthy (Boolean b) = b"
| "truthy (Number n) = (n \<noteq> 0)"
| "truthy (Str s) = (s \<noteq> [])"
| "truthy (BigInt n) = (n \<noteq> 0)"
| "truthy v = True"

text \<open>A value is primitive when it is \<^verbatim>\<open>null\<close> or neither an object nor a function.\<close>

definition primitive :: "jsval \<Rightarrow> bool" where
  "primitive v = (v = Null \<or> (js_typeof v \<noteq> ''object'' \<and> js_typeof v \<noteq> ''function''))"

text \<open>\<^verbatim>\<open>a ?? b\<close>\<close>

definition coalesce :: "jsval \<Rightarrow> jsval \<Rightarrow> jsval" where
  "coalesce a b = (if nullish a then b else a)"

subsection \<open>Computations\<close>

text \<open>
  A computation runs on the engine state and ends with a thrown error (\<open>Inl\<close>) or a
  value (\<open>Inr\<close>), the state it leaves and a journal: the steps this computation itself
  took, in order. The journal is how the order of a handler's steps and the lines it
  hands to the sink are read off. What the platform does inside one of its
  primitives, a hook or the sink is part of the state, not of the journal: when a
  primitive is given a value that is itself a proxy of this class, as
  \<^verbatim>\<open>JSON.stringify\<close> is by the read trap for an object it has just wrapped, the
  handlers the engine runs for it run inside that call, and their lines are not in
  the journal of the handler that made the call.
\<close>

datatype realop =
    RGet jsval key jsval
  | RSet jsval key jsval jsval
  | RHas jsval key
  | RDelete jsval key
  | RDefine jsval key jsval
  | RGetProto jsval
  | RSetProto jsval jsval
  | RPreventExt jsval
  | RIsExt jsval
  | RApply jsval jsval jsval
  | RConstruct jsval jsval jsval

datatype step = Hook string | Real realop | Emit string

type_synonym ('s, 'a) prim = "'s \<Rightarrow> (jserr + 'a) \<times> 's"

type_synonym ('s, 'a) js = "'s \<Rightarrow> (jserr + 'a) \<times> 's \<times> step list"

definition ret :: "'a \<Rightarrow> ('s, 'a) js" where
  "ret x = (\<lambda>s. (Inr x, s, []))"

definition throw :: "jserr \<Rightarrow> ('s, 'a) js" where
  "throw e = (\<lambda>s. (Inl e, s, []))"

definition bindJ :: "('s, 'a) js \<Rightarrow> ('a \<Rightarrow> ('s, 'b) js) \<Rightarrow> ('s, 'b) js" where
  "bindJ m f = (\<lambda>s. case m s of
       (Inl e, s1, j1) \<Rightarrow> (Inl e, s1, j1)
     | (Inr x, s1, j1) \<Rightarrow> (case f x s1 of (r, s2, j2) \<Rightarrow> (r, s2, j1 @ j2)))"

text \<open>A platform call, a hook call or a sink call, with the step it is journalled as.\<close>

definition lift :: "('s, 'a) prim \<Rightarrow> ('s, 'a) js" where
  "lift p = (\<lambda>s. case p s of (r, s1) \<Rightarrow> (r, s1, []))"

definition perform :: "step \<Rightarrow> ('s, 'a) prim \<Rightarrow> ('s, 'a) js" where
  "perform st p = (\<lambda>s. case p s of (r, s1) \<Rightarrow> (r, s1, [st]))"

definition outcome :: "(jserr + 'a) \<times> 's \<times> step list \<Rightarrow> jserr + 'a" where
  "outcome r = fst r"

definition final :: "(jserr + 'a) \<times> 's \<times> step list \<Rightarrow> 's" where
  "final r = fst (snd r)"

definition journal :: "(jserr + 'a) \<times> 's \<times> step list \<Rightarrow> step list" where
  "journal r = snd (snd r)"

text \<open>The lines a computation handed to the sink, and the other steps.\<close>

fun emitted :: "step list \<Rightarrow> string list" where
  "emitted [] = []"
| "emitted (Emit l # js) = l # emitted js"
| "emitted (_ # js) = emitted js"

subsection \<open>The platform and the options\<close>

record 's platform =
  reflect_get :: "jsval \<Rightarrow> key \<Rightarrow> jsval \<Rightarrow> ('s, jsval) prim"
  reflect_set :: "jsval \<Rightarrow> key \<Rightarrow> jsval \<Rightarrow> jsval \<Rightarrow> ('s, bool) prim"
  reflect_has :: "jsval \<Rightarrow> key \<Rightarrow> ('s, bool) prim"
  reflect_deleteProperty :: "jsval \<Rightarrow> key \<Rightarrow> ('s, bool) prim"
  reflect_defineProperty :: "jsval \<Rightarrow> key \<Rightarrow> jsval \<Rightarrow> ('s, bool) prim"
  reflect_getPrototypeOf :: "jsval \<Rightarrow> ('s, jsval) prim"
  reflect_setPrototypeOf :: "jsval \<Rightarrow> jsval \<Rightarrow> ('s, bool) prim"
  reflect_preventExtensions :: "jsval \<Rightarrow> ('s, bool) prim"
  reflect_isExtensible :: "jsval \<Rightarrow> ('s, bool) prim"
  reflect_apply :: "jsval \<Rightarrow> jsval \<Rightarrow> jsval \<Rightarrow> ('s, jsval) prim"
  reflect_construct :: "jsval \<Rightarrow> jsval \<Rightarrow> jsval \<Rightarrow> ('s, jsval) prim"
  json_stringify :: "jsval \<Rightarrow> ('s, string option) prim"
  object_to_string :: "jsval \<Rightarrow> ('s, string) prim"
  number_to_string :: "int \<Rightarrow> string"
  console_method :: "string \<Rightarrow> (string \<Rightarrow> ('s, unit) prim) option"
  console_log :: "string \<Rightarrow> ('s, unit) prim"

text \<open>
  \<open>json_stringify\<close> returns \<open>None\<close> where \<^verbatim>\<open>JSON.stringify\<close> returns
  \<^verbatim>\<open>undefined\<close>. \<open>console_method n\<close> is \<^verbatim>\<open>console[n]\<close>, \<open>None\<close> when it is
  falsy.
\<close>

datatype 's loglevel = LevelName string | LevelFn "string \<Rightarrow> ('s, unit) prim"

record 's options =
  logLevel :: "'s loglevel"
  watchedProps :: "key set option"
  contextName :: string
  proxy_type :: string
  bindThis :: bool
  beforeGet :: "(string \<Rightarrow> key \<Rightarrow> ('s, jsval) prim) option"
  afterGet :: "(string \<Rightarrow> key \<Rightarrow> jsval \<Rightarrow> ('s, jsval) prim) option"
  beforeSet :: "(string \<Rightarrow> key \<Rightarrow> jsval \<Rightarrow> ('s, jsval) prim) option"
  afterSet :: "(string \<Rightarrow> key \<Rightarrow> jsval \<Rightarrow> ('s, jsval) prim) option"
  beforeApply :: "(string \<Rightarrow> jsval \<Rightarrow> ('s, jsval) prim) option"
  afterApply :: "(string \<Rightarrow> jsval \<Rightarrow> ('s, jsval) prim) option"

text \<open>The defaults the constructor merges the caller's options over.\<close>

definition default_options :: "'s options" where
  "default_options = \<lparr> logLevel = LevelName ''info'', watchedProps = None,
     contextName = ''obj'', proxy_type = ''object'', bindThis = False,
     beforeGet = None, afterGet = None, beforeSet = None, afterSet = None,
     beforeApply = None, afterApply = None \<rparr>"

text \<open>\<^verbatim>\<open>hook?.(...)\<close>: \<^verbatim>\<open>undefined\<close> when the hook is absent.\<close>

definition opt_call :: "string \<Rightarrow> 'h option \<Rightarrow> ('h \<Rightarrow> ('s, jsval) prim) \<Rightarrow> ('s, jsval) js" where
  "opt_call name h run = (case h of None \<Rightarrow> ret Undefined | Some f \<Rightarrow> perform (Hook name) (run f))"

subsection \<open>Strings\<close>

text \<open>\<^verbatim>\<open>path.includes(sub)\<close>: \<open>sub\<close> occurs in \<open>s\<close> as a contiguous run.\<close>

fun includes_str :: "string \<Rightarrow> string \<Rightarrow> bool" where
  "includes_str [] sub = (sub = [])"
| "includes_str (c # cs) sub = (prefix sub (c # cs) \<or> includes_str cs sub)"

fun digit_char :: "nat \<Rightarrow> char" where
  "digit_char n = char_of (48 + n)"

fun show_nat :: "nat \<Rightarrow> string" where
  "show_nat n = (if n < 10 then [digit_char n] else show_nat (n div 10) @ [digit_char (n mod 10)])"

definition show_int :: "int \<Rightarrow> string" where
  "show_int i = (if i < 0 then CHR ''-'' # show_nat (nat (- i)) else show_nat (nat i))"

definition symbol_string :: "string option \<Rightarrow> string" where
  "symbol_string d = ''Symbol('' @ (case d of None \<Rightarrow> [] | Some x \<Rightarrow> x) @ '')''"

text \<open>
  \<^verbatim>\<open>String(value)\<close> on a value that is not an object: it never throws, also on
  a symbol. On an object or a function it runs the value's own conversion, which is
  the platform's.
\<close>

fun prim_string :: "'s platform \<Rightarrow> jsval \<Rightarrow> string" where
  "prim_string plat Undefined = ''undefined''"
| "prim_string plat Null = ''null''"
| "prim_string plat (Boolean b) = (if b then ''true'' else ''false'')"
| "prim_string plat (Number n) = number_to_string plat n"
| "prim_string plat (Str s) = s"
| "prim_string plat (BigInt n) = show_int n"
| "prim_string plat (Symbol i d) = symbol_string d"
| "prim_string plat v = []"

definition String_call :: "'s platform \<Rightarrow> jsval \<Rightarrow> ('s, string) js" where
  "String_call plat v =
     (if primitive v then ret (prim_string plat v) else lift (object_to_string plat v))"

text \<open>
  A value inside a template literal: as \<^verbatim>\<open>String\<close>, except that a symbol
  throws a \<^verbatim>\<open>TypeError\<close>.
\<close>

definition ToString :: "'s platform \<Rightarrow> jsval \<Rightarrow> ('s, string) js" where
  "ToString plat v = (case v of Symbol i d \<Rightarrow> throw TypeError | _ \<Rightarrow> String_call plat v)"

text \<open>\<^verbatim>\<open>String(prop)\<close> on a property key\<close>

fun String_key :: "key \<Rightarrow> string" where
  "String_key (KStr s) = s"
| "String_key (KSym i d) = symbol_string d"

text \<open>
  \<^verbatim>\<open>typeof prop === 'symbol' ? prop.description ?? '[Symbol]' : prop\<close>
\<close>

fun propStr :: "key \<Rightarrow> string" where
  "propStr (KStr s) = s"
| "propStr (KSym i d) = (case d of None \<Rightarrow> ''[Symbol]'' | Some x \<Rightarrow> x)"

text \<open>The result of \<^verbatim>\<open>safeStringify\<close> inside a template literal\<close>

definition tpl :: "string option \<Rightarrow> string" where
  "tpl r = (case r of None \<Rightarrow> ''undefined'' | Some x \<Rightarrow> x)"

definition bool_string :: "bool \<Rightarrow> string" where
  "bool_string b = (if b then ''true'' else ''false'')"

subsection \<open>safeStringify\<close>

definition safeStringify :: "'s platform \<Rightarrow> jsval \<Rightarrow> ('s, string option) js" where
  "safeStringify plat v =
     (if nullish v then bindJ (String_call plat v) (\<lambda>x. ret (Some x))
      else if js_typeof v = ''object'' then lift (json_stringify plat v)
      else bindJ (String_call plat v) (\<lambda>x. ret (Some x)))"

subsection \<open>Log lines\<close>

text \<open>
  The fixed words of the log lines are Chinese; each is given here by the bytes of
  its UTF-8 encoding, with its meaning. Paths, keys and values are spliced between
  them as the template literals of the source do.
\<close>

text \<open>caller\<close>

definition lbl_caller :: string where
  "lbl_caller = [CHR 0xE8, CHR 0xAA, CHR 0xBF, CHR 0xE7, CHR 0x94, CHR 0xA8, CHR 0xE8, CHR 0x80, CHR 0x85]"

text \<open>get property\<close>

definition lbl_get :: string where
  "lbl_get = [CHR 0xE7, CHR 0x8D, CHR 0xB2, CHR 0xE5, CHR 0x8F, CHR 0x96, CHR 0xE5, CHR 0xB1, CHR 0xAC, CHR 0xE6, CHR 0x80, CHR 0xA7]"

text \<open>result\<close>

definition lbl_result :: string where
  "lbl_result = [CHR 0xE7, CHR 0xB5, CHR 0x90, CHR 0xE6, CHR 0x9E, CHR 0x9C]"

text \<open>set property\<close>

definition lbl_set :: string where
  "lbl_set = [CHR 0xE8, CHR 0xA8, CHR 0xAD, CHR 0xE7, CHR 0xBD, CHR 0xAE, CHR 0xE5, CHR 0xB1, CHR 0xAC, CHR 0xE6, CHR 0x80, CHR 0xA7]"

text \<open>value is\<close>

definition lbl_value :: string where
  "lbl_value = [CHR 0xE5, CHR 0x80, CHR 0xBC, CHR 0xE7, CHR 0x82, CHR 0xBA]"

text \<open>operator checks property (after the ASCII word in)\<close>

definition lbl_has :: string where
  "lbl_has = [CHR 0xE6, CHR 0x93, CHR 0x8D, CHR 0xE4, CHR 0xBD, CHR 0x9C, CHR 0xE7, CHR 0xAC, CHR 0xA6, CHR 0xE6, CHR 0xAA, CHR 0xA2, CHR 0xE6, CHR 0x9F, CHR 0xA5, CHR 0xE5, CHR 0xB1, CHR 0xAC, CHR 0xE6, CHR 0x80, CHR 0xA7]"

text \<open>delete property\<close>

definition lbl_delete :: string where
  "lbl_delete = [CHR 0xE5, CHR 0x88, CHR 0xAA, CHR 0xE9, CHR 0x99, CHR 0xA4, CHR 0xE5, CHR 0xB1, CHR 0xAC, CHR 0xE6, CHR 0x80, CHR 0xA7]"

text \<open>define property\<close>

definition lbl_define :: string where
  "lbl_define = [CHR 0xE5, CHR 0xAE, CHR 0x9A, CHR 0xE7, CHR 0xBE, CHR 0xA9, CHR 0xE5, CHR 0xB1, CHR 0xAC, CHR 0xE6, CHR 0x80, CHR 0xA7]"

text \<open>descriptor\<close>

definition lbl_descriptor :: string where
  "lbl_descriptor = [CHR 0xE6, CHR 0x8F, CHR 0x8F, CHR 0xE8, CHR 0xBF, CHR 0xB0]"

text \<open>get prototype\<close>

definition lbl_getproto :: string where
  "lbl_getproto = [CHR 0xE7, CHR 0x8D, CHR 0xB2, CHR 0xE5, CHR 0x8F, CHR 0x96, CHR 0xE5, CHR 0x8E, CHR 0x9F, CHR 0xE5, CHR 0x9E, CHR 0x8B]"

text \<open>set prototype\<close>

definition lbl_setproto :: string where
  "lbl_setproto = [CHR 0xE8, CHR 0xA8, CHR 0xAD, CHR 0xE7, CHR 0xBD, CHR 0xAE, CHR 0xE5, CHR 0x8E, CHR 0x9F, CHR 0xE5, CHR 0x9E, CHR 0x8B]"

text \<open>prevent object extension\<close>

definition lbl_preventext :: string where
  "lbl_preventext = [CHR 0xE9, CHR 0x98, CHR 0xB2, CHR 0xE6, CHR 0xAD, CHR 0xA2, CHR 0xE7, CHR 0x89, CHR 0xA9, CHR 0xE4, CHR 0xBB, CHR 0xB6, CHR 0xE6, CHR 0x93, CHR 0xB4, CHR 0xE5, CHR 0xB1, CHR 0x95]"

text \<open>check whether the object is extensible\<close>

definition lbl_isext :: string where
  "lbl_isext = [CHR 0xE6, CHR 0xAA, CHR 0xA2, CHR 0xE6, CHR 0x9F, CHR 0xA5, CHR 0xE7, CHR 0x89, CHR 0xA9, CHR 0xE4, CHR 0xBB, CHR 0xB6, CHR 0xE6, CHR 0x98, CHR 0xAF, CHR 0xE5, CHR 0x90, CHR 0xA6, CHR 0xE5, CHR 0x8F, CHR 0xAF, CHR 0xE6, CHR 0x93, CHR 0xB4, CHR 0xE5, CHR 0xB1, CHR 0x95]"

text \<open>call function\<close>

definition lbl_call :: string where
  "lbl_call = [CHR 0xE8, CHR 0xAA, CHR 0xBF, CHR 0xE7, CHR 0x94, CHR 0xA8, CHR 0xE5, CHR 0x87, CHR 0xBD, CHR 0xE6, CHR 0x95, CHR 0xB8]"

text \<open>arguments passed\<close>

definition lbl_args :: string where
  "lbl_args = [CHR 0xE5, CHR 0x82, CHR 0xB3, CHR 0xE5, CHR 0x8F, CHR 0x83]"

text \<open>construct object\<close>

definition lbl_construct :: string where
  "lbl_construct = [CHR 0xE6, CHR 0xA7, CHR 0x8B, CHR 0xE9, CHR 0x80, CHR 0xA0, CHR 0xE7, CHR 0x89, CHR 0xA9, CHR 0xE4, CHR 0xBB, CHR 0xB6]"

definition brk :: "string \<Rightarrow> string" where
  "brk x = '' => ['' @ x @ '']''"

definition line_get :: "string \<Rightarrow> string \<Rightarrow> string \<Rightarrow> string" where
  "line_get path p r =
     lbl_caller @ brk path @ '' '' @ lbl_get @ brk p @ '', '' @ lbl_result @ brk r"

definition line_set :: "string \<Rightarrow> string \<Rightarrow> string \<Rightarrow> string" where
  "line_set path p v =
     lbl_caller @ brk path @ '' '' @ lbl_set @ brk p @ '', '' @ lbl_value @ brk v"

definition line_has :: "string \<Rightarrow> string \<Rightarrow> string \<Rightarrow> string" where
  "line_has path p r =
     lbl_caller @ brk path @ '' in '' @ lbl_has @ brk p @ '', '' @ lbl_result @ brk r"

definition line_delete :: "string \<Rightarrow> string \<Rightarrow> string \<Rightarrow> string" where
  "line_delete path p r =
     lbl_caller @ brk path @ '' '' @ lbl_delete @ brk p @ '', '' @ lbl_result @ brk r"

definition line_define :: "string \<Rightarrow> string \<Rightarrow> string \<Rightarrow> string \<Rightarrow> string" where
  "line_define path p a r =
     lbl_caller @ brk path @ '' '' @ lbl_define @ brk p @ '' '' @ lbl_descriptor @ brk a
       @ '', '' @ lbl_result @ brk r"

definition line_getPrototypeOf :: "string \<Rightarrow> string \<Rightarrow> string" where
  "line_getPrototypeOf path r =
     lbl_caller @ brk path @ '' '' @ lbl_getproto @ brk [] @ '', '' @ lbl_result @ brk r"

definition line_setPrototypeOf :: "string \<Rightarrow> string \<Rightarrow> string" where
  "line_setPrototypeOf path p = lbl_caller @ brk path @ '' '' @ lbl_setproto @ brk p"

definition line_preventExtensions :: "string \<Rightarrow> string" where
  "line_preventExtensions path = lbl_caller @ brk path @ '' '' @ lbl_preventext @ brk []"

definition line_isExtensible :: "string \<Rightarrow> string \<Rightarrow> string" where
  "line_isExtensible path r =
     lbl_caller @ brk path @ '' '' @ lbl_isext @ brk [] @ '', '' @ lbl_result @ brk r"

definition line_apply :: "string \<Rightarrow> string \<Rightarrow> string \<Rightarrow> string \<Rightarrow> string" where
  "line_apply path name a r =
     lbl_caller @ brk path @ '' '' @ lbl_call @ brk name @ '', '' @ lbl_args @ brk a
       @ '', '' @ lbl_result @ brk r"

definition line_construct :: "string \<Rightarrow> string \<Rightarrow> string \<Rightarrow> string \<Rightarrow> string" where
  "line_construct path name a r =
     lbl_caller @ brk path @ '' '' @ lbl_construct @ brk name @ '', '' @ lbl_args @ brk a
       @ '', '' @ lbl_result @ brk r"

subsection \<open>log\<close>

text \<open>\<^verbatim>\<open>messages.join(' ')\<close>\<close>

fun join_sp :: "string list \<Rightarrow> string" where
  "join_sp [] = []"
| "join_sp [m] = m"
| "join_sp (m # ms) = m @ '' '' @ join_sp ms"

text \<open>
  The sink is the function given as \<^verbatim>\<open>logLevel\<close>, or \<^verbatim>\<open>console[level]\<close>, or
  \<^verbatim>\<open>console.log\<close> when that is falsy. The call is journalled as \<open>Emit line\<close>.
\<close>

definition log :: "'s options \<Rightarrow> 's platform \<Rightarrow> string list \<Rightarrow> ('s, unit) js" where
  "log cfg plat messages =
     (let level = logLevel cfg; line = join_sp messages in
      case level of
        LevelFn f \<Rightarrow> perform (Emit line) (f line)
      | LevelName n \<Rightarrow>
          perform (Emit line)
            ((case console_method plat n of Some m \<Rightarrow> m | None \<Rightarrow> console_log plat) line))"

subsection \<open>The Reflect primitives and plain property reads\<close>

definition Reflect_get :: "'s platform \<Rightarrow> jsval \<Rightarrow> key \<Rightarrow> jsval \<Rightarrow> ('s, jsval) js" where
  "Reflect_get plat t prop receiver =
     perform (Real (RGet t prop receiver)) (reflect_get plat t prop receiver)"

definition Reflect_set :: "'s platform \<Rightarrow> jsval \<Rightarrow> key \<Rightarrow> jsval \<Rightarrow> jsval \<Rightarrow> ('s, bool) js" where
  "Reflect_set plat t prop v receiver =
     perform (Real (RSet t prop v receiver)) (reflect_set plat t prop v receiver)"

definition Reflect_has :: "'s platform \<Rightarrow> jsval \<Rightarrow> key \<Rightarrow> ('s, bool) js" where
  "Reflect_has plat t prop = perform (Real (RHas t prop)) (reflect_has plat t prop)"

definition Reflect_deleteProperty :: "'s platform \<Rightarrow> jsval \<Rightarrow> key \<Rightarrow> ('s, bool) js" where
  "Reflect_deleteProperty plat t prop =
     perform (Real (RDelete t prop)) (reflect_deleteProperty plat t prop)"

definition Reflect_defineProperty :: "'s platform \<Rightarrow> jsval \<Rightarrow> key \<Rightarrow> jsval \<Rightarrow> ('s, bool) js" where
  "Reflect_defineProperty plat t prop attributes =
     perform (Real (RDefine t prop attributes)) (reflect_defineProperty plat t prop attributes)"

definition Reflect_getPrototypeOf :: "'s platform \<Rightarrow> jsval \<Rightarrow> ('s, jsval) js" where
  "Reflect_getPrototypeOf plat t = perform (Real (RGetProto t)) (reflect_getPrototypeOf plat t)"

definition Reflect_setPrototypeOf :: "'s platform \<Rightarrow> jsval \<Rightarrow> jsval \<Rightarrow> ('s, bool) js" where
  "Reflect_setPrototypeOf plat t proto =
     perform (Real (RSetProto t proto)) (reflect_setPrototypeOf plat t proto)"

definition Reflect_preventExtensions :: "'s platform \<Rightarrow> jsval \<Rightarrow> ('s, bool) js" where
  "Reflect_preventExtensions plat t =
     perform (Real (RPreventExt t)) (reflect_preventExtensions plat t)"

definition Reflect_isExtensible :: "'s platform \<Rightarrow> jsval \<Rightarrow> ('s, bool) js" where
  "Reflect_isExtensible plat t = perform (Real (RIsExt t)) (reflect_isExtensible plat t)"

definition Reflect_apply :: "'s platform \<Rightarrow> jsval \<Rightarrow> jsval \<Rightarrow> jsval \<Rightarrow> ('s, jsval) js" where
  "Reflect_apply plat target thisArg args =
     perform (Real (RApply target thisArg args)) (reflect_apply plat target thisArg args)"

definition Reflect_construct :: "'s platform \<Rightarrow> jsval \<Rightarrow> jsval \<Rightarrow> jsval \<Rightarrow> ('s, jsval) js" where
  "Reflect_construct plat target args newTarget =
     perform (Real (RConstruct target args newTarget)) (reflect_construct plat target args newTarget)"

text \<open>The property access \<^verbatim>\<open>v.name\<close>, as in \<^verbatim>\<open>fn.name\<close>\<close>

definition get_prop :: "'s platform \<Rightarrow> jsval \<Rightarrow> key \<Rightarrow> ('s, jsval) js" where
  "get_prop plat v k = lift (reflect_get plat v k v)"

text \<open>\<^verbatim>\<open>finalArgs[0]\<close>: an array without elements gives \<^verbatim>\<open>undefined\<close>.\<close>

definition first_arg :: "'s platform \<Rightarrow> jsval \<Rightarrow> ('s, jsval) js" where
  "first_arg plat args =
     (case args of
        Arr xs \<Rightarrow> ret (case xs of [] \<Rightarrow> Undefined | x # _ \<Rightarrow> x)
      | _ \<Rightarrow> get_prop plat args (KStr ''0''))"

subsection \<open>createFunctionProxy\<close>

text \<open>\<^verbatim>\<open>new Proxy(target, handler)\<close> throws a \<^verbatim>\<open>TypeError\<close> on a target that is not an object.\<close>

definition createFunctionProxy :: "jsval \<Rightarrow> string \<Rightarrow> ('s, jsval) js" where
  "createFunctionProxy fn path = (if primitive fn then throw TypeError else ret (FunProxy fn path))"

text \<open>The \<^verbatim>\<open>apply\<close> trap of the proxy \<open>FunProxy fn path\<close>; \<open>target\<close> is \<open>fn\<close>.\<close>

definition apply_handler ::
  "'s options \<Rightarrow> 's platform \<Rightarrow> jsval \<Rightarrow> string \<Rightarrow> jsval \<Rightarrow> jsval \<Rightarrow> ('s, jsval) js" where
  "apply_handler cfg plat fn path thisArg0 args =
     (let target = fn;
          thisArg = (if bindThis cfg then target else thisArg0) in
      bindJ (opt_call ''beforeApply'' (beforeApply cfg) (\<lambda>h. h path args)) (\<lambda>r.
      let finalArgs = coalesce r args in
      bindJ (Reflect_apply plat target thisArg finalArgs) (\<lambda>result0.
      bindJ (opt_call ''afterApply'' (afterApply cfg) (\<lambda>h. h path result0)) (\<lambda>r2.
      let result = coalesce r2 result0 in
      bindJ (get_prop plat fn (KStr ''name'')) (\<lambda>nm.
      bindJ
        (if nm = Str ''addEventListener'' then
           bindJ (get_prop plat fn (KStr ''name'')) (\<lambda>nm1.
           bindJ (ToString plat nm1) (\<lambda>name.
           bindJ (first_arg plat finalArgs) (\<lambda>a0.
           bindJ (ToString plat a0) (\<lambda>a.
           bindJ (safeStringify plat result) (\<lambda>res.
           log cfg plat [line_apply path name a (tpl res)])))))
         else
           bindJ (get_prop plat fn (KStr ''name'')) (\<lambda>nm1.
           bindJ (ToString plat nm1) (\<lambda>name.
           bindJ (safeStringify plat finalArgs) (\<lambda>a.
           bindJ (safeStringify plat result) (\<lambda>res.
           log cfg plat [line_apply path name (tpl a) (tpl res)])))))
        (\<lambda>_. ret result))))))"

text \<open>The \<^verbatim>\<open>construct\<close> trap of the proxy \<open>FunProxy fn path\<close>\<close>

definition construct_handler ::
  "'s options \<Rightarrow> 's platform \<Rightarrow> jsval \<Rightarrow> string \<Rightarrow> jsval \<Rightarrow> jsval \<Rightarrow> ('s, jsval) js" where
  "construct_handler cfg plat fn path args newTarget =
     (let target = fn; finalArgs = args in
      bindJ (Reflect_construct plat target finalArgs newTarget) (\<lambda>result.
      bindJ (get_prop plat target (KStr ''name'')) (\<lambda>nm.
      bindJ (ToString plat nm) (\<lambda>name.
      bindJ (safeStringify plat finalArgs) (\<lambda>a.
      bindJ (safeStringify plat result) (\<lambda>res.
      bindJ (log cfg plat [line_construct path name (tpl a) (tpl res)]) (\<lambda>_.
      ret result)))))))"

subsection \<open>createProxy\<close>

definition createProxy :: "jsval \<Rightarrow> string \<Rightarrow> ('s, jsval) js" where
  "createProxy target path = (if primitive target then throw TypeError else ret (ObjProxy target path))"

text \<open>
  \<^verbatim>\<open>self.options.watchedProps && !self.options.watchedProps.has(prop)\<close>
\<close>

definition unwatched :: "'s options \<Rightarrow> key \<Rightarrow> bool" where
  "unwatched cfg prop = (case watchedProps cfg of None \<Rightarrow> False | Some ws \<Rightarrow> prop \<notin> ws)"

text \<open>The \<^verbatim>\<open>get\<close> trap of the proxy \<open>ObjProxy t path\<close>\<close>

definition get_handler ::
  "'s options \<Rightarrow> 's platform \<Rightarrow> jsval \<Rightarrow> string \<Rightarrow> key \<Rightarrow> jsval \<Rightarrow> ('s, jsval) js" where
  "get_handler cfg plat t path prop receiver =
     (if unwatched cfg prop then Reflect_get plat t prop receiver
      else if includes_str path ''console'' then Reflect_get plat t prop receiver
      else
        let fullPath = path @ ''.'' @ String_key prop in
        bindJ (opt_call ''beforeGet'' (beforeGet cfg) (\<lambda>h. h path prop)) (\<lambda>_.
        bindJ (Reflect_get plat t prop receiver) (\<lambda>value0.
        bindJ
          (if truthy value0 \<and> js_typeof value0 = ''object'' then createProxy value0 fullPath
           else if js_typeof value0 = ''function'' then createFunctionProxy value0 fullPath
           else ret value0) (\<lambda>value.
        bindJ (opt_call ''afterGet'' (afterGet cfg) (\<lambda>h. h path prop value)) (\<lambda>r.
        let finalValue = coalesce r value in
        bindJ (safeStringify plat finalValue) (\<lambda>res.
        bindJ (log cfg plat [line_get path (propStr prop) (tpl res)]) (\<lambda>_.
        ret finalValue)))))))"

text \<open>The \<^verbatim>\<open>set\<close> trap\<close>

definition set_handler ::
  "'s options \<Rightarrow> 's platform \<Rightarrow> jsval \<Rightarrow> string \<Rightarrow> key \<Rightarrow> jsval \<Rightarrow> jsval \<Rightarrow> ('s, bool) js" where
  "set_handler cfg plat t path prop v receiver =
     (let fullPath = path @ ''.'' @ String_key prop in
      bindJ (opt_call ''beforeSet'' (beforeSet cfg) (\<lambda>h. h path prop v)) (\<lambda>r.
      let newValue = coalesce r v in
      bindJ (Reflect_set plat t prop newValue receiver) (\<lambda>success.
      bindJ (opt_call ''afterSet'' (afterSet cfg) (\<lambda>h. h path prop newValue)) (\<lambda>_.
      bindJ (safeStringify plat newValue) (\<lambda>res.
      bindJ (log cfg plat [line_set path (propStr prop) (tpl res)]) (\<lambda>_.
      ret success))))))"

text \<open>The \<^verbatim>\<open>has\<close> trap\<close>

definition has_handler ::
  "'s options \<Rightarrow> 's platform \<Rightarrow> jsval \<Rightarrow> string \<Rightarrow> key \<Rightarrow> ('s, bool) js" where
  "has_handler cfg plat t path prop =
     bindJ (Reflect_has plat t prop) (\<lambda>result.
     bindJ (log cfg plat [line_has path (propStr prop) (bool_string result)]) (\<lambda>_.
     ret result))"

text \<open>The \<^verbatim>\<open>deleteProperty\<close> trap\<close>

definition deleteProperty_handler ::
  "'s options \<Rightarrow> 's platform \<Rightarrow> jsval \<Rightarrow> string \<Rightarrow> key \<Rightarrow> ('s, bool) js" where
  "deleteProperty_handler cfg plat t path prop =
     bindJ (Reflect_deleteProperty plat t prop) (\<lambda>result.
     bindJ (log cfg plat [line_delete path (propStr prop) (bool_string result)]) (\<lambda>_.
     ret result))"

text \<open>The \<^verbatim>\<open>defineProperty\<close> trap\<close>

definition defineProperty_handler ::
  "'s options \<Rightarrow> 's platform \<Rightarrow> jsval \<Rightarrow> string \<Rightarrow> key \<Rightarrow> jsval \<Rightarrow> ('s, bool) js" where
  "defineProperty_handler cfg plat t path prop attributes =
     bindJ (Reflect_defineProperty plat t prop attributes) (\<lambda>result.
     bindJ (safeStringify plat attributes) (\<lambda>a.
     bindJ (log cfg plat [line_define path (propStr prop) (tpl a) (bool_string result)]) (\<lambda>_.
     ret result)))"

text \<open>The \<^verbatim>\<open>getPrototypeOf\<close> trap\<close>

definition getPrototypeOf_handler ::
  "'s options \<Rightarrow> 's platform \<Rightarrow> jsval \<Rightarrow> string \<Rightarrow> ('s, jsval) js" where
  "getPrototypeOf_handler cfg plat t path =
     bindJ (Reflect_getPrototypeOf plat t) (\<lambda>result.
     bindJ (safeStringify plat result) (\<lambda>res.
     bindJ (log cfg plat [line_getPrototypeOf path (tpl res)]) (\<lambda>_.
     ret result)))"

text \<open>The \<^verbatim>\<open>setPrototypeOf\<close> trap: the line is written first.\<close>

definition setPrototypeOf_handler ::
  "'s options \<Rightarrow> 's platform \<Rightarrow> jsval \<Rightarrow> string \<Rightarrow> jsval \<Rightarrow> ('s, bool) js" where
  "setPrototypeOf_handler cfg plat t path proto =
     bindJ (safeStringify plat proto) (\<lambda>p.
     bindJ (log cfg plat [line_setPrototypeOf path (tpl p)]) (\<lambda>_.
     Reflect_setPrototypeOf plat t proto))"

text \<open>The \<^verbatim>\<open>preventExtensions\<close> trap: the line is written first.\<close>

definition preventExtensions_handler ::
  "'s options \<Rightarrow> 's platform \<Rightarrow> jsval \<Rightarrow> string \<Rightarrow> ('s, bool) js" where
  "preventExtensions_handler cfg plat t path =
     bindJ (log cfg plat [line_preventExtensions path]) (\<lambda>_.
     Reflect_preventExtensions plat t)"

text \<open>The \<^verbatim>\<open>isExtensible\<close> trap\<close>

definition isExtensible_handler ::
  "'s options \<Rightarrow> 's platform \<Rightarrow> jsval \<Rightarrow> string \<Rightarrow> ('s, bool) js" where
  "isExtensible_handler cfg plat t path =
     bindJ (Reflect_isExtensible plat t) (\<lambda>result.
     bindJ (log cfg plat [line_isExtensible path (bool_string result)]) (\<lambda>_.
     ret result))"

subsection \<open>The constructor\<close>

text \<open>
  \<open>cfg\<close> is the caller's options merged over \<open>default_options\<close>, with an array of
  watched keys already turned into the set of its elements.
\<close>

definition Universal_proxy :: "jsval \<Rightarrow> 's options \<Rightarrow> ('s, jsval) js" where
  "Universal_proxy target cfg =
     (let startPath = contextName cfg in
      if proxy_type cfg = ''method'' \<and> js_typeof target = ''function''
      then createFunctionProxy target startPath
      else createProxy target startPath)"

subsection \<open>Operations on a value\<close>

text \<open>
  What the engine does when code outside the class reads a property of a value,
  calls it or constructs with it: a proxy runs its trap when its handler has one
  for the operation and forwards to its target otherwise; any other value takes the
  platform's primitive. The handler of \<open>ObjProxy\<close> has no \<^verbatim>\<open>apply\<close> and no
  \<^verbatim>\<open>construct\<close> trap, the handler of \<open>FunProxy\<close> has only these two. The checks
  the engine makes on a trap's result (the proxy invariants) are not part of the model.
\<close>

definition op_get :: "'s options \<Rightarrow> 's platform \<Rightarrow> jsval \<Rightarrow> key \<Rightarrow> ('s, jsval) js" where
  "op_get cfg plat v k =
     (case v of
        ObjProxy t p \<Rightarrow> get_handler cfg plat t p k v
      | FunProxy t p \<Rightarrow> lift (reflect_get plat t k v)
      | _ \<Rightarrow> lift (reflect_get plat v k v))"

definition op_call :: "'s options \<Rightarrow> 's platform \<Rightarrow> jsval \<Rightarrow> jsval \<Rightarrow> jsval \<Rightarrow> ('s, jsval) js" where
  "op_call cfg plat f thisArg args =
     (case f of
        FunProxy t p \<Rightarrow> apply_handler cfg plat t p thisArg args
      | ObjProxy t p \<Rightarrow> lift (reflect_apply plat t thisArg args)
      | _ \<Rightarrow> lift (reflect_apply plat f thisArg args))"

definition op_new :: "'s options \<Rightarrow> 's platform \<Rightarrow> jsval \<Rightarrow> jsval \<Rightarrow> ('s, jsval) js" where
  "op_new cfg plat f args =
     (case f of
        FunProxy t p \<Rightarrow> construct_handler cfg plat t p args f
      | ObjProxy t p \<Rightarrow> lift (reflect_construct plat t args f)
      | _ \<Rightarrow> lift (reflect_construct plat f args f))"

text \<open>A chain of reads \<^verbatim>\<open>v.k1.k2...\<close>: the values read, in order.\<close>

fun read_chain :: "'s options \<Rightarrow> 's platform \<Rightarrow> jsval \<Rightarrow> key list \<Rightarrow> ('s, jsval list) js" where
  "read_chain cfg plat v [] = ret []"
| "read_chain cfg plat v (k # ks) =
     bindJ (op_get cfg plat v k) (\<lambda>v1.
     bindJ (read_chain cfg plat v1 ks) (\<lambda>vs. ret (v1 # vs)))"


subsection \<open>Notions the claims are stated with\<close>

text \<open>
  What the \<^verbatim>\<open>get\<close> trap makes of the value \<open>x\<close> it has read at the path
  \<open>p\<close>: an object is wrapped by \<^verbatim>\<open>createProxy\<close>, a function by
  \<^verbatim>\<open>createFunctionProxy\<close>, a primitive is left as it is.
\<close>

definition wrap_value :: "jsval \<Rightarrow> string \<Rightarrow> jsval" where
  "wrap_value x p =
     (if truthy x \<and> js_typeof x = ''object'' then ObjProxy x p
      else if js_typeof x = ''function'' then FunProxy x p
      else x)"

text \<open>A raw reference: an object, a function or an array that is not behind a proxy.\<close>

fun raw_ref :: "jsval \<Rightarrow> bool" where
  "raw_ref (Obj a) = True"
| "raw_ref (Fun a) = True"
| "raw_ref (Arr xs) = True"
| "raw_ref v = False"

text \<open>
  The values \<open>vs\<close> read along the keys \<open>ks\<close> from a wrapped object at the path
  \<open>p\<close>: none is a raw reference, for as long as the value read is the wrapped
  object of the member just read, the one the chain goes on from.
\<close>

fun guarded :: "string \<Rightarrow> key list \<Rightarrow> jsval list \<Rightarrow> bool" where
  "guarded p (k # ks) (v # vs) =
     (\<not> raw_ref v \<and>
      (case v of
         ObjProxy x q \<Rightarrow> q = p @ ''.'' @ String_key k \<longrightarrow> guarded q ks vs
       | _ \<Rightarrow> True))"
| "guarded p ks vs = True"

text \<open>
  A chain that goes through wrapped objects: every value but the last is the wrapped
  object of the member just read.
\<close>

fun through_objects :: "string \<Rightarrow> key list \<Rightarrow> jsval list \<Rightarrow> bool" where
  "through_objects p [k] [v] = True"
| "through_objects p (k # ks) (v # vs) =
     (case v of
        ObjProxy x q \<Rightarrow> q = p @ ''.'' @ String_key k \<and> through_objects q ks vs
      | _ \<Rightarrow> False)"
| "through_objects p ks vs = (ks = [] \<and> vs = [])"

text \<open>The path of the member reached from the path \<open>p\<close> along the keys \<open>ks\<close>\<close>

fun chain_path :: "string \<Rightarrow> key list \<Rightarrow> string" where
  "chain_path p [] = p"
| "chain_path p (k # ks) = chain_path (p @ ''.'' @ String_key k) ks"

text \<open>A line in which the text \<open>sub\<close> occurs\<close>

definition mentions :: "string \<Rightarrow> string \<Rightarrow> bool" where
  "mentions sub l = includes_str l sub"

text \<open>An after-read hook that never substitutes: it is absent or returns a nullish value.\<close>

definition no_substitution :: "'s options \<Rightarrow> bool" where
  "no_substitution cfg =
     (case afterGet cfg of
        None \<Rightarrow> True
      | Some h \<Rightarrow> (\<forall>p k v s r s1. h p k v s = (Inr r, s1) \<longrightarrow> nullish r))"

text \<open>The journal step of an optional hook\<close>

definition hook_steps :: "string \<Rightarrow> 'h option \<Rightarrow> step list" where
  "hook_steps name h = (case h of None \<Rightarrow> [] | Some f \<Rightarrow> [Hook name])"

text \<open>The primitives a computation called, in order\<close>

fun reals :: "step list \<Rightarrow> realop list" where
  "reals [] = []"
| "reals (Real r # js) = r # reals js"
| "reals (_ # js) = reals js"

text \<open>
  The call that \<^verbatim>\<open>log\<close> makes with a line: \<^verbatim>\<open>level(line)\<close> when
  \<^verbatim>\<open>logLevel\<close> is a function, \<^verbatim>\<open>(console[level] || console.log)(line)\<close>
  otherwise.
\<close>

definition sink_of :: "'s options \<Rightarrow> 's platform \<Rightarrow> string \<Rightarrow> ('s, unit) prim" where
  "sink_of cfg plat line =
     (case logLevel cfg of
        LevelFn f \<Rightarrow> f line
      | LevelName n \<Rightarrow> (case console_method plat n of Some m \<Rightarrow> m | None \<Rightarrow> console_log plat) line)"


subsection \<open>A concrete engine\<close>

text \<open>
  For closed instances of the theorems: an engine whose state is a heap of objects
  with data properties only and no prototype, the addresses of the objects made
  non-extensible, what each function returns when it is called, and the lines the
  console has received.

  The engine runs the traps of this class wherever ECMAScript does: a primitive
  given a proxy as its target runs the trap of that proxy's handler, and forwards to
  the target when the handler has no such trap; \<^verbatim>\<open>JSON.stringify\<close> reads
  \<^verbatim>\<open>toJSON\<close> and every own key of a proxy through its \<^verbatim>\<open>get\<close> trap; an
  assignment whose receiver is a proxy defines the property through the
  \<^verbatim>\<open>defineProperty\<close> trap of the receiver. A trap run this way runs on the engine
  one level further down the call stack, and what it writes to the console is in the
  state it leaves. At the bottom of the stack every call throws a
  \<^verbatim>\<open>RangeError\<close>, as a stack overflow does.
\<close>

record toy =
  heap :: "(nat \<times> (key \<times> jsval) list) list"
  sealed :: "nat list"
  returns :: "(nat \<times> jsval) list"
  console_out :: "string list"

definition range_error :: jserr where
  "range_error = Thrown (Str ''RangeError'')"

definition pret :: "'a \<Rightarrow> ('s, 'a) prim" where
  "pret x = (\<lambda>h. (Inr x, h))"

definition pthrow :: "jserr \<Rightarrow> ('s, 'a) prim" where
  "pthrow e = (\<lambda>h. (Inl e, h))"

definition pbind :: "('s, 'a) prim \<Rightarrow> ('a \<Rightarrow> ('s, 'b) prim) \<Rightarrow> ('s, 'b) prim" where
  "pbind m f = (\<lambda>h. case m h of (Inl e, h1) \<Rightarrow> (Inl e, h1) | (Inr x, h1) \<Rightarrow> f x h1)"

text \<open>A handler run by the engine: its outcome and the state it leaves.\<close>

definition nested :: "('s, 'a) js \<Rightarrow> ('s, 'a) prim" where
  "nested m = (\<lambda>h. case m h of (r, h1, j) \<Rightarrow> (r, h1))"

fun pmap :: "('a \<Rightarrow> ('s, 'b) prim) \<Rightarrow> 'a list \<Rightarrow> ('s, 'b list) prim" where
  "pmap f [] = pret []"
| "pmap f (x # xs) = pbind (f x) (\<lambda>y. pbind (pmap f xs) (\<lambda>ys. pret (y # ys)))"

text \<open>
  The ordinary object behind a value: the internal methods for which the handlers
  have no trap (own keys, own property descriptors) are forwarded to the target.
\<close>

fun addr_of :: "jsval \<Rightarrow> nat option" where
  "addr_of (Obj a) = Some a"
| "addr_of (Fun a) = Some a"
| "addr_of (ObjProxy t p) = addr_of t"
| "addr_of (FunProxy t p) = addr_of t"
| "addr_of v = None"

definition toy_props :: "toy \<Rightarrow> jsval \<Rightarrow> (key \<times> jsval) list option" where
  "toy_props h v = (case addr_of v of None \<Rightarrow> None | Some a \<Rightarrow> map_of (heap h) a)"

text \<open>The declared names of the functions, by address\<close>

definition toy_fun_name :: "nat \<Rightarrow> string" where
  "toy_fun_name a =
     (if a = 3 then ''log'' else if a = 4 then ''addEventListener''
      else if a = 6 then ''makeObject'' else if a = 10 then ''whoAmI'' else [])"

subsubsection \<open>Ordinary objects\<close>

text \<open>
  An array is a value without an identity: it can be read, not written. Its members
  are its \<^verbatim>\<open>length\<close> and its elements: \<open>element_at 0 xs k\<close> is the element at
  the index that the key \<open>k\<close> spells, if there is one.
\<close>

fun element_at :: "nat \<Rightarrow> jsval list \<Rightarrow> key \<Rightarrow> jsval option" where
  "element_at i [] k = None"
| "element_at i (x # xs) k = (if k = KStr (show_nat i) then Some x else element_at (Suc i) xs k)"

definition array_member :: "jsval list \<Rightarrow> key \<Rightarrow> jsval option" where
  "array_member xs k =
     (if k = KStr ''length'' then Some (Number (int (length xs))) else element_at 0 xs k)"

definition toy_get :: "jsval \<Rightarrow> key \<Rightarrow> jsval \<Rightarrow> (toy, jsval) prim" where
  "toy_get t k receiver h =
     (if nullish t then (Inl TypeError, h)
      else if k = KStr ''name'' \<and> js_typeof t = ''function'' then
        (case addr_of t of
           None \<Rightarrow> (Inr Undefined, h)
         | Some a \<Rightarrow> (Inr (Str (toy_fun_name a)), h))
      else case t of
        Arr xs \<Rightarrow> (Inr (case array_member xs k of None \<Rightarrow> Undefined | Some v \<Rightarrow> v), h)
      | _ \<Rightarrow>
        (case toy_props h t of
           None \<Rightarrow> (Inr Undefined, h)
         | Some ps \<Rightarrow> (Inr (case map_of ps k of None \<Rightarrow> Undefined | Some v \<Rightarrow> v), h)))"

text \<open>
  Defining a data property with the value \<open>v\<close> on the ordinary object at the address
  \<open>a\<close>: refused for a new key on an object that is not extensible.
\<close>

definition toy_put :: "nat \<Rightarrow> key \<Rightarrow> jsval \<Rightarrow> (toy, bool) prim" where
  "toy_put a k v h =
     (case map_of (heap h) a of
        None \<Rightarrow> (Inl TypeError, h)
      | Some ps \<Rightarrow>
          if a \<in> set (sealed h) \<and> map_of ps k = None then (Inr False, h)
          else (Inr True, h\<lparr>heap := AList.update a (AList.update k v ps) (heap h)\<rparr>))"

definition toy_has :: "jsval \<Rightarrow> key \<Rightarrow> (toy, bool) prim" where
  "toy_has t k h =
     (case t of
        Arr xs \<Rightarrow> (Inr (array_member xs k \<noteq> None), h)
      | _ \<Rightarrow>
        (case toy_props h t of
           None \<Rightarrow> (Inl TypeError, h)
         | Some ps \<Rightarrow> (Inr (map_of ps k \<noteq> None), h)))"

definition toy_deleteProperty :: "jsval \<Rightarrow> key \<Rightarrow> (toy, bool) prim" where
  "toy_deleteProperty t k h =
     (case addr_of t of
        None \<Rightarrow> (Inl TypeError, h)
      | Some a \<Rightarrow>
          (case map_of (heap h) a of
             None \<Rightarrow> (Inl TypeError, h)
           | Some ps \<Rightarrow> (Inr True, h\<lparr>heap := AList.update a (AList.delete k ps) (heap h)\<rparr>)))"

definition toy_getPrototypeOf :: "jsval \<Rightarrow> (toy, jsval) prim" where
  "toy_getPrototypeOf t h = (if addr_of t = None then (Inl TypeError, h) else (Inr Null, h))"

definition toy_setPrototypeOf :: "jsval \<Rightarrow> jsval \<Rightarrow> (toy, bool) prim" where
  "toy_setPrototypeOf t proto h =
     (if addr_of t = None then (Inl TypeError, h) else (Inr (proto = Null), h))"

definition toy_preventExtensions :: "jsval \<Rightarrow> (toy, bool) prim" where
  "toy_preventExtensions t h =
     (case addr_of t of
        None \<Rightarrow> (Inl TypeError, h)
      | Some a \<Rightarrow> (Inr True, h\<lparr>sealed := a # sealed h\<rparr>))"

definition toy_isExtensible :: "jsval \<Rightarrow> (toy, bool) prim" where
  "toy_isExtensible t h =
     (case addr_of t of
        None \<Rightarrow> (Inl TypeError, h)
      | Some a \<Rightarrow> (Inr (a \<notin> set (sealed h)), h))"

text \<open>
  Calling a function: the function at the address 10 returns its receiver, every
  other one what the state says it returns. The arguments must be an object.
\<close>

definition toy_apply :: "jsval \<Rightarrow> jsval \<Rightarrow> jsval \<Rightarrow> (toy, jsval) prim" where
  "toy_apply t thisArg args h =
     (if primitive args then (Inl TypeError, h)
      else case t of
        Fun a \<Rightarrow>
          if a = 10 then (Inr thisArg, h)
          else (case map_of (returns h) a of
                  None \<Rightarrow> (Inl TypeError, h)
                | Some v \<Rightarrow> (Inr v, h))
      | _ \<Rightarrow> (Inl TypeError, h))"

definition toy_construct :: "jsval \<Rightarrow> jsval \<Rightarrow> jsval \<Rightarrow> (toy, jsval) prim" where
  "toy_construct t args newTarget h =
     (if primitive args then (Inl TypeError, h)
      else case t of
        Fun a \<Rightarrow>
          (case map_of (returns h) a of
             None \<Rightarrow> (Inl TypeError, h)
           | Some v \<Rightarrow> (Inr v, h))
      | _ \<Rightarrow> (Inl TypeError, h))"

definition toy_write :: "string \<Rightarrow> (toy, unit) prim" where
  "toy_write line h = (Inr (), h\<lparr>console_out := console_out h @ [line]\<rparr>)"

subsubsection \<open>The operations of the engine on any value\<close>

text \<open>
  \<open>cfg\<close> is the configuration of the instance the proxies belong to and \<open>inner\<close> the
  engine one level further down the stack.
\<close>

definition any_get ::
  "toy options \<Rightarrow> toy platform \<Rightarrow> jsval \<Rightarrow> key \<Rightarrow> jsval \<Rightarrow> (toy, jsval) prim" where
  "any_get cfg inner t k receiver =
     (case t of
        ObjProxy t1 p \<Rightarrow> nested (get_handler cfg inner t1 p k receiver)
      | FunProxy t1 p \<Rightarrow> reflect_get inner t1 k receiver
      | _ \<Rightarrow> toy_get t k receiver)"

definition any_has :: "toy options \<Rightarrow> toy platform \<Rightarrow> jsval \<Rightarrow> key \<Rightarrow> (toy, bool) prim" where
  "any_has cfg inner t k =
     (case t of
        ObjProxy t1 p \<Rightarrow> nested (has_handler cfg inner t1 p k)
      | FunProxy t1 p \<Rightarrow> reflect_has inner t1 k
      | _ \<Rightarrow> toy_has t k)"

definition any_deleteProperty ::
  "toy options \<Rightarrow> toy platform \<Rightarrow> jsval \<Rightarrow> key \<Rightarrow> (toy, bool) prim" where
  "any_deleteProperty cfg inner t k =
     (case t of
        ObjProxy t1 p \<Rightarrow> nested (deleteProperty_handler cfg inner t1 p k)
      | FunProxy t1 p \<Rightarrow> reflect_deleteProperty inner t1 k
      | _ \<Rightarrow> toy_deleteProperty t k)"

definition any_getPrototypeOf :: "toy options \<Rightarrow> toy platform \<Rightarrow> jsval \<Rightarrow> (toy, jsval) prim" where
  "any_getPrototypeOf cfg inner t =
     (case t of
        ObjProxy t1 p \<Rightarrow> nested (getPrototypeOf_handler cfg inner t1 p)
      | FunProxy t1 p \<Rightarrow> reflect_getPrototypeOf inner t1
      | _ \<Rightarrow> toy_getPrototypeOf t)"

definition any_setPrototypeOf ::
  "toy options \<Rightarrow> toy platform \<Rightarrow> jsval \<Rightarrow> jsval \<Rightarrow> (toy, bool) prim" where
  "any_setPrototypeOf cfg inner t proto =
     (case t of
        ObjProxy t1 p \<Rightarrow> nested (setPrototypeOf_handler cfg inner t1 p proto)
      | FunProxy t1 p \<Rightarrow> reflect_setPrototypeOf inner t1 proto
      | _ \<Rightarrow> toy_setPrototypeOf t proto)"

definition any_preventExtensions :: "toy options \<Rightarrow> toy platform \<Rightarrow> jsval \<Rightarrow> (toy, bool) prim" where
  "any_preventExtensions cfg inner t =
     (case t of
        ObjProxy t1 p \<Rightarrow> nested (preventExtensions_handler cfg inner t1 p)
      | FunProxy t1 p \<Rightarrow> reflect_preventExtensions inner t1
      | _ \<Rightarrow> toy_preventExtensions t)"

definition any_isExtensible :: "toy options \<Rightarrow> toy platform \<Rightarrow> jsval \<Rightarrow> (toy, bool) prim" where
  "any_isExtensible cfg inner t =
     (case t of
        ObjProxy t1 p \<Rightarrow> nested (isExtensible_handler cfg inner t1 p)
      | FunProxy t1 p \<Rightarrow> reflect_isExtensible inner t1
      | _ \<Rightarrow> toy_isExtensible t)"

definition any_apply ::
  "toy options \<Rightarrow> toy platform \<Rightarrow> jsval \<Rightarrow> jsval \<Rightarrow> jsval \<Rightarrow> (toy, jsval) prim" where
  "any_apply cfg inner f thisArg args =
     (case f of
        FunProxy t1 p \<Rightarrow> nested (apply_handler cfg inner t1 p thisArg args)
      | ObjProxy t1 p \<Rightarrow> reflect_apply inner t1 thisArg args
      | _ \<Rightarrow> toy_apply f thisArg args)"

definition any_construct ::
  "toy options \<Rightarrow> toy platform \<Rightarrow> jsval \<Rightarrow> jsval \<Rightarrow> jsval \<Rightarrow> (toy, jsval) prim" where
  "any_construct cfg inner f args newTarget =
     (case f of
        FunProxy t1 p \<Rightarrow> nested (construct_handler cfg inner t1 p args newTarget)
      | ObjProxy t1 p \<Rightarrow> reflect_construct inner t1 args newTarget
      | _ \<Rightarrow> toy_construct f args newTarget)"

text \<open>
  \<^verbatim>\<open>Reflect.defineProperty\<close> on an ordinary object. The members of the descriptor
  are looked up and read in the order of ECMAScript; the object holds data
  properties only, so of these the \<^verbatim>\<open>value\<close> is what is stored. A descriptor
  without a \<^verbatim>\<open>value\<close> leaves an existing property as it is and creates a missing
  one as \<^verbatim>\<open>undefined\<close>.
\<close>

definition descriptor_member ::
  "toy options \<Rightarrow> toy platform \<Rightarrow> jsval \<Rightarrow> string \<Rightarrow> (toy, jsval option) prim" where
  "descriptor_member cfg inner attributes name =
     pbind (any_has cfg inner attributes (KStr name)) (\<lambda>present.
     if present then
       pbind (any_get cfg inner attributes (KStr name) attributes) (\<lambda>v. pret (Some v))
     else pret None)"

definition toy_defineProperty ::
  "toy options \<Rightarrow> toy platform \<Rightarrow> jsval \<Rightarrow> key \<Rightarrow> jsval \<Rightarrow> (toy, bool) prim" where
  "toy_defineProperty cfg inner t k attributes =
     (if primitive attributes then pthrow TypeError
      else
        pbind (descriptor_member cfg inner attributes ''enumerable'') (\<lambda>_.
        pbind (descriptor_member cfg inner attributes ''configurable'') (\<lambda>_.
        pbind (descriptor_member cfg inner attributes ''value'') (\<lambda>val.
        pbind (descriptor_member cfg inner attributes ''writable'') (\<lambda>_.
        pbind (descriptor_member cfg inner attributes ''get'') (\<lambda>_.
        pbind (descriptor_member cfg inner attributes ''set'') (\<lambda>_.
        (\<lambda>h. case addr_of t of
           None \<Rightarrow> (Inl TypeError, h)
         | Some a \<Rightarrow>
             (case val of
                Some v \<Rightarrow> toy_put a k v h
              | None \<Rightarrow>
                  (case map_of (heap h) a of
                     None \<Rightarrow> (Inl TypeError, h)
                   | Some ps \<Rightarrow>
                       if map_of ps k = None then toy_put a k Undefined h
                       else (Inr True, h)))))))))))"

definition any_defineProperty ::
  "toy options \<Rightarrow> toy platform \<Rightarrow> jsval \<Rightarrow> key \<Rightarrow> jsval \<Rightarrow> (toy, bool) prim" where
  "any_defineProperty cfg inner t k attributes =
     (case t of
        ObjProxy t1 p \<Rightarrow> nested (defineProperty_handler cfg inner t1 p k attributes)
      | FunProxy t1 p \<Rightarrow> reflect_defineProperty inner t1 k attributes
      | _ \<Rightarrow> toy_defineProperty cfg inner t k attributes)"

text \<open>
  The descriptor the engine hands to a \<^verbatim>\<open>defineProperty\<close> trap when an assignment
  reaches a proxy as its receiver: only the value for a property the receiver has,
  a full data descriptor for a new one. It is a new object in the heap.
\<close>

definition fresh :: "toy \<Rightarrow> nat" where
  "fresh h = Suc (foldr max (map fst (heap h)) 0)"

definition descriptor_fields :: "bool \<Rightarrow> jsval \<Rightarrow> (key \<times> jsval) list" where
  "descriptor_fields existing v =
     (if existing then [(KStr ''value'', v)]
      else [(KStr ''value'', v), (KStr ''writable'', Boolean True),
            (KStr ''enumerable'', Boolean True), (KStr ''configurable'', Boolean True)])"

text \<open>Defining the value of a property on the receiver of an assignment\<close>

fun define_own ::
  "toy options \<Rightarrow> toy platform \<Rightarrow> jsval \<Rightarrow> key \<Rightarrow> jsval \<Rightarrow> bool \<Rightarrow> (toy, bool) prim" where
  "define_own cfg inner (ObjProxy r p) k v existing =
     (\<lambda>h. nested (defineProperty_handler cfg inner r p k (Obj (fresh h)))
            (h\<lparr>heap := heap h @ [(fresh h, descriptor_fields existing v)]\<rparr>))"
| "define_own cfg inner (FunProxy r p) k v existing = define_own cfg inner r k v existing"
| "define_own cfg inner (Obj a) k v existing = toy_put a k v"
| "define_own cfg inner (Fun a) k v existing = toy_put a k v"
| "define_own cfg inner r k v existing = pret False"

text \<open>
  \<^verbatim>\<open>Reflect.set\<close> on an ordinary object with data properties: the value is
  defined on the receiver, which is a proxy when the assignment was made through
  one.
\<close>

definition toy_set ::
  "toy options \<Rightarrow> toy platform \<Rightarrow> jsval \<Rightarrow> key \<Rightarrow> jsval \<Rightarrow> jsval \<Rightarrow> (toy, bool) prim" where
  "toy_set cfg inner t k v receiver =
     (\<lambda>h. case toy_props h t of
        None \<Rightarrow> (Inl TypeError, h)
      | Some ps \<Rightarrow>
          if primitive receiver then (Inr False, h)
          else
            (case toy_props h receiver of
               None \<Rightarrow> (Inr False, h)
             | Some rs \<Rightarrow> define_own cfg inner receiver k v (map_of rs k \<noteq> None) h))"

definition any_set ::
  "toy options \<Rightarrow> toy platform \<Rightarrow> jsval \<Rightarrow> key \<Rightarrow> jsval \<Rightarrow> jsval \<Rightarrow> (toy, bool) prim" where
  "any_set cfg inner t k v receiver =
     (case t of
        ObjProxy t1 p \<Rightarrow> nested (set_handler cfg inner t1 p k v receiver)
      | FunProxy t1 p \<Rightarrow> reflect_set inner t1 k v receiver
      | _ \<Rightarrow> toy_set cfg inner t k v receiver)"

subsubsection \<open>JSON.stringify\<close>

fun hex_digit :: "nat \<Rightarrow> char" where
  "hex_digit n = (if n < 10 then char_of (48 + n) else char_of (87 + n))"

text \<open>A character inside a JSON string, escaped as \<^verbatim>\<open>QuoteJSONString\<close> does\<close>

definition json_char :: "char \<Rightarrow> string" where
  "json_char c =
     (if c = CHR 0x22 then [CHR 0x5C, CHR 0x22]
      else if c = CHR 0x5C then [CHR 0x5C, CHR 0x5C]
      else if c = CHR 0x08 then [CHR 0x5C, CHR ''b'']
      else if c = CHR 0x09 then [CHR 0x5C, CHR ''t'']
      else if c = CHR 0x0A then [CHR 0x5C, CHR ''n'']
      else if c = CHR 0x0C then [CHR 0x5C, CHR ''f'']
      else if c = CHR 0x0D then [CHR 0x5C, CHR ''r'']
      else if of_char c < (32::nat) then
        [CHR 0x5C, CHR ''u'', CHR ''0'', CHR ''0'',
         hex_digit (of_char c div 16), hex_digit (of_char c mod 16)]
      else [c])"

definition json_quote :: "string \<Rightarrow> string" where
  "json_quote s = [CHR 0x22] @ concat (map json_char s) @ [CHR 0x22]"

fun join_comma :: "string list \<Rightarrow> string" where
  "join_comma [] = []"
| "join_comma [m] = m"
| "join_comma (m # ms) = m @ '','' @ join_comma ms"

text \<open>The elements of an array: what has no JSON form is written \<^verbatim>\<open>null\<close>.\<close>

definition json_elements :: "string option list \<Rightarrow> string list" where
  "json_elements rs = map (\<lambda>r. case r of None \<Rightarrow> ''null'' | Some y \<Rightarrow> y) rs"

text \<open>The members of an object: what has no JSON form is left out.\<close>

fun json_members :: "(string \<times> string option) list \<Rightarrow> string list" where
  "json_members [] = []"
| "json_members ((k, None) # ms) = json_members ms"
| "json_members ((k, Some y) # ms) = (json_quote k @ '':'' @ y) # json_members ms"

text \<open>The own string keys of an object, in order\<close>

fun string_keys :: "(key \<times> jsval) list \<Rightarrow> string list" where
  "string_keys [] = []"
| "string_keys ((KStr k, v) # ps) = k # string_keys ps"
| "string_keys ((KSym i d, v) # ps) = string_keys ps"

fun indexed :: "nat \<Rightarrow> 'a list \<Rightarrow> (nat \<times> 'a) list" where
  "indexed i [] = []"
| "indexed i (x # xs) = (i, x) # indexed (Suc i) xs"

text \<open>\<^verbatim>\<open>IsArray\<close>: a proxy of an array is an array.\<close>

fun array_of :: "jsval \<Rightarrow> jsval list option" where
  "array_of (Arr xs) = Some xs"
| "array_of (ObjProxy t p) = array_of t"
| "array_of v = None"

text \<open>
  \<^verbatim>\<open>SerializeJSONProperty\<close> on the value \<open>v\<close> found under the key \<open>name\<close>, with
  \<open>get\<close> and \<open>call\<close> the engine's property read and call, \<open>st\<close> the addresses of the
  ordinary objects being serialised (a value met again is a circular structure, a
  \<^verbatim>\<open>TypeError\<close>) and the first argument the room left on the stack. A proxy that a
  \<^verbatim>\<open>get\<close> trap has just made is a new object, never one of those being serialised.
  The \<^verbatim>\<open>length\<close> and the elements of an array and the members of an object are
  read with \<open>get\<close>, one after the other.
\<close>

primrec json_ser ::
  "nat \<Rightarrow> (jsval \<Rightarrow> key \<Rightarrow> (toy, jsval) prim) \<Rightarrow> (jsval \<Rightarrow> jsval \<Rightarrow> jsval \<Rightarrow> (toy, jsval) prim)
     \<Rightarrow> nat list \<Rightarrow> string \<Rightarrow> jsval \<Rightarrow> (toy, string option) prim" where
  "json_ser 0 get call st name v = pthrow range_error"
| "json_ser (Suc d) get call st name v =
     pbind
       (if primitive v then pret v
        else
          pbind (get v (KStr ''toJSON'')) (\<lambda>tj.
          if js_typeof tj = ''function'' then call tj v (Arr [Str name]) else pret v))
       (\<lambda>w.
          case w of
            Undefined \<Rightarrow> pret None
          | Null \<Rightarrow> pret (Some ''null'')
          | Boolean b \<Rightarrow> pret (Some (bool_string b))
          | Number i \<Rightarrow> pret (Some (show_int i))
          | Str s \<Rightarrow> pret (Some (json_quote s))
          | BigInt i \<Rightarrow> pthrow TypeError
          | Symbol i d \<Rightarrow> pret None
          | _ \<Rightarrow>
              if js_typeof w = ''function'' then pret None
              else if (case w of Obj a \<Rightarrow> a \<in> set st | _ \<Rightarrow> False) then pthrow TypeError
              else if array_of w \<noteq> None then
                pbind (get w (KStr ''length'')) (\<lambda>_.
                pbind
                  (pmap (\<lambda>(i, _). pbind (get w (KStr (show_nat i)))
                           (json_ser d get call st (show_nat i)))
                     (indexed 0 (case array_of w of None \<Rightarrow> [] | Some xs \<Rightarrow> xs)))
                  (\<lambda>rs. pret (Some (''['' @ join_comma (json_elements rs) @ '']''))))
              else
                (\<lambda>h.
                   pbind
                     (pmap (\<lambda>k. pbind (get w (KStr k)) (\<lambda>x.
                              pbind (json_ser d get call (case w of Obj a \<Rightarrow> a # st | _ \<Rightarrow> st) k x)
                                (\<lambda>r. pret (k, r))))
                        (case toy_props h w of None \<Rightarrow> [] | Some ps \<Rightarrow> string_keys ps))
                     (\<lambda>ms. pret (Some (''{'' @ join_comma (json_members ms) @ ''}''))) h))"

definition toy_json_stringify ::
  "nat \<Rightarrow> toy options \<Rightarrow> toy platform \<Rightarrow> jsval \<Rightarrow> (toy, string option) prim" where
  "toy_json_stringify d cfg inner v =
     json_ser d (\<lambda>x k. any_get cfg inner x k x) (any_apply cfg inner) [] [] v"

subsubsection \<open>String coercion of an object\<close>

text \<open>
  \<^verbatim>\<open>ToPrimitive\<close> reads \<^verbatim>\<open>Symbol.toPrimitive\<close> and \<^verbatim>\<open>toString\<close> from the value. A
  function converts by the built-in \<^verbatim>\<open>Function.prototype.toString\<close>, which is not
  a member in the heap: it gives the text of a native function with its name, and,
  for a proxy of a function, of a native function without a name. An object, having
  no prototype, has no conversion.
\<close>

fun function_text :: "jsval \<Rightarrow> string" where
  "function_text (Fun a) = ''function '' @ toy_fun_name a @ ''() { [native code] }''"
| "function_text v = ''function () { [native code] }''"

definition toy_object_to_string ::
  "toy options \<Rightarrow> toy platform \<Rightarrow> jsval \<Rightarrow> (toy, string) prim" where
  "toy_object_to_string cfg inner v =
     pbind (any_get cfg inner v (KSym 0 (Some ''Symbol.toPrimitive'')) v) (\<lambda>_.
     pbind (any_get cfg inner v (KStr ''toString'') v) (\<lambda>_.
     if js_typeof v = ''function'' then pret (function_text v)
     else pbind (any_get cfg inner v (KStr ''valueOf'') v) (\<lambda>_. pthrow TypeError)))"

subsubsection \<open>The engine, by the room left on the stack\<close>

definition toy_layer :: "nat \<Rightarrow> toy options \<Rightarrow> toy platform \<Rightarrow> toy platform" where
  "toy_layer d cfg inner = \<lparr>
     reflect_get = any_get cfg inner, reflect_set = any_set cfg inner,
     reflect_has = any_has cfg inner,
     reflect_deleteProperty = any_deleteProperty cfg inner,
     reflect_defineProperty = any_defineProperty cfg inner,
     reflect_getPrototypeOf = any_getPrototypeOf cfg inner,
     reflect_setPrototypeOf = any_setPrototypeOf cfg inner,
     reflect_preventExtensions = any_preventExtensions cfg inner,
     reflect_isExtensible = any_isExtensible cfg inner,
     reflect_apply = any_apply cfg inner, reflect_construct = any_construct cfg inner,
     json_stringify = toy_json_stringify d cfg inner,
     object_to_string = toy_object_to_string cfg inner,
     number_to_string = show_int,
     console_method = (\<lambda>n. if n \<in> set [''log'', ''info'', ''warn'', ''error'', ''debug'']
                              then Some toy_write else None),
     console_log = toy_write \<rparr>"

definition toy_exhausted :: "toy platform" where
  "toy_exhausted = \<lparr>
     reflect_get = (\<lambda>t k r. pthrow range_error),
     reflect_set = (\<lambda>t k v r. pthrow range_error),
     reflect_has = (\<lambda>t k. pthrow range_error),
     reflect_deleteProperty = (\<lambda>t k. pthrow range_error),
     reflect_defineProperty = (\<lambda>t k a. pthrow range_error),
     reflect_getPrototypeOf = (\<lambda>t. pthrow range_error),
     reflect_setPrototypeOf = (\<lambda>t p. pthrow range_error),
     reflect_preventExtensions = (\<lambda>t. pthrow range_error),
     reflect_isExtensible = (\<lambda>t. pthrow range_error),
     reflect_apply = (\<lambda>f t a. pthrow range_error),
     reflect_construct = (\<lambda>f a n. pthrow range_error),
     json_stringify = (\<lambda>v. pthrow range_error),
     object_to_string = (\<lambda>v. pthrow range_error),
     number_to_string = show_int,
     console_method = (\<lambda>n. None),
     console_log = (\<lambda>l. pthrow range_error) \<rparr>"

primrec toy_platform :: "nat \<Rightarrow> toy options \<Rightarrow> toy platform" where
  "toy_platform 0 cfg = toy_exhausted"
| "toy_platform (Suc n) cfg = toy_layer (Suc n) cfg (toy_platform n cfg)"

text \<open>The room on the stack that the instances below start with\<close>

definition toy_stack :: nat where
  "toy_stack = Suc (Suc (Suc (Suc (Suc (Suc (Suc (Suc 0)))))))"

text \<open>
  An environment \<^verbatim>\<open>env\<close> at address 0:
  \<^verbatim>\<open>{ navigator: { language: 'en', userAgent: 'UA', platform: 'Linux' },
     console: { log: function log, memory: {} },
     addEventListener: function addEventListener, makeObject: function makeObject,
     self: env, consoleData: { rows: {} }, whoAmI: function whoAmI, loop: loop }\<close>
  where \<^verbatim>\<open>loop\<close> is the object \<^verbatim>\<open>{ me: loop }\<close>.
  \<^verbatim>\<open>makeObject\<close> returns the empty object that is its \<^verbatim>\<open>prototype\<close> member
  (address 7), \<^verbatim>\<open>whoAmI\<close> returns its receiver, the other functions return
  \<^verbatim>\<open>undefined\<close>.
\<close>

definition toy_env :: toy where
  "toy_env = \<lparr>
     heap = [
       (0, [(KStr ''navigator'', Obj 1), (KStr ''console'', Obj 2),
            (KStr ''addEventListener'', Fun 4), (KStr ''makeObject'', Fun 6),
            (KStr ''self'', Obj 0), (KStr ''consoleData'', Obj 8),
            (KStr ''whoAmI'', Fun 10), (KStr ''loop'', Obj 11)]),
       (1, [(KStr ''language'', Str ''en''), (KStr ''userAgent'', Str ''UA''),
            (KStr ''platform'', Str ''Linux'')]),
       (2, [(KStr ''log'', Fun 3), (KStr ''memory'', Obj 5)]),
       (3, []),
       (4, []),
       (5, []),
       (6, [(KStr ''prototype'', Obj 7)]),
       (7, []),
       (8, [(KStr ''rows'', Obj 9)]),
       (9, []),
       (10, []),
       (11, [(KStr ''me'', Obj 11)])],
     sealed = [],
     returns = [(3, Undefined), (4, Undefined), (6, Obj 7)],
     console_out = [] \<rparr>"

text \<open>
  The options \<^verbatim>\<open>{ contextName: 'env' }\<close> over the defaults, variants of them, and
  the engine for each.
\<close>

definition env_options :: "toy options" where
  "env_options = default_options\<lparr>contextName := ''env''\<rparr>"

definition watch_options :: "toy options" where
  "watch_options = default_options\<lparr>contextName := ''navigator'',
     watchedProps := Some {KStr ''userAgent''}\<rparr>"

definition console_options :: "toy options" where
  "console_options = default_options\<lparr>contextName := ''console''\<rparr>"

definition bound_options :: "toy options" where
  "bound_options = default_options\<lparr>contextName := ''env'', bindThis := True\<rparr>"

definition env_engine :: "toy platform" where
  "env_engine = toy_platform toy_stack env_options"

definition watch_engine :: "toy platform" where
  "watch_engine = toy_platform toy_stack watch_options"

definition console_engine :: "toy platform" where
  "console_engine = toy_platform toy_stack console_options"

definition bound_engine :: "toy platform" where
  "bound_engine = toy_platform toy_stack bound_options"


section \<open>Properties\<close>

subsection \<open>Computations and strings\<close>

lemma bindJ_ret: "bindJ (ret x) f = f x"
  by (rule ext) (simp add: bindJ_def ret_def split: prod.splits)

lemma bindJ_throw: "bindJ (throw e) f = throw e"
  by (rule ext) (simp add: bindJ_def throw_def)

lemma bindJ_Inr:
  "m s = (Inr x, s1, j1) \<Longrightarrow> bindJ m f s = (case f x s1 of (r, s2, j2) \<Rightarrow> (r, s2, j1 @ j2))"
  by (simp add: bindJ_def)

lemma bindJ_Inl: "m s = (Inl e, s1, j1) \<Longrightarrow> bindJ m f s = (Inl e, s1, j1)"
  by (simp add: bindJ_def)

lemma bindJ_InrE:
  assumes "bindJ m f s = (Inr y, s', j)"
  obtains x s1 j1 j2 where "m s = (Inr x, s1, j1)" "f x s1 = (Inr y, s', j2)" "j = j1 @ j2"
  using assms by (auto simp: bindJ_def split: prod.splits sum.splits)

lemma includes_str_iff: "includes_str s sub \<longleftrightarrow> (\<exists>a b. s = a @ sub @ b)"
proof (induction s)
  case Nil
  then show ?case by auto
next
  case (Cons c cs)
  show ?case
  proof
    assume "includes_str (c # cs) sub"
    then consider "prefix sub (c # cs)" | "includes_str cs sub" by auto
    then show "\<exists>a b. c # cs = a @ sub @ b"
    proof cases
      case 1
      then obtain b where "c # cs = sub @ b" by (auto simp: prefix_def)
      then have "c # cs = [] @ sub @ b" by simp
      then show ?thesis by blast
    next
      case 2
      with Cons.IH obtain a b where "cs = a @ sub @ b" by blast
      then have "c # cs = (c # a) @ sub @ b" by simp
      then show ?thesis by blast
    qed
  next
    assume "\<exists>a b. c # cs = a @ sub @ b"
    then obtain a b where ab: "c # cs = a @ sub @ b" by blast
    show "includes_str (c # cs) sub"
    proof (cases a)
      case Nil
      with ab have "prefix sub (c # cs)" by (simp add: prefix_def)
      then show ?thesis by simp
    next
      case (Cons a0 as)
      with ab have "cs = as @ sub @ b" by simp
      with Cons.IH have "includes_str cs sub" by blast
      then show ?thesis by simp
    qed
  qed
qed

lemma primitive_String_call: "primitive v \<Longrightarrow> String_call plat v = ret (prim_string plat v)"
  by (simp add: String_call_def)



subsection \<open>Running the concrete engine\<close>

text \<open>
  A computation is unfolded when it is applied to a state, and the engine one level
  at a time, so that a run on the concrete engine is evaluated by rewriting.
\<close>

lemma bindJ_run:
  "bindJ m f s = (case m s of
       (Inl e, s1, j1) \<Rightarrow> (Inl e, s1, j1)
     | (Inr x, s1, j1) \<Rightarrow> (case f x s1 of (r, s2, j2) \<Rightarrow> (r, s2, j1 @ j2)))"
  by (simp add: bindJ_def)

lemma perform_run: "perform st p s = (case p s of (r, s1) \<Rightarrow> (r, s1, [st]))"
  by (simp add: perform_def)

lemma lift_run: "lift p s = (case p s of (r, s1) \<Rightarrow> (r, s1, []))"
  by (simp add: lift_def)

lemma ret_run: "ret x s = (Inr x, s, [])"
  by (simp add: ret_def)

lemma throw_run: "throw e s = (Inl e, s, [])"
  by (simp add: throw_def)

lemma pbind_run: "pbind m f h = (case m h of (Inl e, h1) \<Rightarrow> (Inl e, h1) | (Inr x, h1) \<Rightarrow> f x h1)"
  by (simp add: pbind_def)

lemma pret_run: "pret x h = (Inr x, h)"
  by (simp add: pret_def)

lemma pthrow_run: "pthrow e h = (Inl e, h)"
  by (simp add: pthrow_def)

lemma nested_run: "nested m h = (case m h of (r, h1, j) \<Rightarrow> (r, h1))"
  by (simp add: nested_def)

lemma engine_select:
  "reflect_get (toy_platform (Suc n) cfg) = any_get cfg (toy_platform n cfg)"
  "reflect_set (toy_platform (Suc n) cfg) = any_set cfg (toy_platform n cfg)"
  "reflect_has (toy_platform (Suc n) cfg) = any_has cfg (toy_platform n cfg)"
  "reflect_deleteProperty (toy_platform (Suc n) cfg) = any_deleteProperty cfg (toy_platform n cfg)"
  "reflect_defineProperty (toy_platform (Suc n) cfg) = any_defineProperty cfg (toy_platform n cfg)"
  "reflect_getPrototypeOf (toy_platform (Suc n) cfg) = any_getPrototypeOf cfg (toy_platform n cfg)"
  "reflect_setPrototypeOf (toy_platform (Suc n) cfg) = any_setPrototypeOf cfg (toy_platform n cfg)"
  "reflect_preventExtensions (toy_platform (Suc n) cfg)
     = any_preventExtensions cfg (toy_platform n cfg)"
  "reflect_isExtensible (toy_platform (Suc n) cfg) = any_isExtensible cfg (toy_platform n cfg)"
  "reflect_apply (toy_platform (Suc n) cfg) = any_apply cfg (toy_platform n cfg)"
  "reflect_construct (toy_platform (Suc n) cfg) = any_construct cfg (toy_platform n cfg)"
  "json_stringify (toy_platform (Suc n) cfg) = toy_json_stringify (Suc n) cfg (toy_platform n cfg)"
  "object_to_string (toy_platform (Suc n) cfg) = toy_object_to_string cfg (toy_platform n cfg)"
  "number_to_string (toy_platform (Suc n) cfg) = show_int"
  "console_method (toy_platform (Suc n) cfg) name =
     (if name \<in> set [''log'', ''info'', ''warn'', ''error'', ''debug''] then Some toy_write else None)"
  "console_log (toy_platform (Suc n) cfg) = toy_write"
  by (simp_all add: toy_layer_def)

lemma engine_exhausted:
  "reflect_get (toy_platform 0 cfg) t k r = pthrow range_error"
  "reflect_set (toy_platform 0 cfg) t k v r = pthrow range_error"
  "reflect_has (toy_platform 0 cfg) t k = pthrow range_error"
  "reflect_deleteProperty (toy_platform 0 cfg) t k = pthrow range_error"
  "reflect_defineProperty (toy_platform 0 cfg) t k a = pthrow range_error"
  "reflect_getPrototypeOf (toy_platform 0 cfg) t = pthrow range_error"
  "reflect_setPrototypeOf (toy_platform 0 cfg) t p = pthrow range_error"
  "reflect_preventExtensions (toy_platform 0 cfg) t = pthrow range_error"
  "reflect_isExtensible (toy_platform 0 cfg) t = pthrow range_error"
  "reflect_apply (toy_platform 0 cfg) f th a = pthrow range_error"
  "reflect_construct (toy_platform 0 cfg) f a nt = pthrow range_error"
  "json_stringify (toy_platform 0 cfg) v = pthrow range_error"
  "object_to_string (toy_platform 0 cfg) v = pthrow range_error"
  by (simp_all add: toy_exhausted_def)

declare toy_platform.simps [simp del]

lemma any_get_run:
  "any_get cfg inner (ObjProxy t p) k r = nested (get_handler cfg inner t p k r)"
  "any_get cfg inner (FunProxy t p) k r = reflect_get inner t k r"
  "any_get cfg inner (Obj a) k r = toy_get (Obj a) k r"
  "any_get cfg inner (Fun a) k r = toy_get (Fun a) k r"
  "any_get cfg inner (Arr xs) k r = toy_get (Arr xs) k r"
  by (simp_all add: any_get_def)

lemma any_set_run:
  "any_set cfg inner (ObjProxy t p) k v r = nested (set_handler cfg inner t p k v r)"
  "any_set cfg inner (FunProxy t p) k v r = reflect_set inner t k v r"
  "any_set cfg inner (Obj a) k v r = toy_set cfg inner (Obj a) k v r"
  "any_set cfg inner (Fun a) k v r = toy_set cfg inner (Fun a) k v r"
  by (simp_all add: any_set_def)

lemma any_has_run:
  "any_has cfg inner (ObjProxy t p) k = nested (has_handler cfg inner t p k)"
  "any_has cfg inner (FunProxy t p) k = reflect_has inner t k"
  "any_has cfg inner (Obj a) k = toy_has (Obj a) k"
  "any_has cfg inner (Fun a) k = toy_has (Fun a) k"
  "any_has cfg inner (Arr xs) k = toy_has (Arr xs) k"
  by (simp_all add: any_has_def)

lemma any_deleteProperty_run:
  "any_deleteProperty cfg inner (ObjProxy t p) k = nested (deleteProperty_handler cfg inner t p k)"
  "any_deleteProperty cfg inner (FunProxy t p) k = reflect_deleteProperty inner t k"
  "any_deleteProperty cfg inner (Obj a) k = toy_deleteProperty (Obj a) k"
  "any_deleteProperty cfg inner (Fun a) k = toy_deleteProperty (Fun a) k"
  by (simp_all add: any_deleteProperty_def)

lemma any_defineProperty_run:
  "any_defineProperty cfg inner (ObjProxy t p) k d
     = nested (defineProperty_handler cfg inner t p k d)"
  "any_defineProperty cfg inner (FunProxy t p) k d = reflect_defineProperty inner t k d"
  "any_defineProperty cfg inner (Obj a) k d = toy_defineProperty cfg inner (Obj a) k d"
  "any_defineProperty cfg inner (Fun a) k d = toy_defineProperty cfg inner (Fun a) k d"
  by (simp_all add: any_defineProperty_def)

lemma any_getPrototypeOf_run:
  "any_getPrototypeOf cfg inner (ObjProxy t p) = nested (getPrototypeOf_handler cfg inner t p)"
  "any_getPrototypeOf cfg inner (FunProxy t p) = reflect_getPrototypeOf inner t"
  "any_getPrototypeOf cfg inner (Obj a) = toy_getPrototypeOf (Obj a)"
  "any_getPrototypeOf cfg inner (Fun a) = toy_getPrototypeOf (Fun a)"
  by (simp_all add: any_getPrototypeOf_def)

lemma any_setPrototypeOf_run:
  "any_setPrototypeOf cfg inner (ObjProxy t p) x = nested (setPrototypeOf_handler cfg inner t p x)"
  "any_setPrototypeOf cfg inner (FunProxy t p) x = reflect_setPrototypeOf inner t x"
  "any_setPrototypeOf cfg inner (Obj a) x = toy_setPrototypeOf (Obj a) x"
  "any_setPrototypeOf cfg inner (Fun a) x = toy_setPrototypeOf (Fun a) x"
  by (simp_all add: any_setPrototypeOf_def)

lemma any_preventExtensions_run:
  "any_preventExtensions cfg inner (ObjProxy t p) = nested (preventExtensions_handler cfg inner t p)"
  "any_preventExtensions cfg inner (FunProxy t p) = reflect_preventExtensions inner t"
  "any_preventExtensions cfg inner (Obj a) = toy_preventExtensions (Obj a)"
  "any_preventExtensions cfg inner (Fun a) = toy_preventExtensions (Fun a)"
  by (simp_all add: any_preventExtensions_def)

lemma any_isExtensible_run:
  "any_isExtensible cfg inner (ObjProxy t p) = nested (isExtensible_handler cfg inner t p)"
  "any_isExtensible cfg inner (FunProxy t p) = reflect_isExtensible inner t"
  "any_isExtensible cfg inner (Obj a) = toy_isExtensible (Obj a)"
  "any_isExtensible cfg inner (Fun a) = toy_isExtensible (Fun a)"
  by (simp_all add: any_isExtensible_def)

lemma any_apply_run:
  "any_apply cfg inner (FunProxy t p) th args = nested (apply_handler cfg inner t p th args)"
  "any_apply cfg inner (ObjProxy t p) th args = reflect_apply inner t th args"
  "any_apply cfg inner (Obj a) th args = toy_apply (Obj a) th args"
  "any_apply cfg inner (Fun a) th args = toy_apply (Fun a) th args"
  by (simp_all add: any_apply_def)

lemma any_construct_run:
  "any_construct cfg inner (FunProxy t p) args nt = nested (construct_handler cfg inner t p args nt)"
  "any_construct cfg inner (ObjProxy t p) args nt = reflect_construct inner t args nt"
  "any_construct cfg inner (Obj a) args nt = toy_construct (Obj a) args nt"
  "any_construct cfg inner (Fun a) args nt = toy_construct (Fun a) args nt"
  by (simp_all add: any_construct_def)

lemma env_options_select:
  "logLevel env_options = LevelName ''info''" "watchedProps env_options = None"
  "contextName env_options = ''env''" "proxy_type env_options = ''object''"
  "bindThis env_options = False"
  "beforeGet env_options = None" "afterGet env_options = None"
  "beforeSet env_options = None" "afterSet env_options = None"
  "beforeApply env_options = None" "afterApply env_options = None"
  by (simp_all add: env_options_def default_options_def)

lemma watch_options_select:
  "logLevel watch_options = LevelName ''info''"
  "watchedProps watch_options = Some {KStr ''userAgent''}"
  "contextName watch_options = ''navigator''" "proxy_type watch_options = ''object''"
  "bindThis watch_options = False"
  "beforeGet watch_options = None" "afterGet watch_options = None"
  "beforeSet watch_options = None" "afterSet watch_options = None"
  "beforeApply watch_options = None" "afterApply watch_options = None"
  by (simp_all add: watch_options_def default_options_def)

lemma console_options_select:
  "logLevel console_options = LevelName ''info''" "watchedProps console_options = None"
  "contextName console_options = ''console''" "proxy_type console_options = ''object''"
  "bindThis console_options = False"
  "beforeGet console_options = None" "afterGet console_options = None"
  "beforeSet console_options = None" "afterSet console_options = None"
  "beforeApply console_options = None" "afterApply console_options = None"
  by (simp_all add: console_options_def default_options_def)

lemma bound_options_select:
  "logLevel bound_options = LevelName ''info''" "watchedProps bound_options = None"
  "contextName bound_options = ''env''" "proxy_type bound_options = ''object''"
  "bindThis bound_options = True"
  "beforeGet bound_options = None" "afterGet bound_options = None"
  "beforeSet bound_options = None" "afterSet bound_options = None"
  "beforeApply bound_options = None" "afterApply bound_options = None"
  by (simp_all add: bound_options_def default_options_def)

lemmas engine_run = engine_select engine_exhausted
  any_get_run any_set_run any_has_run any_deleteProperty_run
  any_defineProperty_run any_getPrototypeOf_run any_setPrototypeOf_run any_preventExtensions_run
  any_isExtensible_run any_apply_run any_construct_run
  pbind_run pret_run pthrow_run nested_run
  toy_get_def toy_put_def toy_has_def toy_deleteProperty_def toy_getPrototypeOf_def
  toy_setPrototypeOf_def toy_preventExtensions_def toy_isExtensible_def toy_apply_def
  toy_construct_def toy_write_def toy_props_def toy_fun_name_def toy_set_def
  toy_defineProperty_def descriptor_member_def fresh_def descriptor_fields_def
  toy_json_stringify_def toy_object_to_string_def
  json_quote_def json_char_def json_elements_def bool_string_def show_int_def array_member_def

lemmas monad_run = bindJ_run ret_run throw_run lift_run perform_run

lemmas handler_defs = get_handler_def set_handler_def has_handler_def deleteProperty_handler_def
  defineProperty_handler_def getPrototypeOf_handler_def setPrototypeOf_handler_def
  preventExtensions_handler_def isExtensible_handler_def apply_handler_def construct_handler_def
  op_get_def op_call_def op_new_def Universal_proxy_def
  opt_call_def log_def safeStringify_def String_call_def ToString_def tpl_def get_prop_def
  first_arg_def Reflect_get_def Reflect_set_def Reflect_has_def Reflect_deleteProperty_def
  Reflect_defineProperty_def Reflect_getPrototypeOf_def Reflect_setPrototypeOf_def
  Reflect_preventExtensions_def Reflect_isExtensible_def Reflect_apply_def Reflect_construct_def
  createProxy_def createFunctionProxy_def unwatched_def nullish_def primitive_def coalesce_def
  sink_of_def Let_def

lemmas option_select = env_options_select watch_options_select console_options_select
  bound_options_select

lemmas engine_defs = env_engine_def watch_engine_def console_engine_def bound_engine_def
  toy_stack_def

lemmas evaluate = monad_run handler_defs engine_run option_select engine_defs toy_env_def
  outcome_def final_def journal_def


subsection \<open>The serialiser\<close>

lemma env_json_circular: "json_stringify env_engine (Obj 0) toy_env = (Inl TypeError, toy_env)"
  by (simp add: evaluate)

lemma loop_json_overflow:
  "fst (json_stringify env_engine (ObjProxy (Obj 11) ''loop'') toy_env) = Inl range_error"
  by (simp add: evaluate)


text \<open>
  C4. \<^verbatim>\<open>safeStringify\<close> returns the text \<^verbatim>\<open>null\<close> or \<^verbatim>\<open>undefined\<close> on a
  nullish value. On an object it is the platform's \<^verbatim>\<open>JSON.stringify\<close> and
  nothing else: whatever that call yields, a string, \<^verbatim>\<open>undefined\<close> or a thrown
  error, is the outcome, with the state it left, so a failure reaches the caller as
  it was thrown and no placeholder takes its place. On every other primitive,
  a bigint and a symbol included, it returns the string coercion and does not throw.
\<close>

theorem safeStringify_contract:
  "(nullish v \<longrightarrow>
      safeStringify plat v s = (Inr (Some (if v = Null then ''null'' else ''undefined'')), s, []))
   \<and> (\<not> nullish v \<and> js_typeof v = ''object'' \<longrightarrow>
        (\<forall>r s1. json_stringify plat v s = (r, s1) \<longrightarrow> safeStringify plat v s = (r, s1, [])))
   \<and> (\<not> nullish v \<and> primitive v \<longrightarrow>
        safeStringify plat v s = (Inr (Some (prim_string plat v)), s, []))
   \<and> safeStringify plat (BigInt n) s = (Inr (Some (show_int n)), s, [])
   \<and> safeStringify plat (Symbol i d) s = (Inr (Some (symbol_string d)), s, [])"
proof (intro conjI impI allI)
  assume "nullish v"
  then have "v = Null \<or> v = Undefined" by (simp add: nullish_def)
  then show "safeStringify plat v s = (Inr (Some (if v = Null then ''null'' else ''undefined'')), s, [])"
    by (auto simp: safeStringify_def nullish_def String_call_def primitive_def bindJ_def ret_def)
next
  fix r s1
  assume "\<not> nullish v \<and> js_typeof v = ''object''" and "json_stringify plat v s = (r, s1)"
  then show "safeStringify plat v s = (r, s1, [])"
    by (simp add: safeStringify_def lift_def)
next
  assume "\<not> nullish v \<and> primitive v"
  then show "safeStringify plat v s = (Inr (Some (prim_string plat v)), s, [])"
    by (auto simp: safeStringify_def primitive_def nullish_def String_call_def bindJ_def ret_def)
next
  show "safeStringify plat (BigInt n) s = (Inr (Some (show_int n)), s, [])"
    by (simp add: safeStringify_def primitive_def nullish_def String_call_def bindJ_def ret_def)
next
  show "safeStringify plat (Symbol i d) s = (Inr (Some (symbol_string d)), s, [])"
    by (simp add: safeStringify_def primitive_def nullish_def String_call_def bindJ_def ret_def)
qed


theorem safeStringify_contract_witness:
  "nullish Null
   \<and> safeStringify env_engine Null toy_env = (Inr (Some ''null''), toy_env, [])
   \<and> \<not> nullish (Obj 0) \<and> js_typeof (Obj 0) = ''object''
   \<and> json_stringify env_engine (Obj 0) toy_env = (Inl TypeError, toy_env)
   \<and> safeStringify env_engine (Obj 0) toy_env = (Inl TypeError, toy_env, [])
   \<and> \<not> nullish (ObjProxy (Obj 11) ''loop'') \<and> js_typeof (ObjProxy (Obj 11) ''loop'') = ''object''
   \<and> fst (json_stringify env_engine (ObjProxy (Obj 11) ''loop'') toy_env) = Inl range_error
   \<and> outcome (safeStringify env_engine (ObjProxy (Obj 11) ''loop'') toy_env) = Inl range_error
   \<and> \<not> nullish (Str ''en'') \<and> primitive (Str ''en'')
   \<and> safeStringify env_engine (Str ''en'') toy_env = (Inr (Some ''en''), toy_env, [])"
proof -
  let ?p = "ObjProxy (Obj 11) ''loop''"
  have "json_stringify env_engine ?p toy_env
      = (Inl range_error, snd (json_stringify env_engine ?p toy_env))"
    using loop_json_overflow by (simp add: prod_eq_iff)
  with safeStringify_contract [of ?p env_engine toy_env]
  have "outcome (safeStringify env_engine ?p toy_env) = Inl range_error"
    by (simp add: nullish_def outcome_def)
  with safeStringify_contract [of Null env_engine toy_env]
    safeStringify_contract [of "Obj 0" env_engine toy_env]
    safeStringify_contract [of "Str ''en''" env_engine toy_env]
    env_json_circular loop_json_overflow
  show ?thesis by (simp add: nullish_def primitive_def)
qed


subsection \<open>Steps of the handlers\<close>

lemma Reflect_get_run:
  "Reflect_get plat t k r s = (case reflect_get plat t k r s of (x, s1) \<Rightarrow> (x, s1, [Real (RGet t k r)]))"
  by (simp add: Reflect_get_def perform_def)

lemma opt_call_journal: "opt_call n h run s = (r, s', j) \<Longrightarrow> j = hook_steps n h"
  by (auto simp: opt_call_def hook_steps_def ret_def perform_def split: option.splits prod.splits)

lemma opt_call_None: "opt_call n None run = ret Undefined"
  by (simp add: opt_call_def)

lemma String_call_journal: "String_call plat v s = (r, s', j) \<Longrightarrow> j = []"
  by (auto simp: String_call_def ret_def lift_def split: if_splits prod.splits)

lemma ToString_journal: "ToString plat v s = (r, s', j) \<Longrightarrow> j = []"
  by (cases v) (auto simp: ToString_def throw_def dest: String_call_journal)

lemma safeStringify_journal: "safeStringify plat v s = (r, s', j) \<Longrightarrow> j = []"
  by (auto simp: safeStringify_def bindJ_def ret_def lift_def
      split: if_splits prod.splits sum.splits dest: String_call_journal)

lemma log_journal: "log cfg plat ms s = (r, s', j) \<Longrightarrow> j = [Emit (join_sp ms)]"
  by (auto simp: log_def Let_def perform_def split: loglevel.splits prod.splits option.splits)

lemma log_run:
  "log cfg plat ms s
     = (case sink_of cfg plat (join_sp ms) s of (r, s1) \<Rightarrow> (r, s1, [Emit (join_sp ms)]))"
  by (simp add: log_def sink_of_def Let_def perform_def split: loglevel.splits)

lemma log_returns:
  "log cfg plat [m] s = (Inr u, s', j) \<Longrightarrow> sink_of cfg plat m s = (Inr (), s') \<and> j = [Emit m]"
  by (auto simp: log_run split: prod.splits)

lemma log_throws:
  "sink_of cfg plat m s = (Inl e, s') \<Longrightarrow> log cfg plat [m] s = (Inl e, s', [Emit m])"
  by (simp add: log_run)

lemma get_prop_journal: "get_prop plat v k s = (r, s', j) \<Longrightarrow> j = []"
  by (auto simp: get_prop_def lift_def split: prod.splits)

lemma first_arg_journal: "first_arg plat a s = (r, s', j) \<Longrightarrow> j = []"
  by (cases a) (auto simp: first_arg_def ret_def dest: get_prop_journal)

lemma wrap_step:
  "(if truthy x \<and> js_typeof x = ''object'' then createProxy x p
    else if js_typeof x = ''function'' then createFunctionProxy x p
    else ret x) = ret (wrap_value x p)"
  by (auto simp: wrap_value_def createProxy_def createFunctionProxy_def primitive_def)

lemma get_handler_console:
  "includes_str path ''console'' \<Longrightarrow>
   get_handler cfg plat t path prop receiver = Reflect_get plat t prop receiver"
  by (simp add: get_handler_def)

lemma get_handler_unwatched:
  "unwatched cfg prop \<Longrightarrow>
   get_handler cfg plat t path prop receiver = Reflect_get plat t prop receiver"
  by (simp add: get_handler_def)

lemma get_handler_open:
  assumes "\<not> unwatched cfg prop" "\<not> includes_str path ''console''"
  shows "get_handler cfg plat t path prop receiver =
     bindJ (opt_call ''beforeGet'' (beforeGet cfg) (\<lambda>h. h path prop)) (\<lambda>_.
     bindJ (Reflect_get plat t prop receiver) (\<lambda>x.
     bindJ (opt_call ''afterGet'' (afterGet cfg)
              (\<lambda>h. h path prop (wrap_value x (path @ ''.'' @ String_key prop)))) (\<lambda>r.
     bindJ (safeStringify plat (coalesce r (wrap_value x (path @ ''.'' @ String_key prop)))) (\<lambda>res.
     bindJ (log cfg plat [line_get path (propStr prop) (tpl res)]) (\<lambda>_.
     ret (coalesce r (wrap_value x (path @ ''.'' @ String_key prop))))))))"
  using assms by (simp add: get_handler_def Let_def wrap_step bindJ_ret)

text \<open>What a read that is not bypassed and returns has done.\<close>

lemma get_handler_returns:
  assumes gates: "\<not> unwatched cfg prop" "\<not> includes_str path ''console''"
    and run: "get_handler cfg plat t path prop receiver s = (Inr v, s', j)"
  obtains u s0 x s1 r s2 res s3 where
    "opt_call ''beforeGet'' (beforeGet cfg) (\<lambda>h. h path prop) s = (Inr u, s0, hook_steps ''beforeGet'' (beforeGet cfg))"
    "reflect_get plat t prop receiver s0 = (Inr x, s1)"
    "opt_call ''afterGet'' (afterGet cfg) (\<lambda>h. h path prop (wrap_value x (path @ ''.'' @ String_key prop))) s1
       = (Inr r, s2, hook_steps ''afterGet'' (afterGet cfg))"
    "safeStringify plat (coalesce r (wrap_value x (path @ ''.'' @ String_key prop))) s2 = (Inr res, s3, [])"
    "sink_of cfg plat (line_get path (propStr prop) (tpl res)) s3 = (Inr (), s')"
    "v = coalesce r (wrap_value x (path @ ''.'' @ String_key prop))"
    "j = hook_steps ''beforeGet'' (beforeGet cfg) @ [Real (RGet t prop receiver)]
           @ hook_steps ''afterGet'' (afterGet cfg) @ [Emit (line_get path (propStr prop) (tpl res))]"
proof -
  let ?w = "\<lambda>x. wrap_value x (path @ ''.'' @ String_key prop)"
  from run have run': "bindJ (opt_call ''beforeGet'' (beforeGet cfg) (\<lambda>h. h path prop)) (\<lambda>_.
     bindJ (Reflect_get plat t prop receiver) (\<lambda>x.
     bindJ (opt_call ''afterGet'' (afterGet cfg) (\<lambda>h. h path prop (?w x))) (\<lambda>r.
     bindJ (safeStringify plat (coalesce r (?w x))) (\<lambda>res.
     bindJ (log cfg plat [line_get path (propStr prop) (tpl res)]) (\<lambda>_.
     ret (coalesce r (?w x))))))) s = (Inr v, s', j)"
    by (simp add: get_handler_open [OF gates])
  from run' obtain u s0 j0 ja where
    b: "opt_call ''beforeGet'' (beforeGet cfg) (\<lambda>h. h path prop) s = (Inr u, s0, j0)"
    and r1: "bindJ (Reflect_get plat t prop receiver) (\<lambda>x.
     bindJ (opt_call ''afterGet'' (afterGet cfg) (\<lambda>h. h path prop (?w x))) (\<lambda>r.
     bindJ (safeStringify plat (coalesce r (?w x))) (\<lambda>res.
     bindJ (log cfg plat [line_get path (propStr prop) (tpl res)]) (\<lambda>_.
     ret (coalesce r (?w x)))))) s0 = (Inr v, s', ja)"
    and j: "j = j0 @ ja"
    by (rule bindJ_InrE)
  from r1 obtain x s1 j1 jb where
    g: "Reflect_get plat t prop receiver s0 = (Inr x, s1, j1)"
    and r2: "bindJ (opt_call ''afterGet'' (afterGet cfg) (\<lambda>h. h path prop (?w x))) (\<lambda>r.
     bindJ (safeStringify plat (coalesce r (?w x))) (\<lambda>res.
     bindJ (log cfg plat [line_get path (propStr prop) (tpl res)]) (\<lambda>_.
     ret (coalesce r (?w x))))) s1 = (Inr v, s', jb)"
    and ja: "ja = j1 @ jb"
    by (rule bindJ_InrE)
  from r2 obtain r s2 j2 jc where
    a: "opt_call ''afterGet'' (afterGet cfg) (\<lambda>h. h path prop (?w x)) s1 = (Inr r, s2, j2)"
    and r3: "bindJ (safeStringify plat (coalesce r (?w x))) (\<lambda>res.
     bindJ (log cfg plat [line_get path (propStr prop) (tpl res)]) (\<lambda>_.
     ret (coalesce r (?w x)))) s2 = (Inr v, s', jc)"
    and jb: "jb = j2 @ jc"
    by (rule bindJ_InrE)
  from r3 obtain res s3 j3 jd where
    st: "safeStringify plat (coalesce r (?w x)) s2 = (Inr res, s3, j3)"
    and r4: "bindJ (log cfg plat [line_get path (propStr prop) (tpl res)]) (\<lambda>_.
     ret (coalesce r (?w x))) s3 = (Inr v, s', jd)"
    and jc: "jc = j3 @ jd"
    by (rule bindJ_InrE)
  from r4 obtain un s4 j4 je where
    l: "log cfg plat [line_get path (propStr prop) (tpl res)] s3 = (Inr un, s4, j4)"
    and r5: "ret (coalesce r (?w x)) s4 = (Inr v, s', je)"
    and jd: "jd = j4 @ je"
    by (rule bindJ_InrE)
  from b have j0: "j0 = hook_steps ''beforeGet'' (beforeGet cfg)" by (rule opt_call_journal)
  from a have j2: "j2 = hook_steps ''afterGet'' (afterGet cfg)" by (rule opt_call_journal)
  from st have j3: "j3 = []" by (rule safeStringify_journal)
  from l have j4: "j4 = [Emit (line_get path (propStr prop) (tpl res))]"
    by (auto dest: log_journal)
  from r5 have v: "v = coalesce r (?w x)" and je: "je = []" by (simp_all add: ret_def)
  from g have g': "reflect_get plat t prop receiver s0 = (Inr x, s1)" and j1: "j1 = [Real (RGet t prop receiver)]"
    by (auto simp: Reflect_get_run split: prod.splits)
  show ?thesis
  proof (rule that)
    show "opt_call ''beforeGet'' (beforeGet cfg) (\<lambda>h. h path prop) s = (Inr u, s0, hook_steps ''beforeGet'' (beforeGet cfg))"
      using b j0 by simp
    show "reflect_get plat t prop receiver s0 = (Inr x, s1)" by (rule g')
    show "opt_call ''afterGet'' (afterGet cfg) (\<lambda>h. h path prop (?w x)) s1 = (Inr r, s2, hook_steps ''afterGet'' (afterGet cfg))"
      using a j2 by simp
    show "safeStringify plat (coalesce r (?w x)) s2 = (Inr res, s3, [])" using st j3 by simp
    show "sink_of cfg plat (line_get path (propStr prop) (tpl res)) s3 = (Inr (), s')"
      using l r5 by (auto simp: ret_def dest: log_returns)
    show "v = coalesce r (?w x)" by (rule v)
    show "j = hook_steps ''beforeGet'' (beforeGet cfg) @ [Real (RGet t prop receiver)]
           @ hook_steps ''afterGet'' (afterGet cfg) @ [Emit (line_get path (propStr prop) (tpl res))]"
      using j ja jb jc jd j0 j1 j2 j3 j4 je by simp
  qed
qed

lemma run_triple: "outcome r = x \<Longrightarrow> r = (x, final r, journal r)"
  by (simp add: outcome_def final_def journal_def prod_eq_iff)


subsection \<open>The exemption of the console\<close>

text \<open>
  C10. The exemption of the \<^verbatim>\<open>get\<close> trap tests whether the text
  \<^verbatim>\<open>console\<close> occurs anywhere in the path. At every such path the trap is the
  primitive read and nothing else: the outcome and the state are the ones of
  \<^verbatim>\<open>Reflect.get\<close>, the value is not wrapped, no hook runs and no line is
  written, whatever the object and the key are.
\<close>

theorem console_substring_read_unintercepted:
  assumes "path = pre @ ''console'' @ post"
    and "reflect_get plat t prop receiver s = (r, s1)"
  shows "get_handler cfg plat t path prop receiver s = (r, s1, [Real (RGet t prop receiver)])"
proof -
  from assms(1) have "includes_str path ''console''"
    by (auto simp: includes_str_iff)
  then have "get_handler cfg plat t path prop receiver s = Reflect_get plat t prop receiver s"
    by (simp add: get_handler_console)
  with assms(2) show ?thesis by (simp add: Reflect_get_run)
qed

theorem console_substring_read_unintercepted_witness:
  "''env.consoleData'' = ''env.'' @ ''console'' @ ''Data''
   \<and> reflect_get env_engine (Obj 8) (KStr ''rows'') (ObjProxy (Obj 8) ''env.consoleData'') toy_env
       = (Inr (Obj 9), toy_env)
   \<and> get_handler env_options env_engine (Obj 8) ''env.consoleData'' (KStr ''rows'')
       (ObjProxy (Obj 8) ''env.consoleData'') toy_env
       = (Inr (Obj 9), toy_env, [Real (RGet (Obj 8) (KStr ''rows'') (ObjProxy (Obj 8) ''env.consoleData''))])"
proof -
  have p: "''env.consoleData'' = ''env.'' @ ''console'' @ ''Data''" by simp
  have g: "reflect_get env_engine (Obj 8) (KStr ''rows'') (ObjProxy (Obj 8) ''env.consoleData'') toy_env
       = (Inr (Obj 9), toy_env)"
    by (simp add: evaluate)
  show ?thesis
    using p g console_substring_read_unintercepted [OF p g, of env_options] by simp
qed

subsection \<open>Reads through the wrapper\<close>

text \<open>
  C5, as claimed, fails: wrapping the console under the name \<^verbatim>\<open>console\<close> with no
  key excluded and reading its member \<^verbatim>\<open>memory\<close>, an object, returns the raw
  object.
\<close>

theorem read_wraps_objects_counterexample:
  "watchedProps console_options = None
   \<and> outcome (Universal_proxy (Obj 2) console_options toy_env) = Inr (ObjProxy (Obj 2) ''console'')
   \<and> op_get console_options console_engine (ObjProxy (Obj 2) ''console'') (KStr ''memory'') toy_env
      = (Inr (Obj 5), toy_env, [Real (RGet (Obj 2) (KStr ''memory'') (ObjProxy (Obj 2) ''console''))])
   \<and> raw_ref (Obj 5)"
  by (simp add: evaluate)

text \<open>
  C5, amended. For a key not excluded by \<^verbatim>\<open>watchedProps\<close>, at a path in which
  \<^verbatim>\<open>console\<close> does not occur, once the before-read hook has returned, the read
  through the wrapper performs the real read. When the real read throws, the read
  throws the same error. When it returns \<open>x\<close> and the read through the wrapper
  returns (the after-read hook, the serialiser and the sink can each still throw),
  the value returned is \<open>x\<close> wrapped at the path extended by the key if \<open>x\<close> is an
  object or a function and \<open>x\<close> itself if it is a primitive, unless the after-read
  hook returned a value that is not nullish, which is then the value returned.
\<close>

theorem read_through_wrapper:
  assumes "\<not> unwatched cfg prop" and "\<not> includes_str path ''console''"
    and "opt_call ''beforeGet'' (beforeGet cfg) (\<lambda>h. h path prop) s = (Inr u, s0, j0)"
    and "reflect_get plat t prop receiver s0 = (r, s1)"
  shows "(\<forall>e. r = Inl e \<longrightarrow>
            get_handler cfg plat t path prop receiver s = (Inl e, s1, j0 @ [Real (RGet t prop receiver)]))
       \<and> (\<forall>x v s' j. r = Inr x \<and> get_handler cfg plat t path prop receiver s = (Inr v, s', j) \<longrightarrow>
            (case afterGet cfg of
               None \<Rightarrow> v = wrap_value x (path @ ''.'' @ String_key prop)
             | Some h \<Rightarrow>
                 (\<exists>hr s2. h path prop (wrap_value x (path @ ''.'' @ String_key prop)) s1 = (Inr hr, s2)
                    \<and> v = (if nullish hr then wrap_value x (path @ ''.'' @ String_key prop) else hr))))
       \<and> (\<forall>x p. wrap_value x p =
            (if primitive x then x else if js_typeof x = ''function'' then FunProxy x p else ObjProxy x p))"
proof (intro conjI allI impI)
  fix e assume "r = Inl e"
  with assms show "get_handler cfg plat t path prop receiver s = (Inl e, s1, j0 @ [Real (RGet t prop receiver)])"
    by (simp add: get_handler_open bindJ_Inr bindJ_Inl Reflect_get_run)
next
  fix x v s' j
  assume h: "r = Inr x \<and> get_handler cfg plat t path prop receiver s = (Inr v, s', j)"
  let ?w = "wrap_value x (path @ ''.'' @ String_key prop)"
  from h have run: "get_handler cfg plat t path prop receiver s = (Inr v, s', j)" by simp
  from assms(1,2) run obtain u' s0' x' s1' hr s2 where
    b: "opt_call ''beforeGet'' (beforeGet cfg) (\<lambda>h. h path prop) s = (Inr u', s0', hook_steps ''beforeGet'' (beforeGet cfg))"
    and g: "reflect_get plat t prop receiver s0' = (Inr x', s1')"
    and a: "opt_call ''afterGet'' (afterGet cfg) (\<lambda>h. h path prop (wrap_value x' (path @ ''.'' @ String_key prop))) s1'
       = (Inr hr, s2, hook_steps ''afterGet'' (afterGet cfg))"
    and v: "v = coalesce hr (wrap_value x' (path @ ''.'' @ String_key prop))"
    by (rule get_handler_returns)
  from b assms(3) have "s0' = s0" by simp
  with g assms(4) h have xs: "x' = x" "s1' = s1" by simp_all
  show "case afterGet cfg of
          None \<Rightarrow> v = ?w
        | Some h \<Rightarrow> (\<exists>hr s2. h path prop ?w s1 = (Inr hr, s2) \<and> v = (if nullish hr then ?w else hr))"
  proof (cases "afterGet cfg")
    case None
    with a have "hr = Undefined" by (simp add: opt_call_def ret_def)
    with v xs None show ?thesis by (simp add: coalesce_def nullish_def)
  next
    case (Some f)
    with a xs have "f path prop ?w s1 = (Inr hr, s2)"
      by (auto simp: opt_call_def perform_def split: prod.splits)
    with v xs Some show ?thesis by (auto simp: coalesce_def)
  qed
next
  fix x p
  show "wrap_value x p =
     (if primitive x then x else if js_typeof x = ''function'' then FunProxy x p else ObjProxy x p)"
    by (cases x) (auto simp: wrap_value_def primitive_def)
qed

theorem read_through_wrapper_witness:
  "\<not> unwatched env_options (KStr ''navigator'') \<and> \<not> includes_str ''env'' ''console''
   \<and> opt_call ''beforeGet'' (beforeGet env_options) (\<lambda>h. h ''env'' (KStr ''navigator'')) toy_env
       = (Inr Undefined, toy_env, [])
   \<and> reflect_get env_engine (Obj 0) (KStr ''navigator'') (ObjProxy (Obj 0) ''env'') toy_env
       = (Inr (Obj 1), toy_env)
   \<and> outcome (get_handler env_options env_engine (Obj 0) ''env'' (KStr ''navigator'')
        (ObjProxy (Obj 0) ''env'') toy_env) = Inr (ObjProxy (Obj 1) ''env.navigator'')
   \<and> afterGet env_options = None
   \<and> ObjProxy (Obj 1) ''env.navigator'' = wrap_value (Obj 1) (''env'' @ ''.'' @ String_key (KStr ''navigator''))"
proof -
  have a: "\<not> unwatched env_options (KStr ''navigator'')" by (simp add: unwatched_def option_select)
  have b: "\<not> includes_str ''env'' ''console''" by simp
  have c: "opt_call ''beforeGet'' (beforeGet env_options) (\<lambda>h. h ''env'' (KStr ''navigator'')) toy_env
       = (Inr Undefined, toy_env, [])"
    by (simp add: option_select opt_call_def ret_def)
  have d: "reflect_get env_engine (Obj 0) (KStr ''navigator'') (ObjProxy (Obj 0) ''env'') toy_env
       = (Inr (Obj 1), toy_env)"
    by (simp add: evaluate)
  have e: "outcome (get_handler env_options env_engine (Obj 0) ''env'' (KStr ''navigator'')
        (ObjProxy (Obj 0) ''env'') toy_env) = Inr (ObjProxy (Obj 1) ''env.navigator'')"
    by (simp add: evaluate)
  have f: "afterGet env_options = None" by (simp add: option_select)
  show ?thesis
    using a b c d e f read_through_wrapper [OF a b c d]
    by (simp add: wrap_value_def)
qed

subsection \<open>Keys outside watchedProps and the exempt path, beyond reads\<close>

text \<open>
  C2 fails on the code. With \<^verbatim>\<open>watchedProps\<close> holding \<^verbatim>\<open>userAgent\<close> only, a
  write, an existence check, a deletion and a definition of the key \<^verbatim>\<open>platform\<close>
  each hand a line to the sink: only the \<^verbatim>\<open>get\<close> trap looks at
  \<^verbatim>\<open>watchedProps\<close>. The console receives two lines for the write: the
  assignment defines the property on its receiver, the proxy, whose
  \<^verbatim>\<open>defineProperty\<close> trap writes a line of its own before the line of the
  \<^verbatim>\<open>set\<close> trap.
\<close>

theorem unwatched_key_operations_logged:
  "unwatched watch_options (KStr ''platform'')
   \<and> emitted (journal (set_handler watch_options watch_engine (Obj 1) ''navigator''
        (KStr ''platform'') (Str ''Win32'') (ObjProxy (Obj 1) ''navigator'') toy_env))
      = [line_set ''navigator'' ''platform'' ''Win32'']
   \<and> emitted (journal (has_handler watch_options watch_engine (Obj 1) ''navigator''
        (KStr ''platform'') toy_env))
      = [line_has ''navigator'' ''platform'' ''true'']
   \<and> emitted (journal (deleteProperty_handler watch_options watch_engine (Obj 1) ''navigator''
        (KStr ''platform'') toy_env))
      = [line_delete ''navigator'' ''platform'' ''true'']
   \<and> emitted (journal (defineProperty_handler watch_options watch_engine (Obj 1) ''navigator''
        (KStr ''platform'') (Obj 7) toy_env))
      = [line_define ''navigator'' ''platform'' ''{}'' ''true'']
   \<and> emitted (journal (get_handler watch_options watch_engine (Obj 1) ''navigator''
        (KStr ''platform'') (ObjProxy (Obj 1) ''navigator'') toy_env)) = []
   \<and> console_out (final (set_handler watch_options watch_engine (Obj 1) ''navigator''
        (KStr ''platform'') (Str ''Win32'') (ObjProxy (Obj 1) ''navigator'') toy_env))
      = [line_define ''navigator'' ''platform''
           (''{'' @ json_quote ''value'' @ '':'' @ json_quote ''Win32'' @ ''}'') ''true'',
         line_set ''navigator'' ''platform'' ''Win32'']"
  by (simp add: evaluate)


text \<open>
  C3, as claimed, fails: at the path \<^verbatim>\<open>env.console\<close> a write, an existence
  check, a deletion and a definition each hand a line to the sink, and so does a
  call of a wrapped function whose path is \<^verbatim>\<open>env.console.log\<close>. The console
  receives two lines for the write, the first from the \<^verbatim>\<open>defineProperty\<close> trap
  that the assignment runs on its receiver.
\<close>

theorem exempt_path_write_counterexample:
  "includes_str ''env.console'' ''console''
   \<and> emitted (journal (set_handler env_options env_engine (Obj 2) ''env.console''
        (KStr ''level'') (Str ''debug'') (ObjProxy (Obj 2) ''env.console'') toy_env))
      = [line_set ''env.console'' ''level'' ''debug'']
   \<and> console_out (final (set_handler env_options env_engine (Obj 2) ''env.console''
        (KStr ''level'') (Str ''debug'') (ObjProxy (Obj 2) ''env.console'') toy_env))
      = [line_define ''env.console'' ''level''
           (''{'' @ json_quote ''value'' @ '':'' @ json_quote ''debug'' @ '','' @ json_quote ''writable''
              @ '':true,'' @ json_quote ''enumerable'' @ '':true,'' @ json_quote ''configurable''
              @ '':true}'') ''true'',
         line_set ''env.console'' ''level'' ''debug'']
   \<and> console_out (final (has_handler env_options env_engine (Obj 2) ''env.console''
        (KStr ''log'') toy_env))
      = [line_has ''env.console'' ''log'' ''true'']
   \<and> console_out (final (deleteProperty_handler env_options env_engine (Obj 2) ''env.console''
        (KStr ''memory'') toy_env))
      = [line_delete ''env.console'' ''memory'' ''true'']
   \<and> console_out (final (defineProperty_handler env_options env_engine (Obj 2) ''env.console''
        (KStr ''memory'') (Obj 7) toy_env))
      = [line_define ''env.console'' ''memory'' ''{}'' ''true'']
   \<and> includes_str ''env.console.log'' ''console''
   \<and> console_out (final (op_call env_options env_engine (FunProxy (Fun 3) ''env.console.log'')
        (ObjProxy (Obj 2) ''env.console'') (Arr [Str ''hello'']) toy_env))
      = [line_apply ''env.console.log'' ''log'' (''['' @ json_quote ''hello'' @ '']'') ''undefined'']"
  by (simp add: evaluate)

text \<open>
  C3, amended. Of the traps of a wrapped object, the read trap alone has the
  exemption. At a path in which \<^verbatim>\<open>console\<close> occurs, every property read through
  the wrapper is the primitive read and nothing else, whether it returns or throws:
  the outcome and the state are the ones of \<^verbatim>\<open>Reflect.get\<close>, no hook runs, no
  line is handed to the sink and the value is handed back as the platform returned
  it. When that value is a raw function, calling it does not pass through the layer
  either: reading a member of the exempt object and calling it, as
  \<^verbatim>\<open>console.log(...)\<close> does on the wrapped console, is the primitive read followed
  by the platform's call. The read that reaches the exempt object from its parent is
  a read at the parent's path and is logged like any other.
\<close>

theorem exempt_read_silent:
  assumes "path = pre @ ''console'' @ post"
    and "reflect_get plat t prop (ObjProxy t path) s = (r, s1)"
  shows "op_get cfg plat (ObjProxy t path) prop s = (r, s1, [Real (RGet t prop (ObjProxy t path))])
       \<and> emitted (journal (op_get cfg plat (ObjProxy t path) prop s)) = []
       \<and> (\<forall>f thisArg args r2 s2.
             r = Inr f \<and> raw_ref f \<and> reflect_apply plat f thisArg args s1 = (r2, s2) \<longrightarrow>
             bindJ (op_get cfg plat (ObjProxy t path) prop) (\<lambda>g. op_call cfg plat g thisArg args) s
               = (r2, s2, [Real (RGet t prop (ObjProxy t path))]))"
proof -
  from assms(1) have "includes_str path ''console''"
    by (auto simp: includes_str_iff)
  then have g: "op_get cfg plat (ObjProxy t path) prop s = (r, s1, [Real (RGet t prop (ObjProxy t path))])"
    using assms(2) by (simp add: op_get_def get_handler_console Reflect_get_run)
  have call: "bindJ (op_get cfg plat (ObjProxy t path) prop) (\<lambda>g. op_call cfg plat g thisArg args) s
               = (r2, s2, [Real (RGet t prop (ObjProxy t path))])"
    if "r = Inr f \<and> raw_ref f \<and> reflect_apply plat f thisArg args s1 = (r2, s2)"
    for f thisArg args r2 s2
  proof -
    from that have "op_call cfg plat f thisArg args s1 = (r2, s2, [])"
      by (cases f) (simp_all add: op_call_def lift_run)
    with g that show ?thesis by (simp add: bindJ_Inr)
  qed
  show ?thesis
  proof (intro conjI allI impI)
    show "op_get cfg plat (ObjProxy t path) prop s = (r, s1, [Real (RGet t prop (ObjProxy t path))])"
      by (rule g)
    show "emitted (journal (op_get cfg plat (ObjProxy t path) prop s)) = []"
      using g by (simp add: journal_def)
    fix f thisArg args r2 s2
    assume "r = Inr f \<and> raw_ref f \<and> reflect_apply plat f thisArg args s1 = (r2, s2)"
    then show "bindJ (op_get cfg plat (ObjProxy t path) prop) (\<lambda>g. op_call cfg plat g thisArg args) s
               = (r2, s2, [Real (RGet t prop (ObjProxy t path))])"
      by (rule call)
  qed
qed

theorem exempt_read_silent_witness:
  "''env.console'' = ''env.'' @ ''console'' @ []
   \<and> reflect_get env_engine (Obj 2) (KStr ''log'') (ObjProxy (Obj 2) ''env.console'') toy_env
       = (Inr (Fun 3), toy_env)
   \<and> op_get env_options env_engine (ObjProxy (Obj 2) ''env.console'') (KStr ''log'') toy_env
       = (Inr (Fun 3), toy_env, [Real (RGet (Obj 2) (KStr ''log'') (ObjProxy (Obj 2) ''env.console''))])
   \<and> raw_ref (Fun 3)
   \<and> reflect_apply env_engine (Fun 3) (ObjProxy (Obj 2) ''env.console'') (Arr [Str ''hello'']) toy_env
       = (Inr Undefined, toy_env)
   \<and> bindJ (op_get env_options env_engine (ObjProxy (Obj 2) ''env.console'') (KStr ''log''))
        (\<lambda>g. op_call env_options env_engine g (ObjProxy (Obj 2) ''env.console'') (Arr [Str ''hello''])) toy_env
       = (Inr Undefined, toy_env, [Real (RGet (Obj 2) (KStr ''log'') (ObjProxy (Obj 2) ''env.console''))])
   \<and> console_out (final (read_chain env_options env_engine (ObjProxy (Obj 0) ''env'')
        [KStr ''console'', KStr ''log''] toy_env))
       = [line_get ''env'' ''console'' (''{'' @ json_quote ''memory'' @ '':{}}'')]"
proof -
  have a: "''env.console'' = ''env.'' @ ''console'' @ []" by simp
  have b: "reflect_get env_engine (Obj 2) (KStr ''log'') (ObjProxy (Obj 2) ''env.console'') toy_env
       = (Inr (Fun 3), toy_env)" by (simp add: evaluate)
  have c: "raw_ref (Fun 3)" by simp
  have d: "reflect_apply env_engine (Fun 3) (ObjProxy (Obj 2) ''env.console'') (Arr [Str ''hello'']) toy_env
       = (Inr Undefined, toy_env)" by (simp add: evaluate)
  have e: "console_out (final (read_chain env_options env_engine (ObjProxy (Obj 0) ''env'')
        [KStr ''console'', KStr ''log''] toy_env))
       = [line_get ''env'' ''console'' (''{'' @ json_quote ''memory'' @ '':{}}'')]"
    by (simp add: evaluate)
  from exempt_read_silent [OF a b, of env_options] c d
  have "op_get env_options env_engine (ObjProxy (Obj 2) ''env.console'') (KStr ''log'') toy_env
       = (Inr (Fun 3), toy_env, [Real (RGet (Obj 2) (KStr ''log'') (ObjProxy (Obj 2) ''env.console''))])"
    and "bindJ (op_get env_options env_engine (ObjProxy (Obj 2) ''env.console'') (KStr ''log''))
        (\<lambda>g. op_call env_options env_engine g (ObjProxy (Obj 2) ''env.console'') (Arr [Str ''hello''])) toy_env
       = (Inr Undefined, toy_env, [Real (RGet (Obj 2) (KStr ''log'') (ObjProxy (Obj 2) ''env.console''))])"
    by blast+
  with a b c d e show ?thesis by blast
qed


subsection \<open>Chains of reads\<close>

lemma emitted_append: "emitted (a @ b) = emitted a @ emitted b"
  by (induction a rule: emitted.induct) simp_all

lemma emitted_hook_steps: "emitted (hook_steps n h) = []"
  by (simp add: hook_steps_def split: option.splits)

lemma chain_path_extends: "\<exists>e. chain_path p ks = p @ e"
proof (induction ks arbitrary: p)
  case Nil
  then show ?case by simp
next
  case (Cons k ks)
  from Cons.IH [of "p @ ''.'' @ String_key k"]
  obtain e where "chain_path (p @ ''.'' @ String_key k) ks = (p @ ''.'' @ String_key k) @ e" by blast
  then have "chain_path p (k # ks) = p @ (''.'' @ String_key k @ e)" by simp
  then show ?case by blast
qed

lemma includes_chain_path:
  assumes "includes_str p sub"
  shows "includes_str (chain_path p ks) sub"
proof -
  from assms obtain a b where "p = a @ sub @ b" by (auto simp: includes_str_iff)
  moreover obtain e where "chain_path p ks = p @ e" using chain_path_extends by blast
  ultimately have "chain_path p ks = a @ sub @ (b @ e)" by simp
  then show ?thesis unfolding includes_str_iff by blast
qed

lemma wrap_value_not_raw: "\<not> raw_ref (wrap_value x p)"
  by (cases x) (simp_all add: wrap_value_def)

lemma watch_all: "watchedProps cfg = None \<Longrightarrow> \<not> unwatched cfg k"
  by (simp add: unwatched_def)

lemma no_substitution_coalesce:
  assumes "no_substitution cfg"
    and "opt_call ''afterGet'' (afterGet cfg) (\<lambda>h. h path prop w) s1 = (Inr r, s2, j2)"
  shows "coalesce r w = w"
proof (cases "afterGet cfg")
  case None
  with assms(2) have "r = Undefined" by (simp add: opt_call_def ret_def)
  then show ?thesis by (simp add: coalesce_def nullish_def)
next
  case (Some h)
  with assms(2) obtain s2' where "h path prop w s1 = (Inr r, s2')"
    by (auto simp: opt_call_def perform_def split: prod.splits)
  moreover from assms(1) Some have "\<forall>p k v s r s1. h p k v s = (Inr r, s1) \<longrightarrow> nullish r"
    by (simp add: no_substitution_def)
  ultimately have "nullish r" by blast
  then show ?thesis by (simp add: coalesce_def)
qed

lemma op_get_wrapped_step:
  assumes "watchedProps cfg = None" and "no_substitution cfg" and "\<not> includes_str p ''console''"
    and "op_get cfg plat (ObjProxy t p) k s = (Inr v, s1, j1)"
  obtains x where "v = wrap_value x (p @ ''.'' @ String_key k)"
proof -
  from assms(4) have run: "get_handler cfg plat t p k (ObjProxy t p) s = (Inr v, s1, j1)"
    by (simp add: op_get_def)
  from watch_all [OF assms(1)] assms(3) run obtain x r s1' s2 where
    a: "opt_call ''afterGet'' (afterGet cfg) (\<lambda>h. h p k (wrap_value x (p @ ''.'' @ String_key k))) s1'
       = (Inr r, s2, hook_steps ''afterGet'' (afterGet cfg))"
    and v: "v = coalesce r (wrap_value x (p @ ''.'' @ String_key k))"
    by (rule get_handler_returns)
  from no_substitution_coalesce [OF assms(2) a] v have "v = wrap_value x (p @ ''.'' @ String_key k)"
    by simp
  then show ?thesis by (rule that)
qed

lemma read_chain_ConsE:
  assumes "read_chain cfg plat v (k # ks) s = (Inr vs, s', j)"
  obtains v1 s1 j1 vs1 j2 where
    "op_get cfg plat v k s = (Inr v1, s1, j1)"
    "read_chain cfg plat v1 ks s1 = (Inr vs1, s', j2)"
    "vs = v1 # vs1" "j = j1 @ j2"
proof -
  from assms have "bindJ (op_get cfg plat v k) (\<lambda>v1.
     bindJ (read_chain cfg plat v1 ks) (\<lambda>vs. ret (v1 # vs))) s = (Inr vs, s', j)" by simp
  then obtain v1 s1 j1 ja where
    a: "op_get cfg plat v k s = (Inr v1, s1, j1)"
    and b: "bindJ (read_chain cfg plat v1 ks) (\<lambda>vs. ret (v1 # vs)) s1 = (Inr vs, s', ja)"
    and j: "j = j1 @ ja"
    by (rule bindJ_InrE)
  from b obtain vs1 s2 j2 jb where
    c: "read_chain cfg plat v1 ks s1 = (Inr vs1, s2, j2)"
    and d: "ret (v1 # vs1) s2 = (Inr vs, s', jb)"
    and ja: "ja = j2 @ jb"
    by (rule bindJ_InrE)
  from d have "vs = v1 # vs1" "s2 = s'" "jb = []" by (simp_all add: ret_def)
  with a c j ja show ?thesis by (intro that [of v1 s1 j1 vs1 j2]) simp_all
qed

text \<open>
  C1, as claimed, fails: the member \<^verbatim>\<open>prototype\<close> read from the wrapped function
  \<^verbatim>\<open>env.makeObject\<close> is a raw object, and so is the result of calling that wrapped
  function and of constructing with it.
\<close>

theorem escaping_values_wrapped_counterexample:
  "outcome (Universal_proxy (Obj 0) env_options toy_env) = Inr (ObjProxy (Obj 0) ''env'')
   \<and> outcome (read_chain env_options env_engine (ObjProxy (Obj 0) ''env'')
        [KStr ''makeObject'', KStr ''prototype''] toy_env)
     = Inr [FunProxy (Fun 6) ''env.makeObject'', Obj 7]
   \<and> outcome (op_call env_options env_engine (FunProxy (Fun 6) ''env.makeObject'')
        (ObjProxy (Obj 0) ''env'') (Arr []) toy_env) = Inr (Obj 7)
   \<and> outcome (op_new env_options env_engine (FunProxy (Fun 6) ''env.makeObject'')
        (Arr []) toy_env) = Inr (Obj 7)
   \<and> raw_ref (Obj 7)"
  by (simp add: evaluate)

text \<open>
  C1, amended. When no key is excluded by \<^verbatim>\<open>watchedProps\<close>, the after-read hook
  is absent or returns nullish values only, and \<^verbatim>\<open>console\<close> does not occur in the
  path down to the member read, every value that a chain of reads
  \<^verbatim>\<open>wrap(v).a.b.c\<close> returns on its way through wrapped objects is a wrapped
  object, a wrapped function or a primitive, never a raw reference.
\<close>

theorem chained_reads_wrapped:
  assumes "watchedProps cfg = None" and "no_substitution cfg"
    and "\<not> includes_str (chain_path p ks) ''console''"
    and "read_chain cfg plat (ObjProxy t p) ks s = (Inr vs, s', j)"
  shows "guarded p ks vs \<and> length vs = length ks"
  using assms(3,4)
proof (induction ks arbitrary: t p s vs j)
  case Nil
  then show ?case by (simp add: ret_def)
next
  case (Cons k ks)
  let ?q = "p @ ''.'' @ String_key k"
  from Cons.prems(1) have clean: "\<not> includes_str p ''console''"
    using includes_chain_path by blast
  from Cons.prems(2) obtain v1 s1 j1 vs1 j2 where
    g: "op_get cfg plat (ObjProxy t p) k s = (Inr v1, s1, j1)"
    and rest: "read_chain cfg plat v1 ks s1 = (Inr vs1, s', j2)"
    and vs: "vs = v1 # vs1"
    by (rule read_chain_ConsE)
  from assms(1,2) clean g obtain x where v1: "v1 = wrap_value x ?q"
    by (rule op_get_wrapped_step)
  then have nr: "\<not> raw_ref v1" by (simp add: wrap_value_not_raw)
  have len: "length vs1 = length ks"
    using rest
  proof (induction ks arbitrary: v1 s1 vs1 j2)
    case Nil
    then show ?case by (simp add: ret_def)
  next
    case (Cons a ks)
    from Cons.prems obtain w s2 ja ws jb where
      "read_chain cfg plat w ks s2 = (Inr ws, s', jb)" "vs1 = w # ws"
      by (rule read_chain_ConsE)
    with Cons.IH show ?case by auto
  qed
  have "case v1 of ObjProxy y q \<Rightarrow> q = ?q \<longrightarrow> guarded q ks vs1 | _ \<Rightarrow> True"
  proof (cases v1)
    case (ObjProxy y q)
    show ?thesis
    proof (cases "q = ?q")
      case True
      from Cons.prems(1) have "\<not> includes_str (chain_path ?q ks) ''console''" by simp
      moreover from rest ObjProxy True have "read_chain cfg plat (ObjProxy y ?q) ks s1 = (Inr vs1, s', j2)"
        by simp
      ultimately have "guarded ?q ks vs1" using Cons.IH by blast
      with ObjProxy True show ?thesis by simp
    next
      case False
      with ObjProxy show ?thesis by simp
    qed
  qed simp_all
  with nr vs len show ?case by simp
qed

theorem chained_reads_wrapped_witness:
  "watchedProps env_options = None \<and> no_substitution env_options
   \<and> \<not> includes_str (chain_path ''env'' [KStr ''navigator'', KStr ''language'']) ''console''
   \<and> outcome (read_chain env_options env_engine (ObjProxy (Obj 0) ''env'')
        [KStr ''navigator'', KStr ''language''] toy_env)
       = Inr [ObjProxy (Obj 1) ''env.navigator'', Str ''en'']
   \<and> guarded ''env'' [KStr ''navigator'', KStr ''language''] [ObjProxy (Obj 1) ''env.navigator'', Str ''en'']"
proof -
  have a: "watchedProps env_options = None" by (simp add: option_select)
  have b: "no_substitution env_options" by (simp add: no_substitution_def option_select)
  have c: "\<not> includes_str (chain_path ''env'' [KStr ''navigator'', KStr ''language'']) ''console''"
    by simp
  have d: "outcome (read_chain env_options env_engine (ObjProxy (Obj 0) ''env'')
        [KStr ''navigator'', KStr ''language''] toy_env)
       = Inr [ObjProxy (Obj 1) ''env.navigator'', Str ''en'']"
    by (simp add: evaluate)
  obtain s' j where e: "read_chain env_options env_engine (ObjProxy (Obj 0) ''env'')
        [KStr ''navigator'', KStr ''language''] toy_env
       = (Inr [ObjProxy (Obj 1) ''env.navigator'', Str ''en''], s', j)"
    using d by (cases "read_chain env_options env_engine (ObjProxy (Obj 0) ''env'')
        [KStr ''navigator'', KStr ''language''] toy_env") (simp add: outcome_def)
  show ?thesis
    using a b c d chained_reads_wrapped [OF a b c e] by blast
qed


subsection \<open>The logged path\<close>

lemma read_chain_length:
  "read_chain cfg plat v ks s = (Inr vs, s', j) \<Longrightarrow> length vs = length ks"
proof (induction ks arbitrary: v s vs j)
  case Nil
  then show ?case by (simp add: ret_def)
next
  case (Cons k ks)
  from Cons.prems obtain w s1 ja ws jb where
    "read_chain cfg plat w ks s1 = (Inr ws, s', jb)" "vs = w # ws"
    by (rule read_chain_ConsE)
  with Cons.IH show ?case by auto
qed

text \<open>
  The last thing a chain of reads through wrapped objects does is to hand the sink
  the line of its last read.
\<close>

lemma chain_last_line:
  assumes "watchedProps cfg = None"
    and "\<not> includes_str (chain_path p ks) ''console''"
    and "read_chain cfg plat (ObjProxy t p) (ks @ [k]) s = (Inr vs, s', j)"
    and "through_objects p (ks @ [k]) vs"
  shows "\<exists>res s3 ls. sink_of cfg plat (line_get (chain_path p ks) (propStr k) res) s3 = (Inr (), s')
           \<and> emitted j = ls @ [line_get (chain_path p ks) (propStr k) res]"
  using assms(2,3,4)
proof (induction ks arbitrary: t p s vs j)
  case Nil
  from Nil.prems(2) have "read_chain cfg plat (ObjProxy t p) [k] s = (Inr vs, s', j)" by simp
  then obtain v1 s1 j1 vs1 j2 where
    g: "op_get cfg plat (ObjProxy t p) k s = (Inr v1, s1, j1)"
    and rest: "read_chain cfg plat v1 [] s1 = (Inr vs1, s', j2)"
    and j: "j = j1 @ j2"
    by (rule read_chain_ConsE)
  from rest have s1: "s1 = s'" and j2: "j2 = []" by (simp_all add: ret_def)
  from g have run: "get_handler cfg plat t p k (ObjProxy t p) s = (Inr v1, s1, j1)"
    by (simp add: op_get_def)
  from Nil.prems(1) have clean: "\<not> includes_str p ''console''" by simp
  from watch_all [OF assms(1)] clean run obtain res s3 where
    "sink_of cfg plat (line_get p (propStr k) (tpl res)) s3 = (Inr (), s1)"
    and "j1 = hook_steps ''beforeGet'' (beforeGet cfg) @ [Real (RGet t k (ObjProxy t p))]
           @ hook_steps ''afterGet'' (afterGet cfg) @ [Emit (line_get p (propStr k) (tpl res))]"
    by (rule get_handler_returns)
  with s1 j j2 have "sink_of cfg plat (line_get (chain_path p []) (propStr k) (tpl res)) s3 = (Inr (), s')
      \<and> emitted j = [] @ [line_get (chain_path p []) (propStr k) (tpl res)]"
    by (simp add: emitted_append emitted_hook_steps)
  then show ?case by blast
next
  case (Cons k1 ks)
  let ?q = "p @ ''.'' @ String_key k1"
  from Cons.prems(2) have "read_chain cfg plat (ObjProxy t p) (k1 # (ks @ [k])) s = (Inr vs, s', j)"
    by simp
  then obtain v1 s1 j1 vs1 j2 where
    g: "op_get cfg plat (ObjProxy t p) k1 s = (Inr v1, s1, j1)"
    and rest: "read_chain cfg plat v1 (ks @ [k]) s1 = (Inr vs1, s', j2)"
    and vs: "vs = v1 # vs1" and j: "j = j1 @ j2"
    by (rule read_chain_ConsE)
  from rest have "length vs1 = length (ks @ [k])" by (rule read_chain_length)
  then obtain w ws where vs1: "vs1 = w # ws" by (cases vs1) auto
  obtain k2 ks2 where keys: "ks @ [k] = k2 # ks2" by (cases ks) auto
  from Cons.prems(3) vs vs1 keys have "through_objects p (k1 # k2 # ks2) (v1 # w # ws)" by simp
  then obtain y where v1: "v1 = ObjProxy y ?q" and thr: "through_objects ?q (k2 # ks2) (w # ws)"
    by (cases v1) auto
  from Cons.prems(1) have "\<not> includes_str (chain_path ?q ks) ''console''" by simp
  moreover from rest v1 have "read_chain cfg plat (ObjProxy y ?q) (ks @ [k]) s1 = (Inr vs1, s', j2)"
    by simp
  moreover from thr keys vs1 have "through_objects ?q (ks @ [k]) vs1" by simp
  ultimately obtain res s3 ls where
    "sink_of cfg plat (line_get (chain_path ?q ks) (propStr k) res) s3 = (Inr (), s')"
    and "emitted j2 = ls @ [line_get (chain_path ?q ks) (propStr k) res]"
    using Cons.IH by blast
  with j have "sink_of cfg plat (line_get (chain_path p (k1 # ks)) (propStr k) res) s3 = (Inr (), s')
      \<and> emitted j = (emitted j1 @ ls) @ [line_get (chain_path p (k1 # ks)) (propStr k) res]"
    by (simp add: emitted_append)
  then show ?case by blast
qed

text \<open>
  C7, as claimed, fails: with \<^verbatim>\<open>contextName\<close> \<^verbatim>\<open>env\<close>, reading
  \<^verbatim>\<open>.navigator.language\<close> writes six lines to the console, and the text
  \<^verbatim>\<open>env.navigator.language\<close> occurs in none of them. The line of the read of
  \<^verbatim>\<open>language\<close>, the last one, names the path \<^verbatim>\<open>env.navigator\<close> and, apart
  from it, the key \<^verbatim>\<open>language\<close>. The line of the read of \<^verbatim>\<open>navigator\<close> names
  the path \<^verbatim>\<open>env\<close>; it is the fifth, after the four lines of the reads that
  \<^verbatim>\<open>JSON.stringify\<close> makes on the wrapped \<^verbatim>\<open>navigator\<close> while that line is
  built, which name the path \<^verbatim>\<open>env.navigator\<close>.
\<close>

theorem logged_path_counterexample:
  "outcome (Universal_proxy (Obj 0) env_options toy_env) = Inr (ObjProxy (Obj 0) ''env'')
   \<and> outcome (read_chain env_options env_engine (ObjProxy (Obj 0) ''env'')
        [KStr ''navigator'', KStr ''language''] toy_env)
      = Inr [ObjProxy (Obj 1) ''env.navigator'', Str ''en'']
   \<and> console_out (final (read_chain env_options env_engine (ObjProxy (Obj 0) ''env'')
        [KStr ''navigator'', KStr ''language''] toy_env))
      = [line_get ''env.navigator'' ''toJSON'' ''undefined'',
         line_get ''env.navigator'' ''language'' ''en'',
         line_get ''env.navigator'' ''userAgent'' ''UA'',
         line_get ''env.navigator'' ''platform'' ''Linux'',
         line_get ''env'' ''navigator''
           (''{'' @ json_quote ''language'' @ '':'' @ json_quote ''en'' @ '',''
              @ json_quote ''userAgent'' @ '':'' @ json_quote ''UA'' @ '',''
              @ json_quote ''platform'' @ '':'' @ json_quote ''Linux'' @ ''}''),
         line_get ''env.navigator'' ''language'' ''en'']
   \<and> filter (mentions ''env.navigator.language'')
        [line_get ''env.navigator'' ''toJSON'' ''undefined'',
         line_get ''env.navigator'' ''language'' ''en'',
         line_get ''env.navigator'' ''userAgent'' ''UA'',
         line_get ''env.navigator'' ''platform'' ''Linux'',
         line_get ''env'' ''navigator''
           (''{'' @ json_quote ''language'' @ '':'' @ json_quote ''en'' @ '',''
              @ json_quote ''userAgent'' @ '':'' @ json_quote ''UA'' @ '',''
              @ json_quote ''platform'' @ '':'' @ json_quote ''Linux'' @ ''}''),
         line_get ''env.navigator'' ''language'' ''en''] = []"
proof (intro conjI)
  show "outcome (Universal_proxy (Obj 0) env_options toy_env) = Inr (ObjProxy (Obj 0) ''env'')"
    by (simp add: evaluate)
  show "outcome (read_chain env_options env_engine (ObjProxy (Obj 0) ''env'')
        [KStr ''navigator'', KStr ''language''] toy_env)
      = Inr [ObjProxy (Obj 1) ''env.navigator'', Str ''en'']"
    by (simp add: evaluate)
  show "console_out (final (read_chain env_options env_engine (ObjProxy (Obj 0) ''env'')
        [KStr ''navigator'', KStr ''language''] toy_env))
      = [line_get ''env.navigator'' ''toJSON'' ''undefined'',
         line_get ''env.navigator'' ''language'' ''en'',
         line_get ''env.navigator'' ''userAgent'' ''UA'',
         line_get ''env.navigator'' ''platform'' ''Linux'',
         line_get ''env'' ''navigator''
           (''{'' @ json_quote ''language'' @ '':'' @ json_quote ''en'' @ '',''
              @ json_quote ''userAgent'' @ '':'' @ json_quote ''UA'' @ '',''
              @ json_quote ''platform'' @ '':'' @ json_quote ''Linux'' @ ''}''),
         line_get ''env.navigator'' ''language'' ''en'']"
    by (simp add: evaluate)
  show "filter (mentions ''env.navigator.language'')
        [line_get ''env.navigator'' ''toJSON'' ''undefined'',
         line_get ''env.navigator'' ''language'' ''en'',
         line_get ''env.navigator'' ''userAgent'' ''UA'',
         line_get ''env.navigator'' ''platform'' ''Linux'',
         line_get ''env'' ''navigator''
           (''{'' @ json_quote ''language'' @ '':'' @ json_quote ''en'' @ '',''
              @ json_quote ''userAgent'' @ '':'' @ json_quote ''UA'' @ '',''
              @ json_quote ''platform'' @ '':'' @ json_quote ''Linux'' @ ''}''),
         line_get ''env.navigator'' ''language'' ''en''] = []"
    by (simp add: mentions_def line_get_def brk_def lbl_caller_def lbl_get_def lbl_result_def
        json_quote_def json_char_def)
qed

text \<open>
  C7, amended. The path a read logs is the path of the object the member is read
  from: the dot-joined chain from \<^verbatim>\<open>contextName\<close>, the path of the root, down to
  that object. The key of the member is logged next to it, as a field of its own;
  path and key joined by a dot are the path that the wrapped member gets, which the
  reads from that member log in their turn. So a read through the wrapper that is
  not bypassed and returns has handed the sink the line \<open>line_get p (propStr k) r\<close>
  for the path \<open>p\<close> of its object, its key \<open>k\<close> and the serialised value \<open>r\<close>, and a
  chain of reads from a wrapped object at the path \<open>p\<close> along the keys \<open>ks\<close> and then
  \<open>k\<close>, through wrapped objects, ends by handing the sink the line of the path
  \<open>chain_path p ks\<close> and the key \<open>k\<close>: with \<^verbatim>\<open>contextName\<close> \<^verbatim>\<open>env\<close>, the read of
  \<^verbatim>\<open>language\<close> in \<^verbatim>\<open>.navigator.language\<close> logs the path \<^verbatim>\<open>env.navigator\<close>
  with the key \<^verbatim>\<open>language\<close>.
\<close>

theorem logged_path_of_read:
  "(\<forall>target s0 root s1 j0. Universal_proxy target cfg s0 = (Inr root, s1, j0) \<longrightarrow>
       root = ObjProxy target (contextName cfg) \<or> root = FunProxy target (contextName cfg))
   \<and> (\<not> unwatched cfg k \<and> \<not> includes_str p ''console''
       \<and> get_handler cfg plat t p k receiver s = (Inr v, s', j) \<longrightarrow>
       (\<exists>s0 x s1 hr s2 res s3.
           reflect_get plat t k receiver s0 = (Inr x, s1)
         \<and> v = coalesce hr (wrap_value x (p @ ''.'' @ String_key k))
         \<and> safeStringify plat v s2 = (Inr res, s3, [])
         \<and> sink_of cfg plat (line_get p (propStr k) (tpl res)) s3 = (Inr (), s')
         \<and> emitted j = [line_get p (propStr k) (tpl res)]))
   \<and> (watchedProps cfg = None \<and> \<not> includes_str (chain_path p ks) ''console''
       \<and> read_chain cfg plat (ObjProxy t p) (ks @ [k]) s = (Inr vs, s', j)
       \<and> through_objects p (ks @ [k]) vs \<longrightarrow>
       (\<exists>res s3 ls. sink_of cfg plat (line_get (chain_path p ks) (propStr k) res) s3 = (Inr (), s')
          \<and> emitted j = ls @ [line_get (chain_path p ks) (propStr k) res]))"
proof (intro conjI allI impI)
  fix target s0 root s1 j0
  assume "Universal_proxy target cfg s0 = (Inr root, s1, j0)"
  then show "root = ObjProxy target (contextName cfg) \<or> root = FunProxy target (contextName cfg)"
    by (auto simp: Universal_proxy_def Let_def createProxy_def createFunctionProxy_def
        ret_def throw_def split: if_splits)
next
  assume a: "\<not> unwatched cfg k \<and> \<not> includes_str p ''console''
       \<and> get_handler cfg plat t p k receiver s = (Inr v, s', j)"
  then have g1: "\<not> unwatched cfg k" and g2: "\<not> includes_str p ''console''"
    and run: "get_handler cfg plat t p k receiver s = (Inr v, s', j)" by simp_all
  from g1 g2 run obtain s0 x s1 hr s2 res s3 where
    "reflect_get plat t k receiver s0 = (Inr x, s1)"
    and "safeStringify plat (coalesce hr (wrap_value x (p @ ''.'' @ String_key k))) s2 = (Inr res, s3, [])"
    and "sink_of cfg plat (line_get p (propStr k) (tpl res)) s3 = (Inr (), s')"
    and "v = coalesce hr (wrap_value x (p @ ''.'' @ String_key k))"
    and "j = hook_steps ''beforeGet'' (beforeGet cfg) @ [Real (RGet t k receiver)]
           @ hook_steps ''afterGet'' (afterGet cfg) @ [Emit (line_get p (propStr k) (tpl res))]"
    by (rule get_handler_returns)
  then have "reflect_get plat t k receiver s0 = (Inr x, s1)
         \<and> v = coalesce hr (wrap_value x (p @ ''.'' @ String_key k))
         \<and> safeStringify plat v s2 = (Inr res, s3, [])
         \<and> sink_of cfg plat (line_get p (propStr k) (tpl res)) s3 = (Inr (), s')
         \<and> emitted j = [line_get p (propStr k) (tpl res)]"
    by (simp add: emitted_append emitted_hook_steps)
  then show "\<exists>s0 x s1 hr s2 res s3.
           reflect_get plat t k receiver s0 = (Inr x, s1)
         \<and> v = coalesce hr (wrap_value x (p @ ''.'' @ String_key k))
         \<and> safeStringify plat v s2 = (Inr res, s3, [])
         \<and> sink_of cfg plat (line_get p (propStr k) (tpl res)) s3 = (Inr (), s')
         \<and> emitted j = [line_get p (propStr k) (tpl res)]"
    by blast
next
  assume "watchedProps cfg = None \<and> \<not> includes_str (chain_path p ks) ''console''
       \<and> read_chain cfg plat (ObjProxy t p) (ks @ [k]) s = (Inr vs, s', j)
       \<and> through_objects p (ks @ [k]) vs"
  then have "watchedProps cfg = None" and "\<not> includes_str (chain_path p ks) ''console''"
    and "read_chain cfg plat (ObjProxy t p) (ks @ [k]) s = (Inr vs, s', j)"
    and "through_objects p (ks @ [k]) vs"
    by simp_all
  then show "\<exists>res s3 ls. sink_of cfg plat (line_get (chain_path p ks) (propStr k) res) s3 = (Inr (), s')
          \<and> emitted j = ls @ [line_get (chain_path p ks) (propStr k) res]"
    by (rule chain_last_line)
qed

theorem logged_path_of_read_witness:
  "Universal_proxy (Obj 0) env_options toy_env = (Inr (ObjProxy (Obj 0) ''env''), toy_env, [])
   \<and> contextName env_options = ''env''
   \<and> \<not> unwatched env_options (KStr ''language'') \<and> \<not> includes_str ''env.navigator'' ''console''
   \<and> outcome (get_handler env_options env_engine (Obj 1) ''env.navigator'' (KStr ''language'')
        (ObjProxy (Obj 1) ''env.navigator'') toy_env) = Inr (Str ''en'')
   \<and> (\<exists>res s3. sink_of env_options env_engine (line_get ''env.navigator'' ''language'' (tpl res)) s3
         = (Inr (), final (get_handler env_options env_engine (Obj 1) ''env.navigator''
              (KStr ''language'') (ObjProxy (Obj 1) ''env.navigator'') toy_env)))
   \<and> emitted (journal (get_handler env_options env_engine (Obj 1) ''env.navigator'' (KStr ''language'')
        (ObjProxy (Obj 1) ''env.navigator'') toy_env))
      = [line_get ''env.navigator'' ''language'' ''en'']
   \<and> watchedProps env_options = None
   \<and> \<not> includes_str (chain_path ''env'' [KStr ''navigator'']) ''console''
   \<and> outcome (read_chain env_options env_engine (ObjProxy (Obj 0) ''env'')
        ([KStr ''navigator''] @ [KStr ''language'']) toy_env)
      = Inr [ObjProxy (Obj 1) ''env.navigator'', Str ''en'']
   \<and> through_objects ''env'' ([KStr ''navigator''] @ [KStr ''language''])
        [ObjProxy (Obj 1) ''env.navigator'', Str ''en'']
   \<and> chain_path ''env'' [KStr ''navigator''] = ''env.navigator''
   \<and> (\<exists>res s3 ls. sink_of env_options env_engine (line_get ''env.navigator'' ''language'' res) s3
         = (Inr (), final (read_chain env_options env_engine (ObjProxy (Obj 0) ''env'')
              ([KStr ''navigator''] @ [KStr ''language'']) toy_env))
       \<and> emitted (journal (read_chain env_options env_engine (ObjProxy (Obj 0) ''env'')
              ([KStr ''navigator''] @ [KStr ''language'']) toy_env))
          = ls @ [line_get ''env.navigator'' ''language'' res])"
proof -
  let ?get = "get_handler env_options env_engine (Obj 1) ''env.navigator'' (KStr ''language'')
        (ObjProxy (Obj 1) ''env.navigator'') toy_env"
  let ?chain = "read_chain env_options env_engine (ObjProxy (Obj 0) ''env'')
        ([KStr ''navigator''] @ [KStr ''language'']) toy_env"
  have u: "Universal_proxy (Obj 0) env_options toy_env = (Inr (ObjProxy (Obj 0) ''env''), toy_env, [])"
    by (simp add: evaluate)
  have n: "contextName env_options = ''env''" by (simp add: option_select)
  have g1: "\<not> unwatched env_options (KStr ''language'')" by (simp add: unwatched_def option_select)
  have g2: "\<not> includes_str ''env.navigator'' ''console''" by simp
  have o1: "outcome ?get = Inr (Str ''en'')" by (simp add: evaluate)
  have e1: "emitted (journal ?get) = [line_get ''env.navigator'' ''language'' ''en'']"
    by (simp add: evaluate)
  have w: "watchedProps env_options = None" by (simp add: option_select)
  have c: "\<not> includes_str (chain_path ''env'' [KStr ''navigator'']) ''console''" by simp
  have o2: "outcome ?chain = Inr [ObjProxy (Obj 1) ''env.navigator'', Str ''en'']"
    by (simp add: evaluate)
  have t: "through_objects ''env'' ([KStr ''navigator''] @ [KStr ''language''])
        [ObjProxy (Obj 1) ''env.navigator'', Str ''en'']" by simp
  have p: "chain_path ''env'' [KStr ''navigator''] = ''env.navigator''" by simp
  have r1: "\<exists>res s3. sink_of env_options env_engine (line_get ''env.navigator'' ''language'' (tpl res)) s3
         = (Inr (), final ?get)"
    using logged_path_of_read [where cfg = env_options and plat = env_engine and t = "Obj 1"
        and p = "''env.navigator''" and k = "KStr ''language''"
        and receiver = "ObjProxy (Obj 1) ''env.navigator''" and s = toy_env
        and v = "Str ''en''" and s' = "final ?get" and j = "journal ?get",
        THEN conjunct2, THEN conjunct1]
      g1 g2 run_triple [OF o1] by simp blast
  have r2: "\<exists>res s3 ls. sink_of env_options env_engine (line_get ''env.navigator'' ''language'' res) s3
         = (Inr (), final ?chain)
       \<and> emitted (journal ?chain) = ls @ [line_get ''env.navigator'' ''language'' res]"
    using logged_path_of_read [where cfg = env_options and plat = env_engine and t = "Obj 0"
        and p = "''env''" and ks = "[KStr ''navigator'']" and k = "KStr ''language''"
        and s = toy_env and vs = "[ObjProxy (Obj 1) ''env.navigator'', Str ''en'']"
        and s' = "final ?chain" and j = "journal ?chain",
        THEN conjunct2, THEN conjunct2]
      w c t run_triple [OF o2] by simp
  from u n g1 g2 o1 r1 e1 w c o2 t p r2 show ?thesis by blast
qed


subsection \<open>Steps of a call through the wrapper\<close>

lemma get_prop_run: "get_prop plat v k s = (case reflect_get plat v k v s of (r, s1) \<Rightarrow> (r, s1, []))"
  by (simp add: get_prop_def lift_def)

lemma Reflect_apply_run:
  "Reflect_apply plat f th a s = (case reflect_apply plat f th a s of (x, s1) \<Rightarrow> (x, s1, [Real (RApply f th a)]))"
  by (simp add: Reflect_apply_def perform_def)

lemma Reflect_construct_run:
  "Reflect_construct plat f a nt s =
     (case reflect_construct plat f a nt s of (x, s1) \<Rightarrow> (x, s1, [Real (RConstruct f a nt)]))"
  by (simp add: Reflect_construct_def perform_def)

text \<open>The line of a call that returns: its fields, by the name read from the function.\<close>

lemma apply_log_branch:
  assumes "(if nm = Str ''addEventListener'' then
           bindJ (get_prop plat fn (KStr ''name'')) (\<lambda>nm1.
           bindJ (ToString plat nm1) (\<lambda>name.
           bindJ (first_arg plat finalArgs) (\<lambda>a0.
           bindJ (ToString plat a0) (\<lambda>a.
           bindJ (safeStringify plat result) (\<lambda>res.
           log cfg plat [line_apply path name a (tpl res)])))))
         else
           bindJ (get_prop plat fn (KStr ''name'')) (\<lambda>nm1.
           bindJ (ToString plat nm1) (\<lambda>name.
           bindJ (safeStringify plat finalArgs) (\<lambda>a.
           bindJ (safeStringify plat result) (\<lambda>res.
           log cfg plat [line_apply path name (tpl a) (tpl res)]))))) s3 = (Inr u, s4, j4)"
  obtains nm1 sa name sb a res sd se where
    "reflect_get plat fn (KStr ''name'') fn s3 = (Inr nm1, sa)"
    "ToString plat nm1 sa = (Inr name, sb, [])"
    "nm = Str ''addEventListener'' \<longrightarrow>
       (\<exists>a0 sc. first_arg plat finalArgs sb = (Inr a0, sc, []) \<and> ToString plat a0 sc = (Inr a, sd, []))"
    "nm \<noteq> Str ''addEventListener'' \<longrightarrow>
       (\<exists>x. safeStringify plat finalArgs sb = (Inr x, sd, []) \<and> a = tpl x)"
    "safeStringify plat result sd = (Inr res, se, [])"
    "sink_of cfg plat (line_apply path name a (tpl res)) se = (Inr (), s4)"
    "j4 = [Emit (line_apply path name a (tpl res))]"
proof (cases "nm = Str ''addEventListener''")
  case True
  with assms have run: "bindJ (get_prop plat fn (KStr ''name'')) (\<lambda>nm1.
           bindJ (ToString plat nm1) (\<lambda>name.
           bindJ (first_arg plat finalArgs) (\<lambda>a0.
           bindJ (ToString plat a0) (\<lambda>a.
           bindJ (safeStringify plat result) (\<lambda>res.
           log cfg plat [line_apply path name a (tpl res)]))))) s3 = (Inr u, s4, j4)" by simp
  from run obtain nm1 sa j1 ja where
    n: "get_prop plat fn (KStr ''name'') s3 = (Inr nm1, sa, j1)"
    and r1: "bindJ (ToString plat nm1) (\<lambda>name.
           bindJ (first_arg plat finalArgs) (\<lambda>a0.
           bindJ (ToString plat a0) (\<lambda>a.
           bindJ (safeStringify plat result) (\<lambda>res.
           log cfg plat [line_apply path name a (tpl res)])))) sa = (Inr u, s4, ja)"
    and j: "j4 = j1 @ ja" by (rule bindJ_InrE)
  from r1 obtain name sb j2 jb where
    t1: "ToString plat nm1 sa = (Inr name, sb, j2)"
    and r2: "bindJ (first_arg plat finalArgs) (\<lambda>a0.
           bindJ (ToString plat a0) (\<lambda>a.
           bindJ (safeStringify plat result) (\<lambda>res.
           log cfg plat [line_apply path name a (tpl res)]))) sb = (Inr u, s4, jb)"
    and ja: "ja = j2 @ jb" by (rule bindJ_InrE)
  from r2 obtain a0 sc j3 jc where
    f: "first_arg plat finalArgs sb = (Inr a0, sc, j3)"
    and r3: "bindJ (ToString plat a0) (\<lambda>a.
           bindJ (safeStringify plat result) (\<lambda>res.
           log cfg plat [line_apply path name a (tpl res)])) sc = (Inr u, s4, jc)"
    and jb: "jb = j3 @ jc" by (rule bindJ_InrE)
  from r3 obtain a sd j4' jd where
    t2: "ToString plat a0 sc = (Inr a, sd, j4')"
    and r4: "bindJ (safeStringify plat result) (\<lambda>res.
           log cfg plat [line_apply path name a (tpl res)]) sd = (Inr u, s4, jd)"
    and jc: "jc = j4' @ jd" by (rule bindJ_InrE)
  from r4 obtain res se j5 je where
    st: "safeStringify plat result sd = (Inr res, se, j5)"
    and l: "log cfg plat [line_apply path name a (tpl res)] se = (Inr u, s4, je)"
    and jd: "jd = j5 @ je" by (rule bindJ_InrE)
  have js: "j1 = []" "j2 = []" "j3 = []" "j4' = []" "j5 = []"
    using n t1 f t2 st
    by (auto dest: get_prop_journal ToString_journal first_arg_journal safeStringify_journal)
  from l have je: "je = [Emit (line_apply path name a (tpl res))]" by (auto dest: log_journal)
  show ?thesis
  proof (rule that [of nm1 sa name sb a sd res se])
    show "reflect_get plat fn (KStr ''name'') fn s3 = (Inr nm1, sa)"
      using n by (auto simp: get_prop_run split: prod.splits)
    show "ToString plat nm1 sa = (Inr name, sb, [])" using t1 js by simp
    show "nm = Str ''addEventListener'' \<longrightarrow>
       (\<exists>a0 sc. first_arg plat finalArgs sb = (Inr a0, sc, []) \<and> ToString plat a0 sc = (Inr a, sd, []))"
      using f t2 js by auto
    show "nm \<noteq> Str ''addEventListener'' \<longrightarrow>
       (\<exists>x. safeStringify plat finalArgs sb = (Inr x, sd, []) \<and> a = tpl x)" using True by simp
    show "safeStringify plat result sd = (Inr res, se, [])" using st js by simp
    show "sink_of cfg plat (line_apply path name a (tpl res)) se = (Inr (), s4)"
      using l by (auto dest: log_returns)
    show "j4 = [Emit (line_apply path name a (tpl res))]"
      using j ja jb jc jd je js by simp
  qed
next
  case False
  with assms have run: "bindJ (get_prop plat fn (KStr ''name'')) (\<lambda>nm1.
           bindJ (ToString plat nm1) (\<lambda>name.
           bindJ (safeStringify plat finalArgs) (\<lambda>a.
           bindJ (safeStringify plat result) (\<lambda>res.
           log cfg plat [line_apply path name (tpl a) (tpl res)])))) s3 = (Inr u, s4, j4)" by simp
  from run obtain nm1 sa j1 ja where
    n: "get_prop plat fn (KStr ''name'') s3 = (Inr nm1, sa, j1)"
    and r1: "bindJ (ToString plat nm1) (\<lambda>name.
           bindJ (safeStringify plat finalArgs) (\<lambda>a.
           bindJ (safeStringify plat result) (\<lambda>res.
           log cfg plat [line_apply path name (tpl a) (tpl res)]))) sa = (Inr u, s4, ja)"
    and j: "j4 = j1 @ ja" by (rule bindJ_InrE)
  from r1 obtain name sb j2 jb where
    t1: "ToString plat nm1 sa = (Inr name, sb, j2)"
    and r2: "bindJ (safeStringify plat finalArgs) (\<lambda>a.
           bindJ (safeStringify plat result) (\<lambda>res.
           log cfg plat [line_apply path name (tpl a) (tpl res)])) sb = (Inr u, s4, jb)"
    and ja: "ja = j2 @ jb" by (rule bindJ_InrE)
  from r2 obtain x sd j3 jc where
    sa: "safeStringify plat finalArgs sb = (Inr x, sd, j3)"
    and r3: "bindJ (safeStringify plat result) (\<lambda>res.
           log cfg plat [line_apply path name (tpl x) (tpl res)]) sd = (Inr u, s4, jc)"
    and jb: "jb = j3 @ jc" by (rule bindJ_InrE)
  from r3 obtain res se j5 je where
    st: "safeStringify plat result sd = (Inr res, se, j5)"
    and l: "log cfg plat [line_apply path name (tpl x) (tpl res)] se = (Inr u, s4, je)"
    and jc: "jc = j5 @ je" by (rule bindJ_InrE)
  have js: "j1 = []" "j2 = []" "j3 = []" "j5 = []"
    using n t1 sa st
    by (auto dest: get_prop_journal ToString_journal safeStringify_journal)
  from l have je: "je = [Emit (line_apply path name (tpl x) (tpl res))]" by (auto dest: log_journal)
  show ?thesis
  proof (rule that [of nm1 sa name sb "tpl x" sd res se])
    show "reflect_get plat fn (KStr ''name'') fn s3 = (Inr nm1, sa)"
      using n by (auto simp: get_prop_run split: prod.splits)
    show "ToString plat nm1 sa = (Inr name, sb, [])" using t1 js by simp
    show "nm = Str ''addEventListener'' \<longrightarrow>
       (\<exists>a0 sc. first_arg plat finalArgs sb = (Inr a0, sc, []) \<and> ToString plat a0 sc = (Inr (tpl x), sd, []))"
      using False by simp
    show "nm \<noteq> Str ''addEventListener'' \<longrightarrow>
       (\<exists>y. safeStringify plat finalArgs sb = (Inr y, sd, []) \<and> tpl x = tpl y)"
      using sa js by auto
    show "safeStringify plat result sd = (Inr res, se, [])" using st js by simp
    show "sink_of cfg plat (line_apply path name (tpl x) (tpl res)) se = (Inr (), s4)"
      using l by (auto dest: log_returns)
    show "j4 = [Emit (line_apply path name (tpl x) (tpl res))]"
      using j ja jb jc je js by simp
  qed
qed

text \<open>What a call through the wrapper that returns has done.\<close>

lemma apply_handler_returns:
  assumes "apply_handler cfg plat fn path thisArg args s = (Inr v, s', j)"
  obtains r s0 result0 s1 r2 s2 nm s3 nm1 sa name sb a res sd se where
    "opt_call ''beforeApply'' (beforeApply cfg) (\<lambda>h. h path args) s
       = (Inr r, s0, hook_steps ''beforeApply'' (beforeApply cfg))"
    "reflect_apply plat fn (if bindThis cfg then fn else thisArg) (coalesce r args) s0 = (Inr result0, s1)"
    "opt_call ''afterApply'' (afterApply cfg) (\<lambda>h. h path result0) s1
       = (Inr r2, s2, hook_steps ''afterApply'' (afterApply cfg))"
    "v = coalesce r2 result0"
    "reflect_get plat fn (KStr ''name'') fn s2 = (Inr nm, s3)"
    "reflect_get plat fn (KStr ''name'') fn s3 = (Inr nm1, sa)"
    "ToString plat nm1 sa = (Inr name, sb, [])"
    "nm = Str ''addEventListener'' \<longrightarrow>
       (\<exists>a0 sc. first_arg plat (coalesce r args) sb = (Inr a0, sc, []) \<and> ToString plat a0 sc = (Inr a, sd, []))"
    "nm \<noteq> Str ''addEventListener'' \<longrightarrow>
       (\<exists>x. safeStringify plat (coalesce r args) sb = (Inr x, sd, []) \<and> a = tpl x)"
    "safeStringify plat v sd = (Inr res, se, [])"
    "sink_of cfg plat (line_apply path name a (tpl res)) se = (Inr (), s')"
    "j = hook_steps ''beforeApply'' (beforeApply cfg)
          @ [Real (RApply fn (if bindThis cfg then fn else thisArg) (coalesce r args))]
          @ hook_steps ''afterApply'' (afterApply cfg)
          @ [Emit (line_apply path name a (tpl res))]"
proof -
  let ?recv = "if bindThis cfg then fn else thisArg"
  from assms obtain r s0 j0 ja where
    b: "opt_call ''beforeApply'' (beforeApply cfg) (\<lambda>h. h path args) s = (Inr r, s0, j0)"
    and r1: "bindJ (Reflect_apply plat fn ?recv (coalesce r args)) (\<lambda>result0.
      bindJ (opt_call ''afterApply'' (afterApply cfg) (\<lambda>h. h path result0)) (\<lambda>r2.
      bindJ (get_prop plat fn (KStr ''name'')) (\<lambda>nm.
      bindJ
        (if nm = Str ''addEventListener'' then
           bindJ (get_prop plat fn (KStr ''name'')) (\<lambda>nm1.
           bindJ (ToString plat nm1) (\<lambda>name.
           bindJ (first_arg plat (coalesce r args)) (\<lambda>a0.
           bindJ (ToString plat a0) (\<lambda>a.
           bindJ (safeStringify plat (coalesce r2 result0)) (\<lambda>res.
           log cfg plat [line_apply path name a (tpl res)])))))
         else
           bindJ (get_prop plat fn (KStr ''name'')) (\<lambda>nm1.
           bindJ (ToString plat nm1) (\<lambda>name.
           bindJ (safeStringify plat (coalesce r args)) (\<lambda>a.
           bindJ (safeStringify plat (coalesce r2 result0)) (\<lambda>res.
           log cfg plat [line_apply path name (tpl a) (tpl res)])))))
        (\<lambda>_. ret (coalesce r2 result0))))) s0 = (Inr v, s', ja)"
    and j: "j = j0 @ ja"
    unfolding apply_handler_def Let_def by (rule bindJ_InrE)
  from r1 obtain result0 s1 j1 jb where
    ra: "Reflect_apply plat fn ?recv (coalesce r args) s0 = (Inr result0, s1, j1)"
    and r2: "bindJ (opt_call ''afterApply'' (afterApply cfg) (\<lambda>h. h path result0)) (\<lambda>r2.
      bindJ (get_prop plat fn (KStr ''name'')) (\<lambda>nm.
      bindJ
        (if nm = Str ''addEventListener'' then
           bindJ (get_prop plat fn (KStr ''name'')) (\<lambda>nm1.
           bindJ (ToString plat nm1) (\<lambda>name.
           bindJ (first_arg plat (coalesce r args)) (\<lambda>a0.
           bindJ (ToString plat a0) (\<lambda>a.
           bindJ (safeStringify plat (coalesce r2 result0)) (\<lambda>res.
           log cfg plat [line_apply path name a (tpl res)])))))
         else
           bindJ (get_prop plat fn (KStr ''name'')) (\<lambda>nm1.
           bindJ (ToString plat nm1) (\<lambda>name.
           bindJ (safeStringify plat (coalesce r args)) (\<lambda>a.
           bindJ (safeStringify plat (coalesce r2 result0)) (\<lambda>res.
           log cfg plat [line_apply path name (tpl a) (tpl res)])))))
        (\<lambda>_. ret (coalesce r2 result0)))) s1 = (Inr v, s', jb)"
    and ja: "ja = j1 @ jb"
    by (rule bindJ_InrE)
  from r2 obtain r2v s2 j2 jc where
    a: "opt_call ''afterApply'' (afterApply cfg) (\<lambda>h. h path result0) s1 = (Inr r2v, s2, j2)"
    and r3: "bindJ (get_prop plat fn (KStr ''name'')) (\<lambda>nm.
      bindJ
        (if nm = Str ''addEventListener'' then
           bindJ (get_prop plat fn (KStr ''name'')) (\<lambda>nm1.
           bindJ (ToString plat nm1) (\<lambda>name.
           bindJ (first_arg plat (coalesce r args)) (\<lambda>a0.
           bindJ (ToString plat a0) (\<lambda>a.
           bindJ (safeStringify plat (coalesce r2v result0)) (\<lambda>res.
           log cfg plat [line_apply path name a (tpl res)])))))
         else
           bindJ (get_prop plat fn (KStr ''name'')) (\<lambda>nm1.
           bindJ (ToString plat nm1) (\<lambda>name.
           bindJ (safeStringify plat (coalesce r args)) (\<lambda>a.
           bindJ (safeStringify plat (coalesce r2v result0)) (\<lambda>res.
           log cfg plat [line_apply path name (tpl a) (tpl res)])))))
        (\<lambda>_. ret (coalesce r2v result0))) s2 = (Inr v, s', jc)"
    and jb: "jb = j2 @ jc"
    by (rule bindJ_InrE)
  from r3 obtain nm s3 j3 jd where
    n: "get_prop plat fn (KStr ''name'') s2 = (Inr nm, s3, j3)"
    and r4: "bindJ
        (if nm = Str ''addEventListener'' then
           bindJ (get_prop plat fn (KStr ''name'')) (\<lambda>nm1.
           bindJ (ToString plat nm1) (\<lambda>name.
           bindJ (first_arg plat (coalesce r args)) (\<lambda>a0.
           bindJ (ToString plat a0) (\<lambda>a.
           bindJ (safeStringify plat (coalesce r2v result0)) (\<lambda>res.
           log cfg plat [line_apply path name a (tpl res)])))))
         else
           bindJ (get_prop plat fn (KStr ''name'')) (\<lambda>nm1.
           bindJ (ToString plat nm1) (\<lambda>name.
           bindJ (safeStringify plat (coalesce r args)) (\<lambda>a.
           bindJ (safeStringify plat (coalesce r2v result0)) (\<lambda>res.
           log cfg plat [line_apply path name (tpl a) (tpl res)])))))
        (\<lambda>_. ret (coalesce r2v result0)) s3 = (Inr v, s', jd)"
    and jc: "jc = j3 @ jd"
    by (rule bindJ_InrE)
  from r4 obtain u s4 j4 je where
    br: "(if nm = Str ''addEventListener'' then
           bindJ (get_prop plat fn (KStr ''name'')) (\<lambda>nm1.
           bindJ (ToString plat nm1) (\<lambda>name.
           bindJ (first_arg plat (coalesce r args)) (\<lambda>a0.
           bindJ (ToString plat a0) (\<lambda>a.
           bindJ (safeStringify plat (coalesce r2v result0)) (\<lambda>res.
           log cfg plat [line_apply path name a (tpl res)])))))
         else
           bindJ (get_prop plat fn (KStr ''name'')) (\<lambda>nm1.
           bindJ (ToString plat nm1) (\<lambda>name.
           bindJ (safeStringify plat (coalesce r args)) (\<lambda>a.
           bindJ (safeStringify plat (coalesce r2v result0)) (\<lambda>res.
           log cfg plat [line_apply path name (tpl a) (tpl res)]))))) s3 = (Inr u, s4, j4)"
    and fin: "ret (coalesce r2v result0) s4 = (Inr v, s', je)"
    and jd: "jd = j4 @ je"
    by (rule bindJ_InrE)
  from fin have v: "v = coalesce r2v result0" and je: "je = []" and s4: "s4 = s'"
    by (simp_all add: ret_def)
  from br obtain nm1 sa name sb al res sd se where
    p1: "reflect_get plat fn (KStr ''name'') fn s3 = (Inr nm1, sa)"
    and p2: "ToString plat nm1 sa = (Inr name, sb, [])"
    and p3: "nm = Str ''addEventListener'' \<longrightarrow>
       (\<exists>a0 sc. first_arg plat (coalesce r args) sb = (Inr a0, sc, []) \<and> ToString plat a0 sc = (Inr al, sd, []))"
    and p4: "nm \<noteq> Str ''addEventListener'' \<longrightarrow>
       (\<exists>x. safeStringify plat (coalesce r args) sb = (Inr x, sd, []) \<and> al = tpl x)"
    and p5: "safeStringify plat (coalesce r2v result0) sd = (Inr res, se, [])"
    and p7: "sink_of cfg plat (line_apply path name al (tpl res)) se = (Inr (), s4)"
    and p6: "j4 = [Emit (line_apply path name al (tpl res))]"
    by (rule apply_log_branch)
  from b have j0: "j0 = hook_steps ''beforeApply'' (beforeApply cfg)" by (rule opt_call_journal)
  from a have j2: "j2 = hook_steps ''afterApply'' (afterApply cfg)" by (rule opt_call_journal)
  from n have j3: "j3 = []" by (rule get_prop_journal)
  from ra have ra': "reflect_apply plat fn ?recv (coalesce r args) s0 = (Inr result0, s1)"
    and j1: "j1 = [Real (RApply fn ?recv (coalesce r args))]"
    by (auto simp: Reflect_apply_run split: prod.splits)
  show ?thesis
  proof (rule that [of r s0 result0 s1 r2v s2 nm s3 nm1 sa name sb al sd res se])
    show "opt_call ''beforeApply'' (beforeApply cfg) (\<lambda>h. h path args) s
       = (Inr r, s0, hook_steps ''beforeApply'' (beforeApply cfg))" using b j0 by simp
    show "reflect_apply plat fn ?recv (coalesce r args) s0 = (Inr result0, s1)" by (rule ra')
    show "opt_call ''afterApply'' (afterApply cfg) (\<lambda>h. h path result0) s1
       = (Inr r2v, s2, hook_steps ''afterApply'' (afterApply cfg))" using a j2 by simp
    show "v = coalesce r2v result0" by (rule v)
    show "reflect_get plat fn (KStr ''name'') fn s2 = (Inr nm, s3)"
      using n by (auto simp: get_prop_run split: prod.splits)
    show "reflect_get plat fn (KStr ''name'') fn s3 = (Inr nm1, sa)" by (rule p1)
    show "ToString plat nm1 sa = (Inr name, sb, [])" by (rule p2)
    show "nm = Str ''addEventListener'' \<longrightarrow>
       (\<exists>a0 sc. first_arg plat (coalesce r args) sb = (Inr a0, sc, []) \<and> ToString plat a0 sc = (Inr al, sd, []))"
      by (rule p3)
    show "nm \<noteq> Str ''addEventListener'' \<longrightarrow>
       (\<exists>x. safeStringify plat (coalesce r args) sb = (Inr x, sd, []) \<and> al = tpl x)"
      by (rule p4)
    show "safeStringify plat v sd = (Inr res, se, [])" using p5 v by simp
    show "sink_of cfg plat (line_apply path name al (tpl res)) se = (Inr (), s')" using p7 s4 by simp
    show "j = hook_steps ''beforeApply'' (beforeApply cfg) @ [Real (RApply fn ?recv (coalesce r args))]
          @ hook_steps ''afterApply'' (afterApply cfg) @ [Emit (line_apply path name al (tpl res))]"
      using j ja jb jc jd je j0 j1 j2 j3 p6 by simp
  qed
qed

subsection \<open>Calls through the wrapper\<close>






subsection \<open>The receiver of a call through the wrapper\<close>

lemma reals_append: "reals (a @ b) = reals a @ reals b"
  by (induction a rule: reals.induct) simp_all

lemma reals_hook_steps: "reals (hook_steps n h) = []"
  by (simp add: hook_steps_def split: option.splits)

text \<open>
  C9. A call through the wrapper makes the real call, \<^verbatim>\<open>Reflect.apply\<close> on the
  target function, once the before-call hook has returned, on the state the hook
  left and with the final arguments, and the receiver of that call is the target
  function itself when \<^verbatim>\<open>bindThis\<close> is set and the caller's receiver when it is
  not. When the real call throws, the call through the wrapper throws the same
  error and leaves the state the real call left. When it returns and the call
  through the wrapper returns, the value returned is the result of the real call,
  unless the after-call hook, which is given that result, returned a value that is
  not nullish; the handler has called no other primitive. When the before-call hook
  throws, no call is made. With \<^verbatim>\<open>bindThis\<close> set the caller's receiver has no
  effect at all.
\<close>

theorem apply_receiver:
  "(opt_call ''beforeApply'' (beforeApply cfg) (\<lambda>h. h path args) s = (Inl e, s0, j0) \<longrightarrow>
      apply_handler cfg plat fn path thisArg args s = (Inl e, s0, j0))
   \<and> (opt_call ''beforeApply'' (beforeApply cfg) (\<lambda>h. h path args) s = (Inr r, s0, j0)
       \<and> reflect_apply plat fn (if bindThis cfg then fn else thisArg) (coalesce r args) s0 = (Inl e, s1) \<longrightarrow>
      apply_handler cfg plat fn path thisArg args s
        = (Inl e, s1, j0 @ [Real (RApply fn (if bindThis cfg then fn else thisArg) (coalesce r args))]))
   \<and> (opt_call ''beforeApply'' (beforeApply cfg) (\<lambda>h. h path args) s = (Inr r, s0, j0)
       \<and> reflect_apply plat fn (if bindThis cfg then fn else thisArg) (coalesce r args) s0
           = (Inr result0, s1)
       \<and> apply_handler cfg plat fn path thisArg args s = (Inr v, s', j) \<longrightarrow>
      (\<exists>r2 s2. opt_call ''afterApply'' (afterApply cfg) (\<lambda>h. h path result0) s1
                  = (Inr r2, s2, hook_steps ''afterApply'' (afterApply cfg))
               \<and> v = coalesce r2 result0)
      \<and> reals j = [RApply fn (if bindThis cfg then fn else thisArg) (coalesce r args)])
   \<and> (bindThis cfg \<longrightarrow>
        apply_handler cfg plat fn path thisArg args = apply_handler cfg plat fn path fn args)"
proof (intro conjI impI)
  assume "opt_call ''beforeApply'' (beforeApply cfg) (\<lambda>h. h path args) s = (Inl e, s0, j0)"
  then show "apply_handler cfg plat fn path thisArg args s = (Inl e, s0, j0)"
    by (simp add: apply_handler_def Let_def bindJ_Inl)
next
  assume "opt_call ''beforeApply'' (beforeApply cfg) (\<lambda>h. h path args) s = (Inr r, s0, j0)
       \<and> reflect_apply plat fn (if bindThis cfg then fn else thisArg) (coalesce r args) s0 = (Inl e, s1)"
  then show "apply_handler cfg plat fn path thisArg args s
        = (Inl e, s1, j0 @ [Real (RApply fn (if bindThis cfg then fn else thisArg) (coalesce r args))])"
    by (simp add: apply_handler_def Let_def bindJ_Inr bindJ_Inl Reflect_apply_run)
next
  assume h: "opt_call ''beforeApply'' (beforeApply cfg) (\<lambda>h. h path args) s = (Inr r, s0, j0)
       \<and> reflect_apply plat fn (if bindThis cfg then fn else thisArg) (coalesce r args) s0
           = (Inr result0, s1)
       \<and> apply_handler cfg plat fn path thisArg args s = (Inr v, s', j)"
  then have run: "apply_handler cfg plat fn path thisArg args s = (Inr v, s', j)" by simp
  then obtain r' s0' result0' s1' r2 s2 name a res where
    b: "opt_call ''beforeApply'' (beforeApply cfg) (\<lambda>h. h path args) s
       = (Inr r', s0', hook_steps ''beforeApply'' (beforeApply cfg))"
    and c: "reflect_apply plat fn (if bindThis cfg then fn else thisArg) (coalesce r' args) s0'
       = (Inr result0', s1')"
    and a: "opt_call ''afterApply'' (afterApply cfg) (\<lambda>h. h path result0') s1'
       = (Inr r2, s2, hook_steps ''afterApply'' (afterApply cfg))"
    and v: "v = coalesce r2 result0'"
    and j: "j = hook_steps ''beforeApply'' (beforeApply cfg)
          @ [Real (RApply fn (if bindThis cfg then fn else thisArg) (coalesce r' args))]
          @ hook_steps ''afterApply'' (afterApply cfg)
          @ [Emit (line_apply path name a (tpl res))]"
    by (rule apply_handler_returns)
  from b h have eq1: "r' = r" "s0' = s0" by simp_all
  with c h have eq2: "result0' = result0" "s1' = s1" by simp_all
  from a v eq2 show "\<exists>r2 s2. opt_call ''afterApply'' (afterApply cfg) (\<lambda>h. h path result0) s1
                  = (Inr r2, s2, hook_steps ''afterApply'' (afterApply cfg))
               \<and> v = coalesce r2 result0"
    by blast
  from j eq1 show "reals j = [RApply fn (if bindThis cfg then fn else thisArg) (coalesce r args)]"
    by (simp add: reals_append reals_hook_steps)
next
  assume "bindThis cfg"
  then show "apply_handler cfg plat fn path thisArg args = apply_handler cfg plat fn path fn args"
    by (simp add: apply_handler_def)
qed

theorem apply_receiver_witness:
  "bindThis bound_options
   \<and> opt_call ''beforeApply'' (beforeApply bound_options) (\<lambda>h. h ''env.whoAmI'' (Arr [])) toy_env
       = (Inr Undefined, toy_env, [])
   \<and> reflect_apply bound_engine (Fun 10) (Fun 10) (Arr []) toy_env = (Inr (Fun 10), toy_env)
   \<and> outcome (apply_handler bound_options bound_engine (Fun 10) ''env.whoAmI''
        (ObjProxy (Obj 1) ''env.navigator'') (Arr []) toy_env) = Inr (Fun 10)
   \<and> reals (journal (apply_handler bound_options bound_engine (Fun 10) ''env.whoAmI''
        (ObjProxy (Obj 1) ''env.navigator'') (Arr []) toy_env))
       = [RApply (Fun 10) (Fun 10) (Arr [])]
   \<and> \<not> bindThis env_options
   \<and> opt_call ''beforeApply'' (beforeApply env_options) (\<lambda>h. h ''env.whoAmI'' (Arr [])) toy_env
       = (Inr Undefined, toy_env, [])
   \<and> reflect_apply env_engine (Fun 10) (ObjProxy (Obj 1) ''env.navigator'') (Arr []) toy_env
       = (Inr (ObjProxy (Obj 1) ''env.navigator''), toy_env)
   \<and> outcome (apply_handler env_options env_engine (Fun 10) ''env.whoAmI''
        (ObjProxy (Obj 1) ''env.navigator'') (Arr []) toy_env)
       = Inr (ObjProxy (Obj 1) ''env.navigator'')
   \<and> reals (journal (apply_handler env_options env_engine (Fun 10) ''env.whoAmI''
        (ObjProxy (Obj 1) ''env.navigator'') (Arr []) toy_env))
       = [RApply (Fun 10) (ObjProxy (Obj 1) ''env.navigator'') (Arr [])]
   \<and> opt_call ''beforeApply'' (beforeApply env_options) (\<lambda>h. h ''env.whoAmI'' Null) toy_env
       = (Inr Undefined, toy_env, [])
   \<and> reflect_apply env_engine (Fun 10) (ObjProxy (Obj 1) ''env.navigator'') Null toy_env
       = (Inl TypeError, toy_env)
   \<and> apply_handler env_options env_engine (Fun 10) ''env.whoAmI''
        (ObjProxy (Obj 1) ''env.navigator'') Null toy_env
       = (Inl TypeError, toy_env, [Real (RApply (Fun 10) (ObjProxy (Obj 1) ''env.navigator'') Null)])"
proof -
  let ?nav = "ObjProxy (Obj 1) ''env.navigator''"
  let ?bound = "apply_handler bound_options bound_engine (Fun 10) ''env.whoAmI'' ?nav (Arr []) toy_env"
  let ?free = "apply_handler env_options env_engine (Fun 10) ''env.whoAmI'' ?nav (Arr []) toy_env"
  have b1: "bindThis bound_options" by (simp add: option_select)
  have b2: "opt_call ''beforeApply'' (beforeApply bound_options) (\<lambda>h. h ''env.whoAmI'' (Arr [])) toy_env
       = (Inr Undefined, toy_env, [])"
    by (simp add: option_select opt_call_def ret_def)
  have b3: "reflect_apply bound_engine (Fun 10) (Fun 10) (Arr []) toy_env = (Inr (Fun 10), toy_env)"
    by (simp add: evaluate)
  have b4: "outcome ?bound = Inr (Fun 10)" by (simp add: evaluate)
  have b5: "reals (journal ?bound) = [RApply (Fun 10) (Fun 10) (Arr [])]"
    using apply_receiver [where cfg = bound_options and plat = bound_engine and fn = "Fun 10"
        and path = "''env.whoAmI''" and thisArg = ?nav and args = "Arr []" and s = toy_env
        and r = Undefined and ?s0.0 = toy_env and ?j0.0 = "[]" and ?result0.0 = "Fun 10"
        and ?s1.0 = toy_env and v = "Fun 10" and s' = "final ?bound" and j = "journal ?bound",
        THEN conjunct2, THEN conjunct2, THEN conjunct1]
      b1 b2 b3 run_triple [OF b4]
    by (simp add: coalesce_def nullish_def)
  have f1: "\<not> bindThis env_options" by (simp add: option_select)
  have f2: "opt_call ''beforeApply'' (beforeApply env_options) (\<lambda>h. h ''env.whoAmI'' (Arr [])) toy_env
       = (Inr Undefined, toy_env, [])"
    by (simp add: option_select opt_call_def ret_def)
  have f3: "reflect_apply env_engine (Fun 10) ?nav (Arr []) toy_env = (Inr ?nav, toy_env)"
    by (simp add: evaluate)
  have f4: "outcome ?free = Inr ?nav" by (simp add: evaluate)
  have f5: "reals (journal ?free) = [RApply (Fun 10) ?nav (Arr [])]"
    using apply_receiver [where cfg = env_options and plat = env_engine and fn = "Fun 10"
        and path = "''env.whoAmI''" and thisArg = ?nav and args = "Arr []" and s = toy_env
        and r = Undefined and ?s0.0 = toy_env and ?j0.0 = "[]" and ?result0.0 = ?nav
        and ?s1.0 = toy_env and v = ?nav and s' = "final ?free" and j = "journal ?free",
        THEN conjunct2, THEN conjunct2, THEN conjunct1]
      f1 f2 f3 run_triple [OF f4]
    by (simp add: coalesce_def nullish_def)
  have e2: "opt_call ''beforeApply'' (beforeApply env_options) (\<lambda>h. h ''env.whoAmI'' Null) toy_env
       = (Inr Undefined, toy_env, [])"
    by (simp add: option_select opt_call_def ret_def)
  have e3: "reflect_apply env_engine (Fun 10) ?nav Null toy_env = (Inl TypeError, toy_env)"
    by (simp add: evaluate)
  have e4: "apply_handler env_options env_engine (Fun 10) ''env.whoAmI'' ?nav Null toy_env
       = (Inl TypeError, toy_env, [Real (RApply (Fun 10) ?nav Null)])"
    using apply_receiver [where cfg = env_options and plat = env_engine and fn = "Fun 10"
        and path = "''env.whoAmI''" and thisArg = ?nav and args = Null and s = toy_env
        and r = Undefined and ?s0.0 = toy_env and ?j0.0 = "[]" and e = TypeError
        and ?s1.0 = toy_env, THEN conjunct2, THEN conjunct1]
      f1 e2 e3
    by (simp add: coalesce_def nullish_def)
  from b1 b2 b3 b4 b5 f1 f2 f3 f4 f5 e2 e3 e4 show ?thesis by blast
qed


subsection \<open>The order of the steps of a handler\<close>

text \<open>A step of a computation that returns, and what follows it.\<close>

lemma bind_performE:
  assumes "bindJ (perform st p) f s = (Inr y, s', j)"
  obtains x s1 j2 where "p s = (Inr x, s1)" "f x s1 = (Inr y, s', j2)" "j = st # j2"
proof -
  from assms obtain x s1 j1 j2 where
    a: "perform st p s = (Inr x, s1, j1)" and b: "f x s1 = (Inr y, s', j2)" and j: "j = j1 @ j2"
    by (rule bindJ_InrE)
  from a have "p s = (Inr x, s1)" and "j1 = [st]"
    by (auto simp: perform_run split: prod.splits)
  with b j show ?thesis by (intro that [of x s1 j2]) simp_all
qed

lemma bind_opt_callE:
  assumes "bindJ (opt_call n h run) f s = (Inr y, s', j)"
  obtains u s1 j2 where "opt_call n h run s = (Inr u, s1, hook_steps n h)"
    "f u s1 = (Inr y, s', j2)" "j = hook_steps n h @ j2"
proof -
  from assms obtain u s1 j1 j2 where
    a: "opt_call n h run s = (Inr u, s1, j1)" and b: "f u s1 = (Inr y, s', j2)" and j: "j = j1 @ j2"
    by (rule bindJ_InrE)
  from a have "j1 = hook_steps n h" by (rule opt_call_journal)
  with a b j show ?thesis by (intro that [of u s1 j2]) simp_all
qed

lemma bind_safeStringifyE:
  assumes "bindJ (safeStringify plat v) f s = (Inr y, s', j)"
  obtains res s1 where "safeStringify plat v s = (Inr res, s1, [])" "f res s1 = (Inr y, s', j)"
proof -
  from assms obtain res s1 j1 j2 where
    a: "safeStringify plat v s = (Inr res, s1, j1)" and b: "f res s1 = (Inr y, s', j2)"
    and j: "j = j1 @ j2"
    by (rule bindJ_InrE)
  from a have "j1 = []" by (rule safeStringify_journal)
  with a b j show ?thesis by (intro that [of res s1]) simp_all
qed

lemma bind_get_propE:
  assumes "bindJ (get_prop plat v k) f s = (Inr y, s', j)"
  obtains x s1 where "reflect_get plat v k v s = (Inr x, s1)" "f x s1 = (Inr y, s', j)"
proof -
  from assms obtain x s1 j1 j2 where
    a: "get_prop plat v k s = (Inr x, s1, j1)" and b: "f x s1 = (Inr y, s', j2)"
    and j: "j = j1 @ j2"
    by (rule bindJ_InrE)
  from a have "j1 = []" and "reflect_get plat v k v s = (Inr x, s1)"
    by (auto simp: get_prop_def lift_run split: prod.splits)
  with b j show ?thesis by (intro that [of x s1]) simp_all
qed

lemma bind_ToStringE:
  assumes "bindJ (ToString plat v) f s = (Inr y, s', j)"
  obtains x s1 where "ToString plat v s = (Inr x, s1, [])" "f x s1 = (Inr y, s', j)"
proof -
  from assms obtain x s1 j1 j2 where
    a: "ToString plat v s = (Inr x, s1, j1)" and b: "f x s1 = (Inr y, s', j2)"
    and j: "j = j1 @ j2"
    by (rule bindJ_InrE)
  from a have "j1 = []" by (rule ToString_journal)
  with a b j show ?thesis by (intro that [of x s1]) simp_all
qed

lemma bind_logE:
  assumes "bindJ (log cfg plat [m]) f s = (Inr y, s', j)"
  obtains s1 j2 where "sink_of cfg plat m s = (Inr (), s1)" "f () s1 = (Inr y, s', j2)"
    "j = Emit m # j2"
proof -
  from assms obtain u s1 j1 j2 where
    a: "log cfg plat [m] s = (Inr u, s1, j1)" and b: "f u s1 = (Inr y, s', j2)"
    and j: "j = j1 @ j2"
    by (rule bindJ_InrE)
  from a have "sink_of cfg plat m s = (Inr (), s1)" and "j1 = [Emit m]"
    by (auto dest: log_returns)
  with b j show ?thesis by (intro that [of s1 j2]) simp_all
qed

text \<open>What each of the other handlers has done when it returns.\<close>

lemma has_handler_steps:
  assumes "has_handler cfg plat t path k s = (Inr b, s', j)"
  shows "\<exists>s1. reflect_has plat t k s = (Inr b, s1)
           \<and> sink_of cfg plat (line_has path (propStr k) (bool_string b)) s1 = (Inr (), s')
           \<and> j = [Real (RHas t k), Emit (line_has path (propStr k) (bool_string b))]"
proof -
  from assms obtain x s1 j1 where
    a: "reflect_has plat t k s = (Inr x, s1)"
    and r1: "bindJ (log cfg plat [line_has path (propStr k) (bool_string x)]) (\<lambda>_. ret x) s1
       = (Inr b, s', j1)"
    and j: "j = Real (RHas t k) # j1"
    unfolding has_handler_def Reflect_has_def by (rule bind_performE)
  from r1 obtain s2 j2 where
    l: "sink_of cfg plat (line_has path (propStr k) (bool_string x)) s1 = (Inr (), s2)"
    and r2: "ret x s2 = (Inr b, s', j2)"
    and j1: "j1 = Emit (line_has path (propStr k) (bool_string x)) # j2"
    by (rule bind_logE)
  from r2 have "x = b" "s2 = s'" "j2 = []" by (simp_all add: ret_def)
  with a l j j1 show ?thesis by auto
qed

lemma deleteProperty_handler_steps:
  assumes "deleteProperty_handler cfg plat t path k s = (Inr b, s', j)"
  shows "\<exists>s1. reflect_deleteProperty plat t k s = (Inr b, s1)
           \<and> sink_of cfg plat (line_delete path (propStr k) (bool_string b)) s1 = (Inr (), s')
           \<and> j = [Real (RDelete t k), Emit (line_delete path (propStr k) (bool_string b))]"
proof -
  from assms obtain x s1 j1 where
    a: "reflect_deleteProperty plat t k s = (Inr x, s1)"
    and r1: "bindJ (log cfg plat [line_delete path (propStr k) (bool_string x)]) (\<lambda>_. ret x) s1
       = (Inr b, s', j1)"
    and j: "j = Real (RDelete t k) # j1"
    unfolding deleteProperty_handler_def Reflect_deleteProperty_def by (rule bind_performE)
  from r1 obtain s2 j2 where
    l: "sink_of cfg plat (line_delete path (propStr k) (bool_string x)) s1 = (Inr (), s2)"
    and r2: "ret x s2 = (Inr b, s', j2)"
    and j1: "j1 = Emit (line_delete path (propStr k) (bool_string x)) # j2"
    by (rule bind_logE)
  from r2 have "x = b" "s2 = s'" "j2 = []" by (simp_all add: ret_def)
  with a l j j1 show ?thesis by auto
qed

lemma isExtensible_handler_steps:
  assumes "isExtensible_handler cfg plat t path s = (Inr b, s', j)"
  shows "\<exists>s1. reflect_isExtensible plat t s = (Inr b, s1)
           \<and> sink_of cfg plat (line_isExtensible path (bool_string b)) s1 = (Inr (), s')
           \<and> j = [Real (RIsExt t), Emit (line_isExtensible path (bool_string b))]"
proof -
  from assms obtain x s1 j1 where
    a: "reflect_isExtensible plat t s = (Inr x, s1)"
    and r1: "bindJ (log cfg plat [line_isExtensible path (bool_string x)]) (\<lambda>_. ret x) s1
       = (Inr b, s', j1)"
    and j: "j = Real (RIsExt t) # j1"
    unfolding isExtensible_handler_def Reflect_isExtensible_def by (rule bind_performE)
  from r1 obtain s2 j2 where
    l: "sink_of cfg plat (line_isExtensible path (bool_string x)) s1 = (Inr (), s2)"
    and r2: "ret x s2 = (Inr b, s', j2)"
    and j1: "j1 = Emit (line_isExtensible path (bool_string x)) # j2"
    by (rule bind_logE)
  from r2 have "x = b" "s2 = s'" "j2 = []" by (simp_all add: ret_def)
  with a l j j1 show ?thesis by auto
qed

lemma defineProperty_handler_steps:
  assumes "defineProperty_handler cfg plat t path k attributes s = (Inr b, s', j)"
  shows "\<exists>s1 a s2. reflect_defineProperty plat t k attributes s = (Inr b, s1)
           \<and> safeStringify plat attributes s1 = (Inr a, s2, [])
           \<and> sink_of cfg plat (line_define path (propStr k) (tpl a) (bool_string b)) s2 = (Inr (), s')
           \<and> j = [Real (RDefine t k attributes),
                  Emit (line_define path (propStr k) (tpl a) (bool_string b))]"
proof -
  from assms obtain x s1 j1 where
    a: "reflect_defineProperty plat t k attributes s = (Inr x, s1)"
    and r1: "bindJ (safeStringify plat attributes) (\<lambda>a.
       bindJ (log cfg plat [line_define path (propStr k) (tpl a) (bool_string x)]) (\<lambda>_. ret x)) s1
       = (Inr b, s', j1)"
    and j: "j = Real (RDefine t k attributes) # j1"
    unfolding defineProperty_handler_def Reflect_defineProperty_def by (rule bind_performE)
  from r1 obtain d s2 where
    st: "safeStringify plat attributes s1 = (Inr d, s2, [])"
    and r2: "bindJ (log cfg plat [line_define path (propStr k) (tpl d) (bool_string x)]) (\<lambda>_. ret x) s2
       = (Inr b, s', j1)"
    by (rule bind_safeStringifyE)
  from r2 obtain s3 j2 where
    l: "sink_of cfg plat (line_define path (propStr k) (tpl d) (bool_string x)) s2 = (Inr (), s3)"
    and r3: "ret x s3 = (Inr b, s', j2)"
    and j1: "j1 = Emit (line_define path (propStr k) (tpl d) (bool_string x)) # j2"
    by (rule bind_logE)
  from r3 have "x = b" "s3 = s'" "j2 = []" by (simp_all add: ret_def)
  with a st l j j1 show ?thesis by auto
qed

lemma getPrototypeOf_handler_steps:
  assumes "getPrototypeOf_handler cfg plat t path s = (Inr v, s', j)"
  shows "\<exists>s1 res s2. reflect_getPrototypeOf plat t s = (Inr v, s1)
           \<and> safeStringify plat v s1 = (Inr res, s2, [])
           \<and> sink_of cfg plat (line_getPrototypeOf path (tpl res)) s2 = (Inr (), s')
           \<and> j = [Real (RGetProto t), Emit (line_getPrototypeOf path (tpl res))]"
proof -
  from assms obtain x s1 j1 where
    a: "reflect_getPrototypeOf plat t s = (Inr x, s1)"
    and r1: "bindJ (safeStringify plat x) (\<lambda>res.
       bindJ (log cfg plat [line_getPrototypeOf path (tpl res)]) (\<lambda>_. ret x)) s1
       = (Inr v, s', j1)"
    and j: "j = Real (RGetProto t) # j1"
    unfolding getPrototypeOf_handler_def Reflect_getPrototypeOf_def by (rule bind_performE)
  from r1 obtain res s2 where
    st: "safeStringify plat x s1 = (Inr res, s2, [])"
    and r2: "bindJ (log cfg plat [line_getPrototypeOf path (tpl res)]) (\<lambda>_. ret x) s2
       = (Inr v, s', j1)"
    by (rule bind_safeStringifyE)
  from r2 obtain s3 j2 where
    l: "sink_of cfg plat (line_getPrototypeOf path (tpl res)) s2 = (Inr (), s3)"
    and r3: "ret x s3 = (Inr v, s', j2)"
    and j1: "j1 = Emit (line_getPrototypeOf path (tpl res)) # j2"
    by (rule bind_logE)
  from r3 have "x = v" "s3 = s'" "j2 = []" by (simp_all add: ret_def)
  with a st l j j1 show ?thesis by auto
qed

lemma construct_handler_steps:
  assumes "construct_handler cfg plat fn path args newTarget s = (Inr v, s', j)"
  shows "\<exists>s1 nm s2 name s3 a s4 res s5.
             reflect_construct plat fn args newTarget s = (Inr v, s1)
           \<and> reflect_get plat fn (KStr ''name'') fn s1 = (Inr nm, s2)
           \<and> ToString plat nm s2 = (Inr name, s3, [])
           \<and> safeStringify plat args s3 = (Inr a, s4, [])
           \<and> safeStringify plat v s4 = (Inr res, s5, [])
           \<and> sink_of cfg plat (line_construct path name (tpl a) (tpl res)) s5 = (Inr (), s')
           \<and> j = [Real (RConstruct fn args newTarget),
                  Emit (line_construct path name (tpl a) (tpl res))]"
proof -
  from assms obtain x s1 j1 where
    a: "reflect_construct plat fn args newTarget s = (Inr x, s1)"
    and r1: "bindJ (get_prop plat fn (KStr ''name'')) (\<lambda>nm.
      bindJ (ToString plat nm) (\<lambda>name.
      bindJ (safeStringify plat args) (\<lambda>a.
      bindJ (safeStringify plat x) (\<lambda>res.
      bindJ (log cfg plat [line_construct path name (tpl a) (tpl res)]) (\<lambda>_.
      ret x))))) s1 = (Inr v, s', j1)"
    and j: "j = Real (RConstruct fn args newTarget) # j1"
    unfolding construct_handler_def Reflect_construct_def Let_def by (rule bind_performE)
  from r1 obtain nm s2 where
    n: "reflect_get plat fn (KStr ''name'') fn s1 = (Inr nm, s2)"
    and r2: "bindJ (ToString plat nm) (\<lambda>name.
      bindJ (safeStringify plat args) (\<lambda>a.
      bindJ (safeStringify plat x) (\<lambda>res.
      bindJ (log cfg plat [line_construct path name (tpl a) (tpl res)]) (\<lambda>_.
      ret x)))) s2 = (Inr v, s', j1)"
    by (rule bind_get_propE)
  from r2 obtain name s3 where
    ts: "ToString plat nm s2 = (Inr name, s3, [])"
    and r3: "bindJ (safeStringify plat args) (\<lambda>a.
      bindJ (safeStringify plat x) (\<lambda>res.
      bindJ (log cfg plat [line_construct path name (tpl a) (tpl res)]) (\<lambda>_.
      ret x))) s3 = (Inr v, s', j1)"
    by (rule bind_ToStringE)
  from r3 obtain d s4 where
    sa: "safeStringify plat args s3 = (Inr d, s4, [])"
    and r4: "bindJ (safeStringify plat x) (\<lambda>res.
      bindJ (log cfg plat [line_construct path name (tpl d) (tpl res)]) (\<lambda>_.
      ret x)) s4 = (Inr v, s', j1)"
    by (rule bind_safeStringifyE)
  from r4 obtain res s5 where
    sr: "safeStringify plat x s4 = (Inr res, s5, [])"
    and r5: "bindJ (log cfg plat [line_construct path name (tpl d) (tpl res)]) (\<lambda>_. ret x) s5
       = (Inr v, s', j1)"
    by (rule bind_safeStringifyE)
  from r5 obtain s6 j2 where
    l: "sink_of cfg plat (line_construct path name (tpl d) (tpl res)) s5 = (Inr (), s6)"
    and r6: "ret x s6 = (Inr v, s', j2)"
    and j1: "j1 = Emit (line_construct path name (tpl d) (tpl res)) # j2"
    by (rule bind_logE)
  from r6 have "x = v" "s6 = s'" "j2 = []" by (simp_all add: ret_def)
  with a n ts sa sr l j j1 show ?thesis by auto
qed

lemma set_handler_steps:
  assumes "set_handler cfg plat t path k x receiver s = (Inr b, s', j)"
  shows "\<exists>u s0 s1 u2 s2 res s3.
             opt_call ''beforeSet'' (beforeSet cfg) (\<lambda>h. h path k x) s
               = (Inr u, s0, hook_steps ''beforeSet'' (beforeSet cfg))
           \<and> reflect_set plat t k (coalesce u x) receiver s0 = (Inr b, s1)
           \<and> opt_call ''afterSet'' (afterSet cfg) (\<lambda>h. h path k (coalesce u x)) s1
               = (Inr u2, s2, hook_steps ''afterSet'' (afterSet cfg))
           \<and> safeStringify plat (coalesce u x) s2 = (Inr res, s3, [])
           \<and> sink_of cfg plat (line_set path (propStr k) (tpl res)) s3 = (Inr (), s')
           \<and> j = hook_steps ''beforeSet'' (beforeSet cfg) @ [Real (RSet t k (coalesce u x) receiver)]
                 @ hook_steps ''afterSet'' (afterSet cfg) @ [Emit (line_set path (propStr k) (tpl res))]"
proof -
  from assms obtain u s0 j0 where
    b: "opt_call ''beforeSet'' (beforeSet cfg) (\<lambda>h. h path k x) s
       = (Inr u, s0, hook_steps ''beforeSet'' (beforeSet cfg))"
    and r1: "bindJ (Reflect_set plat t k (coalesce u x) receiver) (\<lambda>success.
      bindJ (opt_call ''afterSet'' (afterSet cfg) (\<lambda>h. h path k (coalesce u x))) (\<lambda>_.
      bindJ (safeStringify plat (coalesce u x)) (\<lambda>res.
      bindJ (log cfg plat [line_set path (propStr k) (tpl res)]) (\<lambda>_.
      ret success)))) s0 = (Inr b, s', j0)"
    and j: "j = hook_steps ''beforeSet'' (beforeSet cfg) @ j0"
    unfolding set_handler_def Let_def by (rule bind_opt_callE)
  from r1 obtain y s1 j1 where
    w: "reflect_set plat t k (coalesce u x) receiver s0 = (Inr y, s1)"
    and r2: "bindJ (opt_call ''afterSet'' (afterSet cfg) (\<lambda>h. h path k (coalesce u x))) (\<lambda>_.
      bindJ (safeStringify plat (coalesce u x)) (\<lambda>res.
      bindJ (log cfg plat [line_set path (propStr k) (tpl res)]) (\<lambda>_.
      ret y))) s1 = (Inr b, s', j1)"
    and j0: "j0 = Real (RSet t k (coalesce u x) receiver) # j1"
    unfolding Reflect_set_def by (rule bind_performE)
  from r2 obtain u2 s2 j2 where
    a: "opt_call ''afterSet'' (afterSet cfg) (\<lambda>h. h path k (coalesce u x)) s1
       = (Inr u2, s2, hook_steps ''afterSet'' (afterSet cfg))"
    and r3: "bindJ (safeStringify plat (coalesce u x)) (\<lambda>res.
      bindJ (log cfg plat [line_set path (propStr k) (tpl res)]) (\<lambda>_.
      ret y)) s2 = (Inr b, s', j2)"
    and j1: "j1 = hook_steps ''afterSet'' (afterSet cfg) @ j2"
    by (rule bind_opt_callE)
  from r3 obtain res s3 where
    st: "safeStringify plat (coalesce u x) s2 = (Inr res, s3, [])"
    and r4: "bindJ (log cfg plat [line_set path (propStr k) (tpl res)]) (\<lambda>_. ret y) s3
       = (Inr b, s', j2)"
    by (rule bind_safeStringifyE)
  from r4 obtain s4 j3 where
    l: "sink_of cfg plat (line_set path (propStr k) (tpl res)) s3 = (Inr (), s4)"
    and r5: "ret y s4 = (Inr b, s', j3)"
    and j2: "j2 = Emit (line_set path (propStr k) (tpl res)) # j3"
    by (rule bind_logE)
  from r5 have "y = b" "s4 = s'" "j3 = []" by (simp_all add: ret_def)
  with b w a st l j j0 j1 j2 show ?thesis by auto
qed

lemma setPrototypeOf_handler_steps:
  assumes "setPrototypeOf_handler cfg plat t path proto s = (Inr b, s', j)"
  shows "\<exists>res s1 s2. safeStringify plat proto s = (Inr res, s1, [])
           \<and> sink_of cfg plat (line_setPrototypeOf path (tpl res)) s1 = (Inr (), s2)
           \<and> reflect_setPrototypeOf plat t proto s2 = (Inr b, s')
           \<and> j = [Emit (line_setPrototypeOf path (tpl res)), Real (RSetProto t proto)]"
proof -
  from assms obtain res s1 where
    st: "safeStringify plat proto s = (Inr res, s1, [])"
    and r1: "bindJ (log cfg plat [line_setPrototypeOf path (tpl res)])
       (\<lambda>_. Reflect_setPrototypeOf plat t proto) s1 = (Inr b, s', j)"
    unfolding setPrototypeOf_handler_def by (rule bind_safeStringifyE)
  from r1 obtain s2 j2 where
    l: "sink_of cfg plat (line_setPrototypeOf path (tpl res)) s1 = (Inr (), s2)"
    and r2: "Reflect_setPrototypeOf plat t proto s2 = (Inr b, s', j2)"
    and j: "j = Emit (line_setPrototypeOf path (tpl res)) # j2"
    by (rule bind_logE)
  from r2 have "reflect_setPrototypeOf plat t proto s2 = (Inr b, s')" and "j2 = [Real (RSetProto t proto)]"
    by (auto simp: Reflect_setPrototypeOf_def perform_run split: prod.splits)
  with st l j show ?thesis by auto
qed

lemma preventExtensions_handler_steps:
  assumes "preventExtensions_handler cfg plat t path s = (Inr b, s', j)"
  shows "\<exists>s1. sink_of cfg plat (line_preventExtensions path) s = (Inr (), s1)
           \<and> reflect_preventExtensions plat t s1 = (Inr b, s')
           \<and> j = [Emit (line_preventExtensions path), Real (RPreventExt t)]"
proof -
  from assms obtain s1 j2 where
    l: "sink_of cfg plat (line_preventExtensions path) s = (Inr (), s1)"
    and r2: "Reflect_preventExtensions plat t s1 = (Inr b, s', j2)"
    and j: "j = Emit (line_preventExtensions path) # j2"
    unfolding preventExtensions_handler_def by (rule bind_logE)
  from r2 have "reflect_preventExtensions plat t s1 = (Inr b, s')" and "j2 = [Real (RPreventExt t)]"
    by (auto simp: Reflect_preventExtensions_def perform_run split: prod.splits)
  with l j show ?thesis by auto
qed

text \<open>
  C6, as claimed, fails. The \<^verbatim>\<open>preventExtensions\<close> and the \<^verbatim>\<open>setPrototypeOf\<close>
  trap hand their line to the sink first and call the primitive afterwards. A read
  at an exempt path calls the primitive and writes no line at all. A call through a
  wrapped function returns the object that the function returned, not wrapped. And
  the console receives two lines for one write: the \<^verbatim>\<open>defineProperty\<close> trap
  that the assignment runs on its receiver writes the first.
\<close>

theorem step_order_counterexample:
  "preventExtensions_handler env_options env_engine (Obj 0) ''env'' toy_env
     = (Inr True, toy_env\<lparr>sealed := [0], console_out := [line_preventExtensions ''env'']\<rparr>,
        [Emit (line_preventExtensions ''env''), Real (RPreventExt (Obj 0))])
   \<and> journal (setPrototypeOf_handler env_options env_engine (Obj 0) ''env'' Null toy_env)
     = [Emit (line_setPrototypeOf ''env'' ''null''), Real (RSetProto (Obj 0) Null)]
   \<and> get_handler env_options env_engine (Obj 2) ''env.console'' (KStr ''memory'')
        (ObjProxy (Obj 2) ''env.console'') toy_env
     = (Inr (Obj 5), toy_env, [Real (RGet (Obj 2) (KStr ''memory'') (ObjProxy (Obj 2) ''env.console''))])
   \<and> outcome (apply_handler env_options env_engine (Fun 6) ''env.makeObject''
        (ObjProxy (Obj 0) ''env'') (Arr []) toy_env) = Inr (Obj 7)
   \<and> raw_ref (Obj 7)
   \<and> console_out (final (set_handler env_options env_engine (Obj 1) ''env.navigator''
        (KStr ''language'') (Str ''fr'') (ObjProxy (Obj 1) ''env.navigator'') toy_env))
     = [line_define ''env.navigator'' ''language''
          (''{'' @ json_quote ''value'' @ '':'' @ json_quote ''fr'' @ ''}'') ''true'',
        line_set ''env.navigator'' ''language'' ''fr'']"
  by (simp add: evaluate)

text \<open>
  C6, amended. A handler that returns has taken the following steps, each on the
  state that the step before it left; besides them it has only read the name of the
  function and serialised the values that its line shows.

  The read trap, when the read is not bypassed: the before-read hook, if one is
  configured; the primitive read; the wrapping of the value read, if it is an object
  or a function; the after-read hook, if one is configured, on the wrapped value; one
  call of the sink with the line of the read. It returns the wrapped value, or the
  value of the after-read hook when that is not nullish. A bypassed read, of a key
  that \<^verbatim>\<open>watchedProps\<close> excludes or at a path in which \<^verbatim>\<open>console\<close> occurs, is
  the primitive read alone, whether it returns or throws: no hook, no wrapping, no
  line.

  The write trap: the before-write hook, if one is configured; the primitive write,
  of the value of that hook when it is not nullish and of the caller's value
  otherwise; the after-write hook, if one is configured; one call of the sink. It
  returns the result of the primitive.

  The call trap: the before-call hook, if one is configured; the primitive call;
  the after-call hook, if one is configured, on the result; one call of the sink. It
  returns the result of the primitive, not wrapped, or the value of the after-call
  hook when that is not nullish.

  The \<^verbatim>\<open>has\<close>, \<^verbatim>\<open>deleteProperty\<close>, \<^verbatim>\<open>defineProperty\<close>,
  \<^verbatim>\<open>getPrototypeOf\<close>, \<^verbatim>\<open>isExtensible\<close> and \<^verbatim>\<open>construct\<close> traps, which have no
  hooks: the primitive, then one call of the sink. They return the result of the
  primitive, not wrapped.

  The \<^verbatim>\<open>setPrototypeOf\<close> and \<^verbatim>\<open>preventExtensions\<close> traps: one call of the
  sink first, then the primitive, on the state the sink left; they return its result.

  So every handler that returns has called the sink once itself. The handlers that
  the engine runs inside one of these steps (the \<^verbatim>\<open>defineProperty\<close> trap for a
  write whose receiver is the proxy, the read traps for \<^verbatim>\<open>JSON.stringify\<close> of a
  wrapped value) take their own steps and call the sink themselves, so the console
  can receive more than one line for one operation.
\<close>

theorem handlers_step_order:
  "((unwatched cfg k \<or> includes_str path ''console'') \<and> reflect_get plat t k receiver s = (r, s1) \<longrightarrow>
      get_handler cfg plat t path k receiver s = (r, s1, [Real (RGet t k receiver)]))
   \<and> (\<not> unwatched cfg k \<and> \<not> includes_str path ''console''
      \<and> get_handler cfg plat t path k receiver s = (Inr v, s', j) \<longrightarrow>
        (\<exists>u s0 y s1 hr s2 res s3.
            opt_call ''beforeGet'' (beforeGet cfg) (\<lambda>h. h path k) s
              = (Inr u, s0, hook_steps ''beforeGet'' (beforeGet cfg))
          \<and> reflect_get plat t k receiver s0 = (Inr y, s1)
          \<and> opt_call ''afterGet'' (afterGet cfg)
                (\<lambda>h. h path k (wrap_value y (path @ ''.'' @ String_key k))) s1
              = (Inr hr, s2, hook_steps ''afterGet'' (afterGet cfg))
          \<and> v = coalesce hr (wrap_value y (path @ ''.'' @ String_key k))
          \<and> safeStringify plat v s2 = (Inr res, s3, [])
          \<and> sink_of cfg plat (line_get path (propStr k) (tpl res)) s3 = (Inr (), s')
          \<and> j = hook_steps ''beforeGet'' (beforeGet cfg) @ [Real (RGet t k receiver)]
                @ hook_steps ''afterGet'' (afterGet cfg) @ [Emit (line_get path (propStr k) (tpl res))]))
   \<and> (set_handler cfg plat t path k x receiver s = (Inr b, s', j) \<longrightarrow>
        (\<exists>u s0 s1 u2 s2 res s3.
            opt_call ''beforeSet'' (beforeSet cfg) (\<lambda>h. h path k x) s
              = (Inr u, s0, hook_steps ''beforeSet'' (beforeSet cfg))
          \<and> reflect_set plat t k (coalesce u x) receiver s0 = (Inr b, s1)
          \<and> opt_call ''afterSet'' (afterSet cfg) (\<lambda>h. h path k (coalesce u x)) s1
              = (Inr u2, s2, hook_steps ''afterSet'' (afterSet cfg))
          \<and> safeStringify plat (coalesce u x) s2 = (Inr res, s3, [])
          \<and> sink_of cfg plat (line_set path (propStr k) (tpl res)) s3 = (Inr (), s')
          \<and> j = hook_steps ''beforeSet'' (beforeSet cfg) @ [Real (RSet t k (coalesce u x) receiver)]
                @ hook_steps ''afterSet'' (afterSet cfg) @ [Emit (line_set path (propStr k) (tpl res))]))
   \<and> (apply_handler cfg plat fn path thisArg args s = (Inr v, s', j) \<longrightarrow>
        (\<exists>u s0 result0 s1 u2 s2 name a res sd se.
            opt_call ''beforeApply'' (beforeApply cfg) (\<lambda>h. h path args) s
              = (Inr u, s0, hook_steps ''beforeApply'' (beforeApply cfg))
          \<and> reflect_apply plat fn (if bindThis cfg then fn else thisArg) (coalesce u args) s0
              = (Inr result0, s1)
          \<and> opt_call ''afterApply'' (afterApply cfg) (\<lambda>h. h path result0) s1
              = (Inr u2, s2, hook_steps ''afterApply'' (afterApply cfg))
          \<and> v = coalesce u2 result0
          \<and> safeStringify plat v sd = (Inr res, se, [])
          \<and> sink_of cfg plat (line_apply path name a (tpl res)) se = (Inr (), s')
          \<and> j = hook_steps ''beforeApply'' (beforeApply cfg)
                @ [Real (RApply fn (if bindThis cfg then fn else thisArg) (coalesce u args))]
                @ hook_steps ''afterApply'' (afterApply cfg)
                @ [Emit (line_apply path name a (tpl res))]))
   \<and> (has_handler cfg plat t path k s = (Inr b, s', j) \<longrightarrow>
        (\<exists>s1. reflect_has plat t k s = (Inr b, s1)
           \<and> sink_of cfg plat (line_has path (propStr k) (bool_string b)) s1 = (Inr (), s')
           \<and> j = [Real (RHas t k), Emit (line_has path (propStr k) (bool_string b))]))
   \<and> (deleteProperty_handler cfg plat t path k s = (Inr b, s', j) \<longrightarrow>
        (\<exists>s1. reflect_deleteProperty plat t k s = (Inr b, s1)
           \<and> sink_of cfg plat (line_delete path (propStr k) (bool_string b)) s1 = (Inr (), s')
           \<and> j = [Real (RDelete t k), Emit (line_delete path (propStr k) (bool_string b))]))
   \<and> (defineProperty_handler cfg plat t path k attributes s = (Inr b, s', j) \<longrightarrow>
        (\<exists>s1 a s2. reflect_defineProperty plat t k attributes s = (Inr b, s1)
           \<and> safeStringify plat attributes s1 = (Inr a, s2, [])
           \<and> sink_of cfg plat (line_define path (propStr k) (tpl a) (bool_string b)) s2 = (Inr (), s')
           \<and> j = [Real (RDefine t k attributes),
                  Emit (line_define path (propStr k) (tpl a) (bool_string b))]))
   \<and> (getPrototypeOf_handler cfg plat t path s = (Inr v, s', j) \<longrightarrow>
        (\<exists>s1 res s2. reflect_getPrototypeOf plat t s = (Inr v, s1)
           \<and> safeStringify plat v s1 = (Inr res, s2, [])
           \<and> sink_of cfg plat (line_getPrototypeOf path (tpl res)) s2 = (Inr (), s')
           \<and> j = [Real (RGetProto t), Emit (line_getPrototypeOf path (tpl res))]))
   \<and> (isExtensible_handler cfg plat t path s = (Inr b, s', j) \<longrightarrow>
        (\<exists>s1. reflect_isExtensible plat t s = (Inr b, s1)
           \<and> sink_of cfg plat (line_isExtensible path (bool_string b)) s1 = (Inr (), s')
           \<and> j = [Real (RIsExt t), Emit (line_isExtensible path (bool_string b))]))
   \<and> (construct_handler cfg plat fn path args newTarget s = (Inr v, s', j) \<longrightarrow>
        (\<exists>s1 nm s2 name s3 a s4 res s5.
             reflect_construct plat fn args newTarget s = (Inr v, s1)
           \<and> reflect_get plat fn (KStr ''name'') fn s1 = (Inr nm, s2)
           \<and> ToString plat nm s2 = (Inr name, s3, [])
           \<and> safeStringify plat args s3 = (Inr a, s4, [])
           \<and> safeStringify plat v s4 = (Inr res, s5, [])
           \<and> sink_of cfg plat (line_construct path name (tpl a) (tpl res)) s5 = (Inr (), s')
           \<and> j = [Real (RConstruct fn args newTarget),
                  Emit (line_construct path name (tpl a) (tpl res))]))
   \<and> (setPrototypeOf_handler cfg plat t path proto s = (Inr b, s', j) \<longrightarrow>
        (\<exists>res s1 s2. safeStringify plat proto s = (Inr res, s1, [])
           \<and> sink_of cfg plat (line_setPrototypeOf path (tpl res)) s1 = (Inr (), s2)
           \<and> reflect_setPrototypeOf plat t proto s2 = (Inr b, s')
           \<and> j = [Emit (line_setPrototypeOf path (tpl res)), Real (RSetProto t proto)]))
   \<and> (preventExtensions_handler cfg plat t path s = (Inr b, s', j) \<longrightarrow>
        (\<exists>s1. sink_of cfg plat (line_preventExtensions path) s = (Inr (), s1)
           \<and> reflect_preventExtensions plat t s1 = (Inr b, s')
           \<and> j = [Emit (line_preventExtensions path), Real (RPreventExt t)]))"
proof (intro conjI impI)
  assume a: "(unwatched cfg k \<or> includes_str path ''console'') \<and> reflect_get plat t k receiver s = (r, s1)"
  then have "get_handler cfg plat t path k receiver s = Reflect_get plat t k receiver s"
    by (auto simp: get_handler_console get_handler_unwatched)
  with a show "get_handler cfg plat t path k receiver s = (r, s1, [Real (RGet t k receiver)])"
    by (simp add: Reflect_get_run)
next
  assume a: "\<not> unwatched cfg k \<and> \<not> includes_str path ''console''
      \<and> get_handler cfg plat t path k receiver s = (Inr v, s', j)"
  then have g1: "\<not> unwatched cfg k" and g2: "\<not> includes_str path ''console''"
    and run: "get_handler cfg plat t path k receiver s = (Inr v, s', j)" by simp_all
  from g1 g2 run obtain u s0 y s1 hr s2 res s3 where
    "opt_call ''beforeGet'' (beforeGet cfg) (\<lambda>h. h path k) s
       = (Inr u, s0, hook_steps ''beforeGet'' (beforeGet cfg))"
    "reflect_get plat t k receiver s0 = (Inr y, s1)"
    "opt_call ''afterGet'' (afterGet cfg) (\<lambda>h. h path k (wrap_value y (path @ ''.'' @ String_key k))) s1
       = (Inr hr, s2, hook_steps ''afterGet'' (afterGet cfg))"
    "safeStringify plat (coalesce hr (wrap_value y (path @ ''.'' @ String_key k))) s2 = (Inr res, s3, [])"
    "sink_of cfg plat (line_get path (propStr k) (tpl res)) s3 = (Inr (), s')"
    "v = coalesce hr (wrap_value y (path @ ''.'' @ String_key k))"
    "j = hook_steps ''beforeGet'' (beforeGet cfg) @ [Real (RGet t k receiver)]
           @ hook_steps ''afterGet'' (afterGet cfg) @ [Emit (line_get path (propStr k) (tpl res))]"
    by (rule get_handler_returns)
  then have "opt_call ''beforeGet'' (beforeGet cfg) (\<lambda>h. h path k) s
              = (Inr u, s0, hook_steps ''beforeGet'' (beforeGet cfg))
          \<and> reflect_get plat t k receiver s0 = (Inr y, s1)
          \<and> opt_call ''afterGet'' (afterGet cfg)
                (\<lambda>h. h path k (wrap_value y (path @ ''.'' @ String_key k))) s1
              = (Inr hr, s2, hook_steps ''afterGet'' (afterGet cfg))
          \<and> v = coalesce hr (wrap_value y (path @ ''.'' @ String_key k))
          \<and> safeStringify plat v s2 = (Inr res, s3, [])
          \<and> sink_of cfg plat (line_get path (propStr k) (tpl res)) s3 = (Inr (), s')
          \<and> j = hook_steps ''beforeGet'' (beforeGet cfg) @ [Real (RGet t k receiver)]
                @ hook_steps ''afterGet'' (afterGet cfg) @ [Emit (line_get path (propStr k) (tpl res))]"
    by simp
  then show "\<exists>u s0 y s1 hr s2 res s3.
            opt_call ''beforeGet'' (beforeGet cfg) (\<lambda>h. h path k) s
              = (Inr u, s0, hook_steps ''beforeGet'' (beforeGet cfg))
          \<and> reflect_get plat t k receiver s0 = (Inr y, s1)
          \<and> opt_call ''afterGet'' (afterGet cfg)
                (\<lambda>h. h path k (wrap_value y (path @ ''.'' @ String_key k))) s1
              = (Inr hr, s2, hook_steps ''afterGet'' (afterGet cfg))
          \<and> v = coalesce hr (wrap_value y (path @ ''.'' @ String_key k))
          \<and> safeStringify plat v s2 = (Inr res, s3, [])
          \<and> sink_of cfg plat (line_get path (propStr k) (tpl res)) s3 = (Inr (), s')
          \<and> j = hook_steps ''beforeGet'' (beforeGet cfg) @ [Real (RGet t k receiver)]
                @ hook_steps ''afterGet'' (afterGet cfg) @ [Emit (line_get path (propStr k) (tpl res))]"
    by blast
next
  assume "set_handler cfg plat t path k x receiver s = (Inr b, s', j)"
  then show "\<exists>u s0 s1 u2 s2 res s3.
            opt_call ''beforeSet'' (beforeSet cfg) (\<lambda>h. h path k x) s
              = (Inr u, s0, hook_steps ''beforeSet'' (beforeSet cfg))
          \<and> reflect_set plat t k (coalesce u x) receiver s0 = (Inr b, s1)
          \<and> opt_call ''afterSet'' (afterSet cfg) (\<lambda>h. h path k (coalesce u x)) s1
              = (Inr u2, s2, hook_steps ''afterSet'' (afterSet cfg))
          \<and> safeStringify plat (coalesce u x) s2 = (Inr res, s3, [])
          \<and> sink_of cfg plat (line_set path (propStr k) (tpl res)) s3 = (Inr (), s')
          \<and> j = hook_steps ''beforeSet'' (beforeSet cfg) @ [Real (RSet t k (coalesce u x) receiver)]
                @ hook_steps ''afterSet'' (afterSet cfg) @ [Emit (line_set path (propStr k) (tpl res))]"
    by (rule set_handler_steps)
next
  assume "apply_handler cfg plat fn path thisArg args s = (Inr v, s', j)"
  then obtain u s0 result0 s1 u2 s2 name a res sd se where
    "opt_call ''beforeApply'' (beforeApply cfg) (\<lambda>h. h path args) s
       = (Inr u, s0, hook_steps ''beforeApply'' (beforeApply cfg))"
    "reflect_apply plat fn (if bindThis cfg then fn else thisArg) (coalesce u args) s0 = (Inr result0, s1)"
    "opt_call ''afterApply'' (afterApply cfg) (\<lambda>h. h path result0) s1
       = (Inr u2, s2, hook_steps ''afterApply'' (afterApply cfg))"
    "v = coalesce u2 result0"
    "safeStringify plat v sd = (Inr res, se, [])"
    "sink_of cfg plat (line_apply path name a (tpl res)) se = (Inr (), s')"
    "j = hook_steps ''beforeApply'' (beforeApply cfg)
          @ [Real (RApply fn (if bindThis cfg then fn else thisArg) (coalesce u args))]
          @ hook_steps ''afterApply'' (afterApply cfg)
          @ [Emit (line_apply path name a (tpl res))]"
    by (rule apply_handler_returns)
  then show "\<exists>u s0 result0 s1 u2 s2 name a res sd se.
            opt_call ''beforeApply'' (beforeApply cfg) (\<lambda>h. h path args) s
              = (Inr u, s0, hook_steps ''beforeApply'' (beforeApply cfg))
          \<and> reflect_apply plat fn (if bindThis cfg then fn else thisArg) (coalesce u args) s0
              = (Inr result0, s1)
          \<and> opt_call ''afterApply'' (afterApply cfg) (\<lambda>h. h path result0) s1
              = (Inr u2, s2, hook_steps ''afterApply'' (afterApply cfg))
          \<and> v = coalesce u2 result0
          \<and> safeStringify plat v sd = (Inr res, se, [])
          \<and> sink_of cfg plat (line_apply path name a (tpl res)) se = (Inr (), s')
          \<and> j = hook_steps ''beforeApply'' (beforeApply cfg)
                @ [Real (RApply fn (if bindThis cfg then fn else thisArg) (coalesce u args))]
                @ hook_steps ''afterApply'' (afterApply cfg)
                @ [Emit (line_apply path name a (tpl res))]"
    by blast
next
  assume "has_handler cfg plat t path k s = (Inr b, s', j)"
  then show "\<exists>s1. reflect_has plat t k s = (Inr b, s1)
           \<and> sink_of cfg plat (line_has path (propStr k) (bool_string b)) s1 = (Inr (), s')
           \<and> j = [Real (RHas t k), Emit (line_has path (propStr k) (bool_string b))]"
    by (rule has_handler_steps)
next
  assume "deleteProperty_handler cfg plat t path k s = (Inr b, s', j)"
  then show "\<exists>s1. reflect_deleteProperty plat t k s = (Inr b, s1)
           \<and> sink_of cfg plat (line_delete path (propStr k) (bool_string b)) s1 = (Inr (), s')
           \<and> j = [Real (RDelete t k), Emit (line_delete path (propStr k) (bool_string b))]"
    by (rule deleteProperty_handler_steps)
next
  assume "defineProperty_handler cfg plat t path k attributes s = (Inr b, s', j)"
  then show "\<exists>s1 a s2. reflect_defineProperty plat t k attributes s = (Inr b, s1)
           \<and> safeStringify plat attributes s1 = (Inr a, s2, [])
           \<and> sink_of cfg plat (line_define path (propStr k) (tpl a) (bool_string b)) s2 = (Inr (), s')
           \<and> j = [Real (RDefine t k attributes),
                  Emit (line_define path (propStr k) (tpl a) (bool_string b))]"
    by (rule defineProperty_handler_steps)
next
  assume "getPrototypeOf_handler cfg plat t path s = (Inr v, s', j)"
  then show "\<exists>s1 res s2. reflect_getPrototypeOf plat t s = (Inr v, s1)
           \<and> safeStringify plat v s1 = (Inr res, s2, [])
           \<and> sink_of cfg plat (line_getPrototypeOf path (tpl res)) s2 = (Inr (), s')
           \<and> j = [Real (RGetProto t), Emit (line_getPrototypeOf path (tpl res))]"
    by (rule getPrototypeOf_handler_steps)
next
  assume "isExtensible_handler cfg plat t path s = (Inr b, s', j)"
  then show "\<exists>s1. reflect_isExtensible plat t s = (Inr b, s1)
           \<and> sink_of cfg plat (line_isExtensible path (bool_string b)) s1 = (Inr (), s')
           \<and> j = [Real (RIsExt t), Emit (line_isExtensible path (bool_string b))]"
    by (rule isExtensible_handler_steps)
next
  assume "construct_handler cfg plat fn path args newTarget s = (Inr v, s', j)"
  then show "\<exists>s1 nm s2 name s3 a s4 res s5.
             reflect_construct plat fn args newTarget s = (Inr v, s1)
           \<and> reflect_get plat fn (KStr ''name'') fn s1 = (Inr nm, s2)
           \<and> ToString plat nm s2 = (Inr name, s3, [])
           \<and> safeStringify plat args s3 = (Inr a, s4, [])
           \<and> safeStringify plat v s4 = (Inr res, s5, [])
           \<and> sink_of cfg plat (line_construct path name (tpl a) (tpl res)) s5 = (Inr (), s')
           \<and> j = [Real (RConstruct fn args newTarget),
                  Emit (line_construct path name (tpl a) (tpl res))]"
    by (rule construct_handler_steps)
next
  assume "setPrototypeOf_handler cfg plat t path proto s = (Inr b, s', j)"
  then show "\<exists>res s1 s2. safeStringify plat proto s = (Inr res, s1, [])
           \<and> sink_of cfg plat (line_setPrototypeOf path (tpl res)) s1 = (Inr (), s2)
           \<and> reflect_setPrototypeOf plat t proto s2 = (Inr b, s')
           \<and> j = [Emit (line_setPrototypeOf path (tpl res)), Real (RSetProto t proto)]"
    by (rule setPrototypeOf_handler_steps)
next
  assume "preventExtensions_handler cfg plat t path s = (Inr b, s', j)"
  then show "\<exists>s1. sink_of cfg plat (line_preventExtensions path) s = (Inr (), s1)
           \<and> reflect_preventExtensions plat t s1 = (Inr b, s')
           \<and> j = [Emit (line_preventExtensions path), Real (RPreventExt t)]"
    by (rule preventExtensions_handler_steps)
qed

theorem handlers_step_order_witness:
  "includes_str ''env.console'' ''console''
   \<and> reflect_get env_engine (Obj 2) (KStr ''memory'') (ObjProxy (Obj 2) ''env.console'') toy_env
       = (Inr (Obj 5), toy_env)
   \<and> get_handler env_options env_engine (Obj 2) ''env.console'' (KStr ''memory'')
        (ObjProxy (Obj 2) ''env.console'') toy_env
       = (Inr (Obj 5), toy_env, [Real (RGet (Obj 2) (KStr ''memory'') (ObjProxy (Obj 2) ''env.console''))])
   \<and> \<not> unwatched env_options (KStr ''navigator'') \<and> \<not> includes_str ''env'' ''console''
   \<and> outcome (get_handler env_options env_engine (Obj 0) ''env'' (KStr ''navigator'')
          (ObjProxy (Obj 0) ''env'') toy_env)
       = Inr (ObjProxy (Obj 1) ''env.navigator'')
   \<and> (\<exists>y s0 s1 res s3.
         reflect_get env_engine (Obj 0) (KStr ''navigator'') (ObjProxy (Obj 0) ''env'') s0 = (Inr y, s1)
       \<and> sink_of env_options env_engine
           (line_get ''env'' (propStr (KStr ''navigator'')) (tpl res)) s3
         = (Inr (), final (get_handler env_options env_engine (Obj 0) ''env'' (KStr ''navigator'')
          (ObjProxy (Obj 0) ''env'') toy_env)))
   \<and> outcome (set_handler env_options env_engine (Obj 1) ''env.navigator'' (KStr ''language'')
          (Str ''fr'') (ObjProxy (Obj 1) ''env.navigator'') toy_env)
       = Inr True
   \<and> (\<exists>u s0 s1 res s3.
         reflect_set env_engine (Obj 1) (KStr ''language'') (coalesce u (Str ''fr''))
           (ObjProxy (Obj 1) ''env.navigator'') s0 = (Inr True, s1)
       \<and> sink_of env_options env_engine
           (line_set ''env.navigator'' (propStr (KStr ''language'')) (tpl res)) s3
         = (Inr (), final (set_handler env_options env_engine (Obj 1) ''env.navigator'' (KStr ''language'')
          (Str ''fr'') (ObjProxy (Obj 1) ''env.navigator'') toy_env)))
   \<and> outcome (apply_handler env_options env_engine (Fun 6) ''env.makeObject''
          (ObjProxy (Obj 0) ''env'') (Arr []) toy_env)
       = Inr (Obj 7)
   \<and> (\<exists>u s0 result0 s1 name a res se.
         reflect_apply env_engine (Fun 6)
           (if bindThis env_options then Fun 6 else ObjProxy (Obj 0) ''env'') (coalesce u (Arr [])) s0
           = (Inr result0, s1)
       \<and> sink_of env_options env_engine (line_apply ''env.makeObject'' name a (tpl res)) se
         = (Inr (), final (apply_handler env_options env_engine (Fun 6) ''env.makeObject''
          (ObjProxy (Obj 0) ''env'') (Arr []) toy_env)))
   \<and> outcome (has_handler env_options env_engine (Obj 1) ''env.navigator'' (KStr ''language'') toy_env)
       = Inr True
   \<and> (\<exists>s1. reflect_has env_engine (Obj 1) (KStr ''language'') toy_env = (Inr True, s1)
       \<and> sink_of env_options env_engine
           (line_has ''env.navigator'' (propStr (KStr ''language'')) (bool_string True)) s1
         = (Inr (), final (has_handler env_options env_engine (Obj 1) ''env.navigator'' (KStr ''language'') toy_env)))
   \<and> outcome (deleteProperty_handler env_options env_engine (Obj 1) ''env.navigator''
          (KStr ''language'') toy_env)
       = Inr True
   \<and> (\<exists>s1. reflect_deleteProperty env_engine (Obj 1) (KStr ''language'') toy_env = (Inr True, s1)
       \<and> sink_of env_options env_engine
           (line_delete ''env.navigator'' (propStr (KStr ''language'')) (bool_string True)) s1
         = (Inr (), final (deleteProperty_handler env_options env_engine (Obj 1) ''env.navigator''
          (KStr ''language'') toy_env)))
   \<and> outcome (defineProperty_handler env_options env_engine (Obj 1) ''env.navigator''
          (KStr ''language'') (Obj 7) toy_env)
       = Inr True
   \<and> (\<exists>s1 a s2. reflect_defineProperty env_engine (Obj 1) (KStr ''language'') (Obj 7) toy_env
           = (Inr True, s1)
       \<and> sink_of env_options env_engine
           (line_define ''env.navigator'' (propStr (KStr ''language'')) (tpl a) (bool_string True)) s2
         = (Inr (), final (defineProperty_handler env_options env_engine (Obj 1) ''env.navigator''
          (KStr ''language'') (Obj 7) toy_env)))
   \<and> outcome (getPrototypeOf_handler env_options env_engine (Obj 1) ''env.navigator'' toy_env)
       = Inr Null
   \<and> (\<exists>s1 res s2. reflect_getPrototypeOf env_engine (Obj 1) toy_env = (Inr Null, s1)
       \<and> sink_of env_options env_engine (line_getPrototypeOf ''env.navigator'' (tpl res)) s2
         = (Inr (), final (getPrototypeOf_handler env_options env_engine (Obj 1) ''env.navigator'' toy_env)))
   \<and> outcome (isExtensible_handler env_options env_engine (Obj 1) ''env.navigator'' toy_env)
       = Inr True
   \<and> (\<exists>s1. reflect_isExtensible env_engine (Obj 1) toy_env = (Inr True, s1)
       \<and> sink_of env_options env_engine
           (line_isExtensible ''env.navigator'' (bool_string True)) s1
         = (Inr (), final (isExtensible_handler env_options env_engine (Obj 1) ''env.navigator'' toy_env)))
   \<and> outcome (construct_handler env_options env_engine (Fun 6) ''env.makeObject'' (Arr [])
          (FunProxy (Fun 6) ''env.makeObject'') toy_env)
       = Inr (Obj 7)
   \<and> (\<exists>s1 name a res s5.
         reflect_construct env_engine (Fun 6) (Arr []) (FunProxy (Fun 6) ''env.makeObject'') toy_env
           = (Inr (Obj 7), s1)
       \<and> sink_of env_options env_engine
           (line_construct ''env.makeObject'' name (tpl a) (tpl res)) s5
         = (Inr (), final (construct_handler env_options env_engine (Fun 6) ''env.makeObject'' (Arr [])
          (FunProxy (Fun 6) ''env.makeObject'') toy_env)))
   \<and> outcome (setPrototypeOf_handler env_options env_engine (Obj 1) ''env.navigator'' Null toy_env)
       = Inr True
   \<and> (\<exists>res s1 s2.
         sink_of env_options env_engine (line_setPrototypeOf ''env.navigator'' (tpl res)) s1
           = (Inr (), s2)
       \<and> reflect_setPrototypeOf env_engine (Obj 1) Null s2 = (Inr True, final (setPrototypeOf_handler env_options env_engine (Obj 1) ''env.navigator'' Null toy_env)))
   \<and> outcome (preventExtensions_handler env_options env_engine (Obj 1) ''env.navigator'' toy_env)
       = Inr True
   \<and> (\<exists>s1.
         sink_of env_options env_engine (line_preventExtensions ''env.navigator'') toy_env
           = (Inr (), s1)
       \<and> reflect_preventExtensions env_engine (Obj 1) s1 = (Inr True, final (preventExtensions_handler env_options env_engine (Obj 1) ''env.navigator'' toy_env)))
   \<and> console_out (final (get_handler env_options env_engine (Obj 0) ''env'' (KStr ''navigator'')
          (ObjProxy (Obj 0) ''env'') toy_env))
       = [line_get ''env.navigator'' ''toJSON'' ''undefined'',
          line_get ''env.navigator'' ''language'' ''en'',
          line_get ''env.navigator'' ''userAgent'' ''UA'',
          line_get ''env.navigator'' ''platform'' ''Linux'',
          line_get ''env'' ''navigator''
            (''{'' @ json_quote ''language'' @ '':'' @ json_quote ''en'' @ '',''
               @ json_quote ''userAgent'' @ '':'' @ json_quote ''UA'' @ '',''
               @ json_quote ''platform'' @ '':'' @ json_quote ''Linux'' @ ''}'')]
   \<and> console_out (final (set_handler env_options env_engine (Obj 1) ''env.navigator'' (KStr ''language'')
          (Str ''fr'') (ObjProxy (Obj 1) ''env.navigator'') toy_env))
       = [line_define ''env.navigator'' ''language''
            (''{'' @ json_quote ''value'' @ '':'' @ json_quote ''fr'' @ ''}'') ''true'',
          line_set ''env.navigator'' ''language'' ''fr'']
   \<and> console_out (final (has_handler env_options env_engine (Obj 1) ''env.navigator'' (KStr ''language'') toy_env))
       = [line_has ''env.navigator'' ''language'' ''true'']"
proof -
  have x1: "includes_str ''env.console'' ''console''" by simp
  have x2: "reflect_get env_engine (Obj 2) (KStr ''memory'') (ObjProxy (Obj 2) ''env.console'') toy_env
       = (Inr (Obj 5), toy_env)" by (simp add: evaluate)
  have x3: "get_handler env_options env_engine (Obj 2) ''env.console'' (KStr ''memory'')
        (ObjProxy (Obj 2) ''env.console'') toy_env
       = (Inr (Obj 5), toy_env, [Real (RGet (Obj 2) (KStr ''memory'') (ObjProxy (Obj 2) ''env.console''))])"
    using handlers_step_order [where cfg = env_options and plat = env_engine and s = toy_env
        and t = "Obj 2" and path = "''env.console''" and k = "KStr ''memory''"
        and receiver = "ObjProxy (Obj 2) ''env.console''" and r = "Inr (Obj 5)" and ?s1.0 = toy_env,
        THEN conjunct1] x1 x2 by blast
  have g: "\<not> unwatched env_options (KStr ''navigator'') \<and> \<not> includes_str ''env'' ''console''"
    by (simp add: unwatched_def option_select)
  have o_get: "outcome (get_handler env_options env_engine (Obj 0) ''env'' (KStr ''navigator'')
          (ObjProxy (Obj 0) ''env'') toy_env)
       = Inr (ObjProxy (Obj 1) ''env.navigator'')" by (simp add: evaluate)
  have r_get: "(\<exists>y s0 s1 res s3.
         reflect_get env_engine (Obj 0) (KStr ''navigator'') (ObjProxy (Obj 0) ''env'') s0 = (Inr y, s1)
       \<and> sink_of env_options env_engine
           (line_get ''env'' (propStr (KStr ''navigator'')) (tpl res)) s3
         = (Inr (), final (get_handler env_options env_engine (Obj 0) ''env'' (KStr ''navigator'')
          (ObjProxy (Obj 0) ''env'') toy_env)))"
    using handlers_step_order [where cfg = env_options and plat = env_engine and s = toy_env and t = "Obj 0" and path = "''env''" and k = "KStr ''navigator''" and receiver = "ObjProxy (Obj 0) ''env''" and v = "ObjProxy (Obj 1) ''env.navigator''"
        and s' = "final (get_handler env_options env_engine (Obj 0) ''env'' (KStr ''navigator'')
          (ObjProxy (Obj 0) ''env'') toy_env)"
        and j = "journal (get_handler env_options env_engine (Obj 0) ''env'' (KStr ''navigator'')
          (ObjProxy (Obj 0) ''env'') toy_env)",
        THEN conjunct2, THEN conjunct1]
      g run_triple [OF o_get] by blast
  have o_set: "outcome (set_handler env_options env_engine (Obj 1) ''env.navigator'' (KStr ''language'')
          (Str ''fr'') (ObjProxy (Obj 1) ''env.navigator'') toy_env)
       = Inr True" by (simp add: evaluate)
  have r_set: "(\<exists>u s0 s1 res s3.
         reflect_set env_engine (Obj 1) (KStr ''language'') (coalesce u (Str ''fr''))
           (ObjProxy (Obj 1) ''env.navigator'') s0 = (Inr True, s1)
       \<and> sink_of env_options env_engine
           (line_set ''env.navigator'' (propStr (KStr ''language'')) (tpl res)) s3
         = (Inr (), final (set_handler env_options env_engine (Obj 1) ''env.navigator'' (KStr ''language'')
          (Str ''fr'') (ObjProxy (Obj 1) ''env.navigator'') toy_env)))"
    using handlers_step_order [where cfg = env_options and plat = env_engine and s = toy_env and t = "Obj 1" and path = "''env.navigator''" and k = "KStr ''language''" and x = "Str ''fr''" and receiver = "ObjProxy (Obj 1) ''env.navigator''" and b = True
        and s' = "final (set_handler env_options env_engine (Obj 1) ''env.navigator'' (KStr ''language'')
          (Str ''fr'') (ObjProxy (Obj 1) ''env.navigator'') toy_env)"
        and j = "journal (set_handler env_options env_engine (Obj 1) ''env.navigator'' (KStr ''language'')
          (Str ''fr'') (ObjProxy (Obj 1) ''env.navigator'') toy_env)",
        THEN conjunct2, THEN conjunct2, THEN conjunct1]
      run_triple [OF o_set] by blast
  have o_app: "outcome (apply_handler env_options env_engine (Fun 6) ''env.makeObject''
          (ObjProxy (Obj 0) ''env'') (Arr []) toy_env)
       = Inr (Obj 7)" by (simp add: evaluate)
  have r_app: "(\<exists>u s0 result0 s1 name a res se.
         reflect_apply env_engine (Fun 6)
           (if bindThis env_options then Fun 6 else ObjProxy (Obj 0) ''env'') (coalesce u (Arr [])) s0
           = (Inr result0, s1)
       \<and> sink_of env_options env_engine (line_apply ''env.makeObject'' name a (tpl res)) se
         = (Inr (), final (apply_handler env_options env_engine (Fun 6) ''env.makeObject''
          (ObjProxy (Obj 0) ''env'') (Arr []) toy_env)))"
    using handlers_step_order [where cfg = env_options and plat = env_engine and s = toy_env and fn = "Fun 6" and path = "''env.makeObject''" and thisArg = "ObjProxy (Obj 0) ''env''" and args = "Arr []" and v = "Obj 7"
        and s' = "final (apply_handler env_options env_engine (Fun 6) ''env.makeObject''
          (ObjProxy (Obj 0) ''env'') (Arr []) toy_env)"
        and j = "journal (apply_handler env_options env_engine (Fun 6) ''env.makeObject''
          (ObjProxy (Obj 0) ''env'') (Arr []) toy_env)",
        THEN conjunct2, THEN conjunct2, THEN conjunct2, THEN conjunct1]
      run_triple [OF o_app] by blast
  have o_has: "outcome (has_handler env_options env_engine (Obj 1) ''env.navigator'' (KStr ''language'') toy_env)
       = Inr True" by (simp add: evaluate)
  have r_has: "(\<exists>s1. reflect_has env_engine (Obj 1) (KStr ''language'') toy_env = (Inr True, s1)
       \<and> sink_of env_options env_engine
           (line_has ''env.navigator'' (propStr (KStr ''language'')) (bool_string True)) s1
         = (Inr (), final (has_handler env_options env_engine (Obj 1) ''env.navigator'' (KStr ''language'') toy_env)))"
    using handlers_step_order [where cfg = env_options and plat = env_engine and s = toy_env and t = "Obj 1" and path = "''env.navigator''" and k = "KStr ''language''" and b = True
        and s' = "final (has_handler env_options env_engine (Obj 1) ''env.navigator'' (KStr ''language'') toy_env)"
        and j = "journal (has_handler env_options env_engine (Obj 1) ''env.navigator'' (KStr ''language'') toy_env)",
        THEN conjunct2, THEN conjunct2, THEN conjunct2, THEN conjunct2, THEN conjunct1]
      run_triple [OF o_has] by blast
  have o_del: "outcome (deleteProperty_handler env_options env_engine (Obj 1) ''env.navigator''
          (KStr ''language'') toy_env)
       = Inr True" by (simp add: evaluate)
  have r_del: "(\<exists>s1. reflect_deleteProperty env_engine (Obj 1) (KStr ''language'') toy_env = (Inr True, s1)
       \<and> sink_of env_options env_engine
           (line_delete ''env.navigator'' (propStr (KStr ''language'')) (bool_string True)) s1
         = (Inr (), final (deleteProperty_handler env_options env_engine (Obj 1) ''env.navigator''
          (KStr ''language'') toy_env)))"
    using handlers_step_order [where cfg = env_options and plat = env_engine and s = toy_env and t = "Obj 1" and path = "''env.navigator''" and k = "KStr ''language''" and b = True
        and s' = "final (deleteProperty_handler env_options env_engine (Obj 1) ''env.navigator''
          (KStr ''language'') toy_env)"
        and j = "journal (deleteProperty_handler env_options env_engine (Obj 1) ''env.navigator''
          (KStr ''language'') toy_env)",
        THEN conjunct2, THEN conjunct2, THEN conjunct2, THEN conjunct2, THEN conjunct2, THEN conjunct1]
      run_triple [OF o_del] by blast
  have o_def: "outcome (defineProperty_handler env_options env_engine (Obj 1) ''env.navigator''
          (KStr ''language'') (Obj 7) toy_env)
       = Inr True" by (simp add: evaluate)
  have r_def: "(\<exists>s1 a s2. reflect_defineProperty env_engine (Obj 1) (KStr ''language'') (Obj 7) toy_env
           = (Inr True, s1)
       \<and> sink_of env_options env_engine
           (line_define ''env.navigator'' (propStr (KStr ''language'')) (tpl a) (bool_string True)) s2
         = (Inr (), final (defineProperty_handler env_options env_engine (Obj 1) ''env.navigator''
          (KStr ''language'') (Obj 7) toy_env)))"
    using handlers_step_order [where cfg = env_options and plat = env_engine and s = toy_env and t = "Obj 1" and path = "''env.navigator''" and k = "KStr ''language''" and attributes = "Obj 7" and b = True
        and s' = "final (defineProperty_handler env_options env_engine (Obj 1) ''env.navigator''
          (KStr ''language'') (Obj 7) toy_env)"
        and j = "journal (defineProperty_handler env_options env_engine (Obj 1) ''env.navigator''
          (KStr ''language'') (Obj 7) toy_env)",
        THEN conjunct2, THEN conjunct2, THEN conjunct2, THEN conjunct2, THEN conjunct2, THEN conjunct2, THEN conjunct1]
      run_triple [OF o_def] by blast
  have o_gpr: "outcome (getPrototypeOf_handler env_options env_engine (Obj 1) ''env.navigator'' toy_env)
       = Inr Null" by (simp add: evaluate)
  have r_gpr: "(\<exists>s1 res s2. reflect_getPrototypeOf env_engine (Obj 1) toy_env = (Inr Null, s1)
       \<and> sink_of env_options env_engine (line_getPrototypeOf ''env.navigator'' (tpl res)) s2
         = (Inr (), final (getPrototypeOf_handler env_options env_engine (Obj 1) ''env.navigator'' toy_env)))"
    using handlers_step_order [where cfg = env_options and plat = env_engine and s = toy_env and t = "Obj 1" and path = "''env.navigator''" and v = Null
        and s' = "final (getPrototypeOf_handler env_options env_engine (Obj 1) ''env.navigator'' toy_env)"
        and j = "journal (getPrototypeOf_handler env_options env_engine (Obj 1) ''env.navigator'' toy_env)",
        THEN conjunct2, THEN conjunct2, THEN conjunct2, THEN conjunct2, THEN conjunct2, THEN conjunct2, THEN conjunct2, THEN conjunct1]
      run_triple [OF o_gpr] by blast
  have o_ext: "outcome (isExtensible_handler env_options env_engine (Obj 1) ''env.navigator'' toy_env)
       = Inr True" by (simp add: evaluate)
  have r_ext: "(\<exists>s1. reflect_isExtensible env_engine (Obj 1) toy_env = (Inr True, s1)
       \<and> sink_of env_options env_engine
           (line_isExtensible ''env.navigator'' (bool_string True)) s1
         = (Inr (), final (isExtensible_handler env_options env_engine (Obj 1) ''env.navigator'' toy_env)))"
    using handlers_step_order [where cfg = env_options and plat = env_engine and s = toy_env and t = "Obj 1" and path = "''env.navigator''" and b = True
        and s' = "final (isExtensible_handler env_options env_engine (Obj 1) ''env.navigator'' toy_env)"
        and j = "journal (isExtensible_handler env_options env_engine (Obj 1) ''env.navigator'' toy_env)",
        THEN conjunct2, THEN conjunct2, THEN conjunct2, THEN conjunct2, THEN conjunct2, THEN conjunct2, THEN conjunct2, THEN conjunct2, THEN conjunct1]
      run_triple [OF o_ext] by blast
  have o_con: "outcome (construct_handler env_options env_engine (Fun 6) ''env.makeObject'' (Arr [])
          (FunProxy (Fun 6) ''env.makeObject'') toy_env)
       = Inr (Obj 7)" by (simp add: evaluate)
  have r_con: "(\<exists>s1 name a res s5.
         reflect_construct env_engine (Fun 6) (Arr []) (FunProxy (Fun 6) ''env.makeObject'') toy_env
           = (Inr (Obj 7), s1)
       \<and> sink_of env_options env_engine
           (line_construct ''env.makeObject'' name (tpl a) (tpl res)) s5
         = (Inr (), final (construct_handler env_options env_engine (Fun 6) ''env.makeObject'' (Arr [])
          (FunProxy (Fun 6) ''env.makeObject'') toy_env)))"
    using handlers_step_order [where cfg = env_options and plat = env_engine and s = toy_env and fn = "Fun 6" and path = "''env.makeObject''" and args = "Arr []" and newTarget = "FunProxy (Fun 6) ''env.makeObject''" and v = "Obj 7"
        and s' = "final (construct_handler env_options env_engine (Fun 6) ''env.makeObject'' (Arr [])
          (FunProxy (Fun 6) ''env.makeObject'') toy_env)"
        and j = "journal (construct_handler env_options env_engine (Fun 6) ''env.makeObject'' (Arr [])
          (FunProxy (Fun 6) ''env.makeObject'') toy_env)",
        THEN conjunct2, THEN conjunct2, THEN conjunct2, THEN conjunct2, THEN conjunct2, THEN conjunct2, THEN conjunct2, THEN conjunct2, THEN conjunct2, THEN conjunct1]
      run_triple [OF o_con] by blast
  have o_spr: "outcome (setPrototypeOf_handler env_options env_engine (Obj 1) ''env.navigator'' Null toy_env)
       = Inr True" by (simp add: evaluate)
  have r_spr: "(\<exists>res s1 s2.
         sink_of env_options env_engine (line_setPrototypeOf ''env.navigator'' (tpl res)) s1
           = (Inr (), s2)
       \<and> reflect_setPrototypeOf env_engine (Obj 1) Null s2 = (Inr True, final (setPrototypeOf_handler env_options env_engine (Obj 1) ''env.navigator'' Null toy_env)))"
    using handlers_step_order [where cfg = env_options and plat = env_engine and s = toy_env and t = "Obj 1" and path = "''env.navigator''" and proto = Null and b = True
        and s' = "final (setPrototypeOf_handler env_options env_engine (Obj 1) ''env.navigator'' Null toy_env)"
        and j = "journal (setPrototypeOf_handler env_options env_engine (Obj 1) ''env.navigator'' Null toy_env)",
        THEN conjunct2, THEN conjunct2, THEN conjunct2, THEN conjunct2, THEN conjunct2, THEN conjunct2, THEN conjunct2, THEN conjunct2, THEN conjunct2, THEN conjunct2, THEN conjunct1]
      run_triple [OF o_spr] by blast
  have o_pre: "outcome (preventExtensions_handler env_options env_engine (Obj 1) ''env.navigator'' toy_env)
       = Inr True" by (simp add: evaluate)
  have r_pre: "(\<exists>s1.
         sink_of env_options env_engine (line_preventExtensions ''env.navigator'') toy_env
           = (Inr (), s1)
       \<and> reflect_preventExtensions env_engine (Obj 1) s1 = (Inr True, final (preventExtensions_handler env_options env_engine (Obj 1) ''env.navigator'' toy_env)))"
    using handlers_step_order [where cfg = env_options and plat = env_engine and s = toy_env and t = "Obj 1" and path = "''env.navigator''" and b = True
        and s' = "final (preventExtensions_handler env_options env_engine (Obj 1) ''env.navigator'' toy_env)"
        and j = "journal (preventExtensions_handler env_options env_engine (Obj 1) ''env.navigator'' toy_env)",
        THEN conjunct2, THEN conjunct2, THEN conjunct2, THEN conjunct2, THEN conjunct2, THEN conjunct2, THEN conjunct2, THEN conjunct2, THEN conjunct2, THEN conjunct2, THEN conjunct2]
      run_triple [OF o_pre] by blast
  have c0: "console_out (final (get_handler env_options env_engine (Obj 0) ''env'' (KStr ''navigator'')
          (ObjProxy (Obj 0) ''env'') toy_env))
       = [line_get ''env.navigator'' ''toJSON'' ''undefined'',
          line_get ''env.navigator'' ''language'' ''en'',
          line_get ''env.navigator'' ''userAgent'' ''UA'',
          line_get ''env.navigator'' ''platform'' ''Linux'',
          line_get ''env'' ''navigator''
            (''{'' @ json_quote ''language'' @ '':'' @ json_quote ''en'' @ '',''
               @ json_quote ''userAgent'' @ '':'' @ json_quote ''UA'' @ '',''
               @ json_quote ''platform'' @ '':'' @ json_quote ''Linux'' @ ''}'')]"
    by (simp add: evaluate)
  have c1: "console_out (final (set_handler env_options env_engine (Obj 1) ''env.navigator'' (KStr ''language'')
          (Str ''fr'') (ObjProxy (Obj 1) ''env.navigator'') toy_env))
       = [line_define ''env.navigator'' ''language''
            (''{'' @ json_quote ''value'' @ '':'' @ json_quote ''fr'' @ ''}'') ''true'',
          line_set ''env.navigator'' ''language'' ''fr'']"
    by (simp add: evaluate)
  have c2: "console_out (final (has_handler env_options env_engine (Obj 1) ''env.navigator'' (KStr ''language'') toy_env))
       = [line_has ''env.navigator'' ''language'' ''true'']"
    by (simp add: evaluate)
  from x1 x2 x3 g o_get r_get o_set r_set o_app r_app o_has r_has o_del r_del o_def r_def o_gpr r_gpr o_ext r_ext o_con r_con o_spr r_spr o_pre r_pre c0 c1 c2
  show ?thesis by blast
qed


end
